theory Spec2Isabelle
  imports Complex_Main "HOL-Library.Sublist" "HOL-Library.Multiset"
begin

section \<open>JavaScript values and built-ins used by the pipeline\<close>

text \<open>
  The repository is TypeScript. A finite JavaScript number is modelled by the real number
  it denotes. In the data of the engines and of the fallback set a decimal literal of the
  source (\<^verbatim>\<open>23.3\<close>) stands as the decimal it writes, and sums, products and the average
  are exact. The report formatter is modelled in double precision: its quotients are
  rounded as the platform rounds them and its properties are stated for doubles, because
  the digits that \<^verbatim>\<open>toFixed\<close> prints are those of the double. Where a caller can hand
  over \<^verbatim>\<open>NaN\<close> (the routes pass \<^verbatim>\<open>parseInt\<close> results) the parameter has type
  \<open>jsnum\<close>; an optional parameter is an \<open>option\<close>, \<open>None\<close> being \<^verbatim>\<open>undefined\<close>.
  Strings are lists of 8-bit characters; case conversion is the ASCII one. Timestamps
  (\<^verbatim>\<open>new Date().toISOString()\<close>) are passed in as a parameter \<open>now\<close>.
\<close>

datatype jsnum = NaN | Num real

text \<open>Truthiness of an optional number: \<^verbatim>\<open>undefined\<close>, \<^verbatim>\<open>NaN\<close> and \<^verbatim>\<open>0\<close> are falsy.\<close>

definition truthy_number :: "jsnum option \<Rightarrow> bool" where
  "truthy_number v = (case v of None \<Rightarrow> False | Some NaN \<Rightarrow> False | Some (Num x) \<Rightarrow> x \<noteq> 0)"

text \<open>Truthiness of an optional string: \<^verbatim>\<open>undefined\<close> and the empty string are falsy.\<close>

definition truthy_string :: "string option \<Rightarrow> bool" where
  "truthy_string v = (case v of None \<Rightarrow> False | Some s \<Rightarrow> s \<noteq> [])"

text \<open>\<^verbatim>\<open>a <= b\<close> and \<^verbatim>\<open>a >= b\<close> for a finite \<open>a\<close>: false when \<open>b\<close> is \<^verbatim>\<open>NaN\<close>
  or \<^verbatim>\<open>undefined\<close>.\<close>

definition js_le :: "real \<Rightarrow> jsnum option \<Rightarrow> bool" where
  "js_le a b = (case b of Some (Num y) \<Rightarrow> a \<le> y | _ \<Rightarrow> False)"

definition js_ge :: "real \<Rightarrow> jsnum option \<Rightarrow> bool" where
  "js_ge a b = (case b of Some (Num y) \<Rightarrow> a \<ge> y | _ \<Rightarrow> False)"

text \<open>\<^verbatim>\<open>Math.round\<close>: the nearest integer, a tie going up (towards \<open>+\<infinity>\<close>).\<close>

definition js_round :: "real \<Rightarrow> real" where
  "js_round x = of_int \<lfloor>x + 1 / 2\<rfloor>"

text \<open>
  Division in double precision (IEEE 754 binary64, which ECMAScript numbers are): the
  quotient is the double nearest to the exact quotient, of two nearest ones the one with
  the even significand. A double has 53 significant bits: with \<open>2\<^sup>e \<le> \<bar>x\<bar> < 2\<^sup>e\<^sup>+\<^sup>1\<close> it
  is a multiple of \<open>2\<^sup>e\<^sup>-\<^sup>5\<^sup>2\<close>, and below \<open>2\<^sup>-\<^sup>1\<^sup>0\<^sup>2\<^sup>2\<close> a multiple of \<open>2\<^sup>-\<^sup>1\<^sup>0\<^sup>7\<^sup>4\<close>. The
  numbers divided here are finite and the divisors are powers of ten from \<open>10\<^sup>6\<close> on,
  so no quotient overflows. \<open>ilog2 n\<close> is the integer logarithm of a positive \<open>n\<close>,
  \<open>binary_exponent x\<close> the exponent \<open>e\<close> of a positive \<open>x\<close>, \<open>pow2 k\<close> the power
  \<open>2\<^sup>k\<close> for an integer \<open>k\<close>, and \<open>round_half_even\<close> rounds to the nearest
  integer, a tie going to the even one.
\<close>

fun ilog2 :: "nat \<Rightarrow> nat" where
  "ilog2 n = (if n < 2 then 0 else Suc (ilog2 (n div 2)))"

declare ilog2.simps [simp del]

definition binary_exponent :: "real \<Rightarrow> int" where
  "binary_exponent x =
     (if 1 \<le> x then int (ilog2 (nat \<lfloor>x\<rfloor>))
      else - int (Suc (ilog2 (nat \<lceil>1 / x\<rceil> - 1))))"

definition pow2 :: "int \<Rightarrow> real" where
  "pow2 k = (if 0 \<le> k then 2 ^ nat k else 1 / 2 ^ nat (- k))"

definition round_half_even :: "real \<Rightarrow> int" where
  "round_half_even r =
     (let f = \<lfloor>r\<rfloor>; d = r - of_int f
      in if d < 1 / 2 then f else if 1 / 2 < d then f + 1 else if even f then f else f + 1)"

definition round_double :: "real \<Rightarrow> real" where
  "round_double x =
     (if x = 0 then 0
      else
        (let ulp = pow2 (max (binary_exponent \<bar>x\<bar>) (- 1022) - 52)
         in sgn x * of_int (round_half_even (\<bar>x\<bar> / ulp)) * ulp))"

definition js_div :: "real \<Rightarrow> real \<Rightarrow> real" where
  "js_div a b = round_double (a / b)"

text \<open>
  The numbers of JavaScript are the doubles: the reals that rounding leaves as they are,
  below \<open>2\<^sup>1\<^sup>0\<^sup>2\<^sup>4\<close> in magnitude. In JavaScript a decimal literal \<open>d\<close>, of a program
  or of a JSON text, denotes the double \<open>round_double d\<close>.
\<close>

definition is_double :: "real \<Rightarrow> bool" where
  "is_double x \<longleftrightarrow> round_double x = x \<and> \<bar>x\<bar> < 2 ^ 1024"

text \<open>
  \<^verbatim>\<open>Array.prototype.sort(cmp)\<close> is the platform's; ECMAScript 2019 requires it to be
  stable, and for a comparator that is a consistent order the sorted stable permutation
  is unique. It is modelled by stable insertion: an element goes in front of the first
  element it does not compare greater than.
\<close>

fun insort_cmp :: "('a \<Rightarrow> 'a \<Rightarrow> real) \<Rightarrow> 'a \<Rightarrow> 'a list \<Rightarrow> 'a list" where
  "insort_cmp cmp x [] = [x]"
| "insort_cmp cmp x (y # ys) =
     (if cmp x y \<le> 0 then x # y # ys else y # insort_cmp cmp x ys)"

definition array_sort :: "('a \<Rightarrow> 'a \<Rightarrow> real) \<Rightarrow> 'a list \<Rightarrow> 'a list" where
  "array_sort cmp xs = foldr (insort_cmp cmp) xs []"

text \<open>\<^verbatim>\<open>ToIntegerOrInfinity\<close>: \<^verbatim>\<open>NaN\<close> becomes 0, a finite number is truncated
  towards zero.\<close>

definition to_integer :: "jsnum \<Rightarrow> int" where
  "to_integer v = (case v of NaN \<Rightarrow> 0 | Num x \<Rightarrow> (if x \<ge> 0 then \<lfloor>x\<rfloor> else \<lceil>x\<rceil>))"

text \<open>\<^verbatim>\<open>Array.prototype.slice(start, end)\<close> on integer arguments: a negative index
  counts from the end, and both ends are clamped to the array.\<close>

definition clamp_index :: "nat \<Rightarrow> int \<Rightarrow> nat" where
  "clamp_index len i = (if i < 0 then nat (max (int len + i) 0) else nat (min i (int len)))"

definition array_slice :: "'a list \<Rightarrow> int \<Rightarrow> int \<Rightarrow> 'a list" where
  "array_slice xs start end =
     (let k = clamp_index (length xs) start; final = clamp_index (length xs) end
      in take (final - k) (drop k xs))"

text \<open>\<^verbatim>\<open>String.prototype.toLowerCase\<close>, \<^verbatim>\<open>toUpperCase\<close> (ASCII) and
  \<^verbatim>\<open>includes\<close>.\<close>

definition lower_char :: "char \<Rightarrow> char" where
  "lower_char c =
     (case map_of (zip ''ABCDEFGHIJKLMNOPQRSTUVWXYZ'' ''abcdefghijklmnopqrstuvwxyz'') c of
        Some d \<Rightarrow> d | None \<Rightarrow> c)"

definition upper_char :: "char \<Rightarrow> char" where
  "upper_char c =
     (case map_of (zip ''abcdefghijklmnopqrstuvwxyz'' ''ABCDEFGHIJKLMNOPQRSTUVWXYZ'') c of
        Some d \<Rightarrow> d | None \<Rightarrow> c)"

definition toLowerCase :: "string \<Rightarrow> string" where
  "toLowerCase s = map lower_char s"

definition toUpperCase :: "string \<Rightarrow> string" where
  "toUpperCase s = map upper_char s"

fun str_includes :: "string \<Rightarrow> string \<Rightarrow> bool" where
  "str_includes [] sub = (sub = [])"
| "str_includes (c # cs) sub = (prefix sub (c # cs) \<or> str_includes cs sub)"

text \<open>\<^verbatim>\<open>Array.prototype.join(sep)\<close>.\<close>

fun join :: "string \<Rightarrow> string list \<Rightarrow> string" where
  "join sep [] = []"
| "join sep [x] = x"
| "join sep (x # y # ys) = x @ sep @ join sep (y # ys)"

subsection \<open>Number formatting\<close>

text \<open>
  What depends on the platform or the locale is a parameter: \<^verbatim>\<open>Number::toString\<close>
  (used by template interpolation, and by \<^verbatim>\<open>toFixed\<close> from \<open>10\<^sup>2\<^sup>1\<close> on),
  \<^verbatim>\<open>Number.prototype.toLocaleString\<close> and \<^verbatim>\<open>Date.prototype.toLocaleString\<close>.
\<close>

record platform =
  numberToString :: "real \<Rightarrow> string"
  numberToLocaleString :: "real \<Rightarrow> string"
  dateToLocaleString :: "string \<Rightarrow> string"

definition digit_char :: "nat \<Rightarrow> char" where
  "digit_char d = ''0123456789'' ! d"

fun digits :: "nat \<Rightarrow> string" where
  "digits n = (if n < 10 then [digit_char n] else digits (n div 10) @ [digit_char (n mod 10)])"

declare digits.simps [simp del]

text \<open>
  \<^verbatim>\<open>Number.prototype.toFixed(f)\<close> as ECMA-262 words it: the sign is split off, a
  magnitude from \<open>10\<^sup>2\<^sup>1\<close> on is printed by \<^verbatim>\<open>Number::toString\<close>, and otherwise
  \<open>n\<close> is the integer with \<open>n / 10\<^sup>f\<close> nearest to the magnitude (the larger of two),
  printed with at least \<open>f + 1\<close> digits and a point before the last \<open>f\<close>.
\<close>

definition toFixed :: "platform \<Rightarrow> nat \<Rightarrow> real \<Rightarrow> string" where
  "toFixed pf f x0 =
     (let s = (if x0 < 0 then ''-'' else '''');
          x = \<bar>x0\<bar>
      in if x \<ge> 10 ^ 21 then s @ numberToString pf x
         else
           (let n = nat \<lfloor>x * 10 ^ f + 1 / 2\<rfloor>;
                m = (if n = 0 then ''0'' else digits n);
                m = (if f \<noteq> 0
                     then (let k = length m;
                               m = (if k \<le> f then replicate (f + 1 - k) (CHR ''0'') @ m else m);
                               k = (if k \<le> f then f + 1 else k)
                           in take (k - f) m @ ''.'' @ drop (k - f) m)
                     else m)
            in s @ m))"

section \<open>Filter, score and rank: business opportunities\<close>

record BusinessOpportunity =
  opp_id :: string
  title :: string
  description :: string
  category :: string
  price :: real
  currency :: string
  monthly_revenue :: real
  monthly_profit :: real
  multiple :: real
  age_months :: real
  marketplace :: string
  url :: string
  verified :: bool
  score :: real

record BusinessMeta =
  source :: string
  count :: nat
  total_value :: real
  avg_multiple :: real

record BusinessReport =
  ok :: bool
  timestamp :: string
  currency :: string
  opportunities :: "BusinessOpportunity list"
  meta :: BusinessMeta

definition mockOpportunities :: "BusinessOpportunity list" where
  "mockOpportunities =
    [\<lparr>opp_id = ''flip_001'', title = ''AI Content Generator SaaS'',
      description = ''Automated content generation tool with 500+ active users'',
      category = ''saas'', price = 45000, BusinessOpportunity.currency = ''USD'',
      monthly_revenue = 2500, monthly_profit = 1800, multiple = 25, age_months = 18,
      marketplace = ''Flippa'', url = ''https://flippa.com/12345'', verified = True,
      score = 8.5\<rparr>,
     \<lparr>opp_id = ''micro_002'', title = ''Niche E-commerce Store'',
      description =
        ''Dropshipping store in fitness niche with established supplier relationships'',
      category = ''ecommerce'', price = 28000, BusinessOpportunity.currency = ''USD'',
      monthly_revenue = 4200, monthly_profit = 1200, multiple = 23.3, age_months = 24,
      marketplace = ''MicroAcquire'', url = ''https://microacquire.com/listings/xyz'',
      verified = True, score = 7.8\<rparr>,
     \<lparr>opp_id = ''indie_003'', title = ''Developer Tools Chrome Extension'',
      description = ''Productivity tool for developers with 10k+ users'',
      category = ''app'', price = 15000, BusinessOpportunity.currency = ''USD'',
      monthly_revenue = 800, monthly_profit = 650, multiple = 23.1, age_months = 12,
      marketplace = ''IndieHackers'', url = ''https://indiehackers.com/product/abc'',
      verified = False, score = 7.2\<rparr>,
     \<lparr>opp_id = ''flip_004'', title = ''Newsletter Platform SaaS'',
      description = ''Email newsletter platform with 200 paying customers'',
      category = ''saas'', price = 95000, BusinessOpportunity.currency = ''USD'',
      monthly_revenue = 5500, monthly_profit = 3800, multiple = 25, age_months = 30,
      marketplace = ''Flippa'', url = ''https://flippa.com/67890'', verified = True,
      score = 9.1\<rparr>,
     \<lparr>opp_id = ''micro_005'', title = ''Social Media Analytics Tool'',
      description = ''Instagram analytics dashboard with API integration'',
      category = ''saas'', price = 32000, BusinessOpportunity.currency = ''USD'',
      monthly_revenue = 1800, monthly_profit = 1200, multiple = 26.7, age_months = 15,
      marketplace = ''MicroAcquire'', url = ''https://microacquire.com/listings/social'',
      verified = True, score = 8.0\<rparr>]"

text \<open>
  The body of \<^verbatim>\<open>getBusinessOpportunities\<close>, with the candidate list it filters as a
  parameter; the source binds it to the five listings above. Nothing in the body throws
  on this data, so the \<^verbatim>\<open>catch\<close> branch is never taken.
\<close>

definition getBusinessOpportunities_on ::
  "BusinessOpportunity list \<Rightarrow> string \<Rightarrow> string option \<Rightarrow> jsnum option \<Rightarrow> jsnum option
     \<Rightarrow> BusinessReport" where
  "getBusinessOpportunities_on candidates now category' maxPrice minRevenue =
     (let filtered = candidates;
          filtered = (if truthy_string category'
                      then filter (\<lambda>opp. Some (BusinessOpportunity.category opp) = category') filtered
                      else filtered);
          filtered = (if truthy_number maxPrice
                      then filter (\<lambda>opp. js_le (BusinessOpportunity.price opp) maxPrice) filtered
                      else filtered);
          filtered = (if truthy_number minRevenue
                      then filter (\<lambda>opp. js_ge (monthly_revenue opp) minRevenue) filtered
                      else filtered);
          filtered = array_sort (\<lambda>a b. score b - score a) filtered;
          total_value = foldl (\<lambda>sum opp. sum + BusinessOpportunity.price opp) 0 filtered;
          avg_multiple = (if length filtered > 0
                          then foldl (\<lambda>sum opp. sum + multiple opp) 0 filtered
                               / real (length filtered)
                          else 0)
      in \<lparr>ok = True, timestamp = now, currency = ''USD'', opportunities = filtered,
          meta = \<lparr>source = ''Flippa + MicroAcquire + IndieHackers (Mock)'',
                  count = length filtered,
                  total_value = total_value,
                  avg_multiple = js_round (avg_multiple * 10) / 10\<rparr>\<rparr>)"

definition getBusinessOpportunities ::
  "string \<Rightarrow> string option \<Rightarrow> jsnum option \<Rightarrow> jsnum option \<Rightarrow> BusinessReport" where
  "getBusinessOpportunities = getBusinessOpportunities_on mockOpportunities"

section \<open>Filter, score and rank: domain opportunities\<close>

datatype DomainStatus = available | auction | premium | taken

record DomainOpportunity =
  domain :: string
  extension :: string
  price :: real
  currency :: string
  registrar :: string
  expires_at :: "string option"
  estimated_value :: "real option"
  roi_score :: "real option"
  status :: DomainStatus

record DomainsMeta =
  source :: string
  count :: nat
  total_value :: real

record DomainsReport =
  ok :: bool
  timestamp :: string
  currency :: string
  opportunities :: "DomainOpportunity list"
  meta :: DomainsMeta

definition mockDomains :: "DomainOpportunity list" where
  "mockDomains =
    [\<lparr>domain = ''financeflow'', extension = ''.io'', price = 299,
      DomainOpportunity.currency = ''USD'', registrar = ''Namecheap'', expires_at = None,
      estimated_value = Some 500, roi_score = Some 1.67, status = available\<rparr>,
     \<lparr>domain = ''cryptotracker'', extension = ''.com'', price = 1200,
      DomainOpportunity.currency = ''USD'', registrar = ''GoDaddy Auctions'',
      expires_at = Some ''2025-12-31'', estimated_value = Some 2500, roi_score = Some 2.08,
      status = auction\<rparr>,
     \<lparr>domain = ''saasmetrics'', extension = ''.ai'', price = 450,
      DomainOpportunity.currency = ''USD'', registrar = ''Dynadot'', expires_at = None,
      estimated_value = Some 800, roi_score = Some 1.78, status = premium\<rparr>,
     \<lparr>domain = ''portfoliodash'', extension = ''.app'', price = 89,
      DomainOpportunity.currency = ''USD'', registrar = ''Namecheap'', expires_at = None,
      estimated_value = Some 200, roi_score = Some 2.25, status = available\<rparr>]"

text \<open>\<^verbatim>\<open>opp.roi_score || 0\<close>: an absent score counts as 0 (and 0 is 0 anyway).\<close>

definition roi_or_0 :: "DomainOpportunity \<Rightarrow> real" where
  "roi_or_0 opp = (case roi_score opp of None \<Rightarrow> 0 | Some r \<Rightarrow> r)"

text \<open>
  The body of \<^verbatim>\<open>getDomainOpportunities\<close> over a candidate list (the source binds it
  to the four domains above). The default of \<^verbatim>\<open>maxPrice\<close> is 1000 and applies when
  the argument is \<^verbatim>\<open>undefined\<close>.
\<close>

definition getDomainOpportunities_on ::
  "DomainOpportunity list \<Rightarrow> string \<Rightarrow> string list \<Rightarrow> jsnum option \<Rightarrow> DomainsReport" where
  "getDomainOpportunities_on candidates now keywords maxPrice' =
     (let maxPrice = (case maxPrice' of None \<Rightarrow> Some (Num 1000) | Some v \<Rightarrow> Some v);
          filtered = filter (\<lambda>opp.
            (let matchesKeyword = (length keywords = 0 \<or>
                   list_ex (\<lambda>kw. str_includes (toLowerCase (domain opp)) (toLowerCase kw)) keywords);
                 matchesPrice = js_le (DomainOpportunity.price opp) maxPrice
             in matchesKeyword \<and> matchesPrice)) candidates;
          filtered = array_sort (\<lambda>a b. roi_or_0 b - roi_or_0 a) filtered;
          total_value = foldl (\<lambda>sum opp. sum + DomainOpportunity.price opp) 0 filtered
      in \<lparr>ok = True, timestamp = now, currency = ''USD'', opportunities = filtered,
          meta = \<lparr>source = ''Namecheap API (Mock)'',
                  count = length filtered,
                  total_value = total_value\<rparr>\<rparr>)"

definition getDomainOpportunities :: "string \<Rightarrow> string list \<Rightarrow> jsnum option \<Rightarrow> DomainsReport" where
  "getDomainOpportunities = getDomainOpportunities_on mockDomains"

subsection \<open>The selection the engine is specified to make\<close>

text \<open>
  Written from the specification: the predicates of a filter specification. Every
  parameter that is given restricts the result.
\<close>

definition business_given ::
  "string option \<Rightarrow> jsnum option \<Rightarrow> jsnum option \<Rightarrow> BusinessOpportunity \<Rightarrow> bool" where
  "business_given c mp mr opp =
     ((case c of None \<Rightarrow> True | Some s \<Rightarrow> BusinessOpportunity.category opp = s) \<and>
      (case mp of None \<Rightarrow> True | Some v \<Rightarrow> js_le (BusinessOpportunity.price opp) (Some v)) \<and>
      (case mr of None \<Rightarrow> True | Some v \<Rightarrow> js_ge (monthly_revenue opp) (Some v)))"

text \<open>
  What the guards of \<^verbatim>\<open>getBusinessOpportunities\<close> make of it: a parameter restricts
  the result only when it is truthy, so a category that is the empty string and a bound
  that is 0 or \<^verbatim>\<open>NaN\<close> restrict nothing.
\<close>

definition business_selected ::
  "string option \<Rightarrow> jsnum option \<Rightarrow> jsnum option \<Rightarrow> BusinessOpportunity \<Rightarrow> bool" where
  "business_selected c mp mr opp =
     ((case c of None \<Rightarrow> True | Some s \<Rightarrow> s = [] \<or> BusinessOpportunity.category opp = s) \<and>
      (case mp of Some (Num m) \<Rightarrow> m = 0 \<or> BusinessOpportunity.price opp \<le> m | _ \<Rightarrow> True) \<and>
      (case mr of Some (Num m) \<Rightarrow> m = 0 \<or> monthly_revenue opp \<ge> m | _ \<Rightarrow> True))"

text \<open>Written from the specification: the selection of the domain engine, a keyword
  match (an empty keyword list matches everything) within the maximum price.\<close>

definition domain_selected :: "string list \<Rightarrow> jsnum option \<Rightarrow> DomainOpportunity \<Rightarrow> bool" where
  "domain_selected kws mp opp =
     ((kws = [] \<or> (\<exists>kw \<in> set kws. sublist (toLowerCase kw) (toLowerCase (domain opp)))) \<and>
      (case mp of None \<Rightarrow> DomainOpportunity.price opp \<le> 1000
       | Some NaN \<Rightarrow> False
       | Some (Num m) \<Rightarrow> DomainOpportunity.price opp \<le> m))"

section \<open>Multi-provider aggregation: the CoinMarketCap overview\<close>

text \<open>
  A rejected promise (a thrown exception) is a value of type \<open>error\<close>: \<open>Error msg\<close> is
  \<^verbatim>\<open>new Error(msg)\<close>, and \<open>TypeError\<close> is what reading a property of
  \<^verbatim>\<open>undefined\<close> throws.
\<close>

datatype error = Error string | TypeError

record CMCQuote =
  price :: real
  volume_24h :: real
  volume_change_24h :: real
  percent_change_1h :: real
  percent_change_24h :: real
  percent_change_7d :: real
  percent_change_30d :: real
  market_cap :: real
  market_cap_dominance :: real
  fully_diluted_market_cap :: real
  last_updated :: string

record CMCCryptocurrency =
  cmc_id :: real
  name :: string
  symbol :: string
  slug :: string
  cmc_rank :: real
  num_market_pairs :: real
  circulating_supply :: real
  total_supply :: real
  max_supply :: "real option"
  last_updated :: string
  date_added :: string
  tags :: "string list"
  platform :: "string option"
  quote :: "string \<rightharpoonup> CMCQuote"

record CMCGlobalMetrics =
  active_cryptocurrencies :: real
  total_cryptocurrencies :: real
  active_market_pairs :: real
  active_exchanges :: real
  total_exchanges :: real
  eth_dominance :: real
  btc_dominance :: real
  defi_volume_24h :: real
  defi_market_cap :: real
  stablecoin_volume_24h :: real
  stablecoin_market_cap :: real
  derivatives_volume_24h :: real
  total_market_cap :: real
  total_volume_24h :: real
  last_updated :: string

text \<open>
  The environment of the integration: the credential read from the process environment
  (empty when it is not configured), and what each live endpoint answers, after the
  status check and \<^verbatim>\<open>response.json()\<close>: the payload \<^verbatim>\<open>data.data\<close>, or the error thrown.
\<close>

record cmc_env =
  CMC_API_KEY :: string
  listings_latest :: "jsnum \<Rightarrow> string \<Rightarrow> error + CMCCryptocurrency list"
  global_metrics_latest :: "string \<Rightarrow> error + CMCGlobalMetrics"

definition mockData :: "string \<Rightarrow> CMCCryptocurrency list" where
  "mockData now =
    [\<lparr>cmc_id = 1, name = ''Bitcoin'', symbol = ''BTC'', slug = ''bitcoin'', cmc_rank = 1,
      num_market_pairs = 10000, circulating_supply = 19500000, total_supply = 19500000,
      max_supply = Some 21000000, CMCCryptocurrency.last_updated = now,
      date_added = ''2013-04-28T00:00:00.000Z'', tags = [''mineable'', ''pow'', ''sha-256''],
      platform = None,
      quote = [''USD'' \<mapsto>
        \<lparr>price = 109554.23, volume_24h = 35000000000, volume_change_24h = 5.2,
         percent_change_1h = 0.15, percent_change_24h = 1.57, percent_change_7d = 3.45,
         percent_change_30d = 12.34, market_cap = 2136307485000,
         market_cap_dominance = 56.5, fully_diluted_market_cap = 2300634830000,
         CMCQuote.last_updated = now\<rparr>]\<rparr>,
     \<lparr>cmc_id = 1027, name = ''Ethereum'', symbol = ''ETH'', slug = ''ethereum'', cmc_rank = 2,
      num_market_pairs = 8000, circulating_supply = 120000000, total_supply = 120000000,
      max_supply = None, CMCCryptocurrency.last_updated = now,
      date_added = ''2015-08-07T00:00:00.000Z'',
      tags = [''mineable'', ''pow'', ''smart-contracts''],
      platform = None,
      quote = [''USD'' \<mapsto>
        \<lparr>price = 3858.23, volume_24h = 18000000000, volume_change_24h = 3.8,
         percent_change_1h = 0.25, percent_change_24h = 2.34, percent_change_7d = 5.67,
         percent_change_30d = 15.89, market_cap = 462987600000,
         market_cap_dominance = 18.2, fully_diluted_market_cap = 462987600000,
         CMCQuote.last_updated = now\<rparr>]\<rparr>]"

definition getMockCMCData :: "string \<Rightarrow> jsnum \<Rightarrow> CMCCryptocurrency list" where
  "getMockCMCData now limit = array_slice (mockData now) 0 (to_integer limit)"

definition getMockGlobalMetrics :: "string \<Rightarrow> CMCGlobalMetrics" where
  "getMockGlobalMetrics now =
     \<lparr>active_cryptocurrencies = 10500, total_cryptocurrencies = 25000,
      active_market_pairs = 85000, active_exchanges = 750, total_exchanges = 1200,
      eth_dominance = 18.2, btc_dominance = 56.5, defi_volume_24h = 5000000000,
      defi_market_cap = 85000000000, stablecoin_volume_24h = 75000000000,
      stablecoin_market_cap = 150000000000, derivatives_volume_24h = 120000000000,
      total_market_cap = 3800000000000, total_volume_24h = 125000000000,
      last_updated = now\<rparr>"

definition getCMCTopCryptos ::
  "cmc_env \<Rightarrow> string \<Rightarrow> jsnum \<Rightarrow> string \<Rightarrow> error + CMCCryptocurrency list" where
  "getCMCTopCryptos env now limit currency' =
     (if CMC_API_KEY env = [] then Inr (getMockCMCData now limit)
      else listings_latest env limit currency')"

definition getCMCGlobalMetrics :: "cmc_env \<Rightarrow> string \<Rightarrow> string \<Rightarrow> error + CMCGlobalMetrics" where
  "getCMCGlobalMetrics env now currency' =
     (if CMC_API_KEY env = [] then Inr (getMockGlobalMetrics now)
      else global_metrics_latest env currency')"

text \<open>
  A property read \<^verbatim>\<open>obj[key]\<close> on a plain object (an object literal, or what
  \<^verbatim>\<open>response.json()\<close> builds). An own property gives its value. Otherwise the key is
  looked up on \<^verbatim>\<open>Object.prototype\<close>: for one of its members (those of ECMA-262, Annex B
  included) the read gives that member, a function or, for \<^verbatim>\<open>__proto__\<close>, the prototype
  object itself: a value that is not \<^verbatim>\<open>undefined\<close> and has none of the properties the
  code goes on to read. For any other key the read gives \<^verbatim>\<open>undefined\<close>.
\<close>

definition object_prototype_keys :: "string list" where
  "object_prototype_keys =
     [''constructor'', ''hasOwnProperty'', ''isPrototypeOf'', ''propertyIsEnumerable'',
      ''toLocaleString'', ''toString'', ''valueOf'', ''__proto__'', ''__defineGetter__'',
      ''__defineSetter__'', ''__lookupGetter__'', ''__lookupSetter__'']"

datatype 'a property = Own 'a | Inherited | Undefined

definition get_property :: "(string \<rightharpoonup> 'a) \<Rightarrow> string \<Rightarrow> 'a property" where
  "get_property obj key =
     (case obj key of
        Some v \<Rightarrow> Own v
      | None \<Rightarrow> if key \<in> set object_prototype_keys then Inherited else Undefined)"

record GlobalView =
  total_market_cap :: real
  total_volume_24h :: real
  btc_dominance :: real
  eth_dominance :: real
  active_cryptocurrencies :: real
  active_exchanges :: real

text \<open>
  The five figures of an item are read from the quote and have type \<open>'n\<close>: in what
  \<^verbatim>\<open>getCMCMarketOverview\<close> returns it is \<open>real option\<close>, \<open>None\<close> being
  \<^verbatim>\<open>undefined\<close>; where a consumer computes with the figures it is \<open>real\<close>.
\<close>

record 'n TopCrypto =
  rank :: real
  name :: string
  symbol :: string
  price :: 'n
  market_cap :: 'n
  volume_24h :: 'n
  percent_change_24h :: 'n
  percent_change_7d :: 'n

record OverviewMeta =
  source :: string
  count :: nat

record 'n MarketOverview =
  ok :: bool
  timestamp :: string
  currency :: string
  global :: GlobalView
  top_cryptos :: "'n TopCrypto list"
  meta :: OverviewMeta

text \<open>
  One element of \<^verbatim>\<open>topCryptos.map(...)\<close>. When \<^verbatim>\<open>crypto.quote[currency]\<close> is
  \<^verbatim>\<open>undefined\<close>, reading its \<^verbatim>\<open>price\<close> throws. When it is an inherited member,
  each of the five reads gives \<^verbatim>\<open>undefined\<close> and the item is built without figures.
\<close>

definition top_crypto_view ::
  "string \<Rightarrow> CMCCryptocurrency \<Rightarrow> real option TopCrypto option" where
  "top_crypto_view currency' crypto =
     (case get_property (quote crypto) currency' of
        Undefined \<Rightarrow> None
      | Inherited \<Rightarrow>
          Some \<lparr>rank = cmc_rank crypto,
                name = CMCCryptocurrency.name crypto,
                symbol = CMCCryptocurrency.symbol crypto,
                price = None,
                market_cap = None,
                volume_24h = None,
                percent_change_24h = None,
                percent_change_7d = None\<rparr>
      | Own q \<Rightarrow>
          Some \<lparr>rank = cmc_rank crypto,
                name = CMCCryptocurrency.name crypto,
                symbol = CMCCryptocurrency.symbol crypto,
                price = Some (CMCQuote.price q),
                market_cap = Some (CMCQuote.market_cap q),
                volume_24h = Some (CMCQuote.volume_24h q),
                percent_change_24h = Some (CMCQuote.percent_change_24h q),
                percent_change_7d = Some (CMCQuote.percent_change_7d q)\<rparr>)"

text \<open>
  \<^verbatim>\<open>getCMCMarketOverview\<close>. \<^verbatim>\<open>Promise.all\<close> rejects as soon as one of the two
  calls rejects; when both reject, the model reports the first of the pair. The
  \<^verbatim>\<open>catch\<close> logs and rethrows the same error.
\<close>

definition getCMCMarketOverview ::
  "cmc_env \<Rightarrow> string \<Rightarrow> jsnum \<Rightarrow> string \<Rightarrow> error + real option MarketOverview" where
  "getCMCMarketOverview env now limit currency' =
     (case getCMCTopCryptos env now limit currency' of
        Inl e \<Rightarrow> Inl e
      | Inr topCryptos \<Rightarrow>
         (case getCMCGlobalMetrics env now currency' of
            Inl e \<Rightarrow> Inl e
          | Inr globalMetrics \<Rightarrow>
             (case those (map (top_crypto_view currency') topCryptos) of
                None \<Rightarrow> Inl TypeError
              | Some cryptos \<Rightarrow>
                 Inr \<lparr>ok = True, timestamp = now, currency = currency',
                      global =
                        \<lparr>total_market_cap = CMCGlobalMetrics.total_market_cap globalMetrics,
                         total_volume_24h = CMCGlobalMetrics.total_volume_24h globalMetrics,
                         btc_dominance = CMCGlobalMetrics.btc_dominance globalMetrics,
                         eth_dominance = CMCGlobalMetrics.eth_dominance globalMetrics,
                         active_cryptocurrencies =
                           CMCGlobalMetrics.active_cryptocurrencies globalMetrics,
                         active_exchanges = CMCGlobalMetrics.active_exchanges globalMetrics\<rparr>,
                      top_cryptos = cryptos,
                      meta = \<lparr>source = ''CoinMarketCap API'',
                              count = length topCryptos\<rparr>\<rparr>)))"

section \<open>The alert engine\<close>

datatype AlertType = opportunity | warning | info

datatype Priority = high | medium | low

record Alert =
  alert_type :: AlertType
  title :: string
  message :: string
  priority :: Priority

text \<open>
  \<^verbatim>\<open>generateMarketAlerts\<close> (field \<open>alert_type\<close> is the source's \<^verbatim>\<open>type\<close>). The
  \<^verbatim>\<open>forEach\<close> over \<^verbatim>\<open>top_cryptos\<close> pushes onto \<^verbatim>\<open>alerts\<close>; the body of its
  callback is \<open>push_crypto_alert\<close>.
\<close>

definition push_crypto_alert ::
  "platform \<Rightarrow> Alert list \<Rightarrow> real TopCrypto \<Rightarrow> Alert list" where
  "push_crypto_alert pf alerts crypto =
     (if \<bar>TopCrypto.percent_change_24h crypto\<bar> > 10
      then alerts @
        [\<lparr>alert_type =
            (if TopCrypto.percent_change_24h crypto > 0 then opportunity else warning),
          title = TopCrypto.name crypto @ '' '' @
            (if TopCrypto.percent_change_24h crypto > 0 then ''Surge'' else ''Drop''),
          message = TopCrypto.symbol crypto @ '' has '' @
            (if TopCrypto.percent_change_24h crypto > 0 then ''gained'' else ''lost'') @ '' '' @
            toFixed pf 2 \<bar>TopCrypto.percent_change_24h crypto\<bar> @
            ''% in the last 24 hours.'',
          priority = (if \<bar>TopCrypto.percent_change_24h crypto\<bar> > 15 then high else medium)\<rparr>]
      else alerts)"

definition generateMarketAlerts :: "platform \<Rightarrow> real MarketOverview \<Rightarrow> Alert list" where
  "generateMarketAlerts pf marketData =
     (let alerts = [];
          alerts = foldl (push_crypto_alert pf) alerts (top_cryptos marketData);
          alerts = (if GlobalView.btc_dominance (global marketData) < 50
                    then alerts @
                      [\<lparr>alert_type = info,
                        title = ''Altcoin Season Indicator'',
                        message = ''BTC dominance is at '' @
                          toFixed pf 1 (GlobalView.btc_dominance (global marketData)) @
                          ''%, suggesting increased altcoin activity.'',
                        priority = medium\<rparr>]
                    else alerts)
      in alerts)"

section \<open>The chunked, rate-limited fetcher: the AlphaVantage portfolio\<close>

record StockQuote =
  symbol :: string
  price :: real
  change :: real
  change_percent :: real
  volume :: real
  latest_trading_day :: string

record FinanceMeta =
  source :: string
  count :: nat

record FinancePortfolio =
  ok :: bool
  timestamp :: string
  currency :: string
  total_value :: real
  stocks :: "StockQuote list"
  meta :: FinanceMeta

text \<open>
  What a call leaves behind besides its return value: the \<^verbatim>\<open>console.error\<close> lines
  (the symbol named in the line and the rejection reason printed after it), and the
  waits, in milliseconds, of \<^verbatim>\<open>setTimeout\<close>.
\<close>

record fetch_effects =
  console_error :: "(string \<times> error) list"
  delays :: "nat list"

text \<open>The loop \<^verbatim>\<open>for (let i = 0; i < symbols.length; i += 5)\<close> that pushes
  \<^verbatim>\<open>symbols.slice(i, i + 5)\<close> onto \<^verbatim>\<open>chunks\<close>.\<close>

function chunk_loop :: "string list \<Rightarrow> nat \<Rightarrow> string list list \<Rightarrow> string list list" where
  "chunk_loop symbols i chunks =
     (if i < length symbols
      then chunk_loop symbols (i + 5) (chunks @ [array_slice symbols (int i) (int i + 5)])
      else chunks)"
  by pat_completeness auto
termination
  by (relation "measure (\<lambda>(symbols, i, chunks). length symbols - i)") auto

declare chunk_loop.simps [simp del]

text \<open>The callback of \<^verbatim>\<open>results.forEach((result, index) => ...)\<close>: a fulfilled result
  is pushed onto \<^verbatim>\<open>stocks\<close>, a rejected one is logged with \<^verbatim>\<open>chunk[index]\<close>
  (\<open>index\<close> is within the chunk, the results being one per symbol of it).\<close>

definition settle_result ::
  "string list \<Rightarrow> StockQuote list \<times> fetch_effects \<Rightarrow> (error + StockQuote) \<times> nat
     \<Rightarrow> StockQuote list \<times> fetch_effects" where
  "settle_result chunk acc entry =
     (case acc of (stocks', eff) \<Rightarrow>
        (case entry of (result, index) \<Rightarrow>
           (case result of
              Inr v \<Rightarrow> (stocks' @ [v], eff)
            | Inl reason \<Rightarrow>
                (stocks', eff\<lparr>console_error := console_error eff @ [(chunk ! index, reason)]\<rparr>))))"

text \<open>
  The body of \<^verbatim>\<open>for (const chunk of chunks)\<close>. \<open>getStockQuote\<close> is the provider
  adapter, a parameter: what the quote request for a symbol settles to. The pair
  \<open>(chunk, k)\<close> is a chunk and its position: every chunk is an array of its own, so
  \<^verbatim>\<open>chunks.indexOf(chunk)\<close> is that position.
\<close>

definition fetch_chunk ::
  "(string \<Rightarrow> string \<Rightarrow> error + StockQuote) \<Rightarrow> string \<Rightarrow> string list list
     \<Rightarrow> StockQuote list \<times> fetch_effects \<Rightarrow> string list \<times> nat
     \<Rightarrow> StockQuote list \<times> fetch_effects" where
  "fetch_chunk getStockQuote apiKey chunks acc entry =
     (case entry of (chunk, k) \<Rightarrow>
        (let results = map (\<lambda>symbol. getStockQuote symbol apiKey) chunk;
             acc = foldl (settle_result chunk) acc (zip results [0..<length results])
         in (case acc of (stocks', eff) \<Rightarrow>
               (if int k < int (length chunks) - 1
                then (stocks', eff\<lparr>delays := delays eff @ [1000]\<rparr>)
                else (stocks', eff)))))"

text \<open>\<^verbatim>\<open>getFinancePortfolio\<close>. Nothing inside its \<^verbatim>\<open>try\<close> throws
  (\<^verbatim>\<open>Promise.allSettled\<close> never rejects), so it always returns a portfolio.\<close>

definition getFinancePortfolio ::
  "(string \<Rightarrow> string \<Rightarrow> error + StockQuote) \<Rightarrow> string \<Rightarrow> string list \<Rightarrow> string \<Rightarrow> string
     \<Rightarrow> fetch_effects \<times> FinancePortfolio" where
  "getFinancePortfolio getStockQuote now symbols apiKey currency' =
     (let chunks = chunk_loop symbols 0 [];
          acc = foldl (fetch_chunk getStockQuote apiKey chunks)
                  ([], \<lparr>console_error = [], delays = []\<rparr>)
                  (zip chunks [0..<length chunks])
      in (case acc of (stocks', eff) \<Rightarrow>
            (let total_value = foldl (\<lambda>sum stock. sum + StockQuote.price stock * 1) 0 stocks'
             in (eff,
                 \<lparr>ok = True, timestamp = now, currency = currency',
                  total_value = total_value, stocks = stocks',
                  meta = \<lparr>source = ''AlphaVantage API'', count = length stocks'\<rparr>\<rparr>))))"

text \<open>An adapter for concrete runs: \<^verbatim>\<open>AAPL\<close> and \<^verbatim>\<open>MSFT\<close> are quoted, any other
  symbol is rejected with the error \<^verbatim>\<open>getStockQuote\<close> throws for an empty quote.\<close>

definition sample_adapter :: "string \<Rightarrow> string \<Rightarrow> error + StockQuote" where
  "sample_adapter symbol' apiKey =
     (if symbol' = ''AAPL''
      then Inr \<lparr>symbol = ''AAPL'', price = 190.5, change = 1.5, change_percent = 0.79,
                volume = 1000000, latest_trading_day = ''2025-10-31''\<rparr>
      else if symbol' = ''MSFT''
      then Inr \<lparr>symbol = ''MSFT'', price = 410, change = - 2, change_percent = - 0.49,
                volume = 800000, latest_trading_day = ''2025-10-31''\<rparr>
      else Inl (Error (''No data found for symbol: '' @ symbol')))"

section \<open>The report renderer\<close>

datatype Sentiment = bullish | bearish | neutral

definition sentiment_string :: "Sentiment \<Rightarrow> string" where
  "sentiment_string x =
     (case x of bullish \<Rightarrow> ''bullish'' | bearish \<Rightarrow> ''bearish'' | neutral \<Rightarrow> ''neutral'')"

record MarketInsight =
  summary :: string
  sentiment :: Sentiment
  key_points :: "string list"
  opportunities :: "string list"
  risks :: "string list"
  recommendation :: string
  confidence :: real
  timestamp :: string

record BinanceMarketSummary =
  symbol :: string
  price :: real
  priceChange24h :: real
  priceChangePercent24h :: real
  high24h :: real
  low24h :: real
  volume24h :: real
  quoteVolume24h :: real

record TradingMeta =
  exchange :: string
  pairs_count :: nat
  base_currency :: string

record TradingSummary =
  ok :: bool
  timestamp :: string
  source :: string
  pairs :: "BinanceMarketSummary list"
  meta :: TradingMeta

text \<open>The report route asks for the overview in \<^verbatim>\<open>USD\<close>, which is no member of
  \<^verbatim>\<open>Object.prototype\<close>, so every figure of an overview it receives is a number.\<close>

record ReportData =
  market_overview :: "real MarketOverview"
  trading_summary :: TradingSummary
  ai_insights :: MarketInsight

record ReportMeta =
  version :: string
  data_sources :: "string list"
  generation_duration_ms :: real

text \<open>The canonical report: the object \<^verbatim>\<open>reportData\<close> that the route builds and hands
  to either rendering.\<close>

record Report =
  ok :: bool
  report_id :: string
  generated_at :: string
  format :: string
  data :: ReportData
  meta :: ReportMeta

definition nl :: string where
  "nl = [CHR 0x0A]"

definition formatCurrency :: "platform \<Rightarrow> real \<Rightarrow> string" where
  "formatCurrency pf num =
     (if num \<ge> 10 ^ 12 then ''$'' @ toFixed pf 2 (js_div num (10 ^ 12)) @ ''T''
      else if num \<ge> 10 ^ 9 then ''$'' @ toFixed pf 2 (js_div num (10 ^ 9)) @ ''B''
      else if num \<ge> 10 ^ 6 then ''$'' @ toFixed pf 2 (js_div num (10 ^ 6)) @ ''M''
      else ''$'' @ toFixed pf 2 num)"

definition formatPercent :: "platform \<Rightarrow> real \<Rightarrow> string" where
  "formatPercent pf num =
     (let sign = (if num \<ge> 0 then ''+'' else [])
      in sign @ toFixed pf 2 num @ ''%'')"

text \<open>The row templates of the two tables and of the bulleted lists.\<close>

definition crypto_row :: "platform \<Rightarrow> real TopCrypto \<Rightarrow> string" where
  "crypto_row pf c =
     concat
       [''| '', numberToString pf (rank c), '' | '', TopCrypto.name c, '' | '',
        TopCrypto.symbol c, '' | '', formatCurrency pf (TopCrypto.price c), '' | '',
        formatPercent pf (TopCrypto.percent_change_24h c), '' | '',
        formatPercent pf (TopCrypto.percent_change_7d c), '' | '',
        formatCurrency pf (TopCrypto.market_cap c), '' |'']"

definition pair_row :: "platform \<Rightarrow> BinanceMarketSummary \<Rightarrow> string" where
  "pair_row pf p =
     concat
       [''| '', BinanceMarketSummary.symbol p, '' | '',
        formatCurrency pf (BinanceMarketSummary.price p), '' | '',
        formatPercent pf (priceChangePercent24h p), '' | '',
        formatCurrency pf (quoteVolume24h p), '' |'']"

definition bullet :: "string \<Rightarrow> string" where
  "bullet point = ''- '' @ point"

text \<open>\<^verbatim>\<open>generateMarkdownReport\<close>: the template literal, cut into its literal
  pieces and its interpolations, in order; \<open>nl\<close> is a line break of the template. The
  rendering is the pieces put together.\<close>

definition template_pieces :: "platform \<Rightarrow> Report \<Rightarrow> string list" where
  "template_pieces pf report =
     (let overview = market_overview (data report);
          trading = trading_summary (data report);
          insights = ai_insights (data report)
      in
       [''# FinanceFlow Market Report'', nl, nl, ''**Report ID:** '', report_id report,
        ''  '', nl, ''**Generated:** '', dateToLocaleString pf (generated_at report),
        ''  '', nl, ''**Version:** '', version (Report.meta report), ''  '', nl,
        ''**Data Sources:** '', join '', '' (data_sources (Report.meta report)), nl, nl,
        ''---'', nl, nl, ''## Executive Summary'', nl, nl, summary insights, nl, nl,
        ''**Market Sentiment:** '', toUpperCase (sentiment_string (sentiment insights)),
        ''  '', nl, ''**Confidence Level:** '', numberToString pf (confidence insights),
        ''%'', nl, nl, ''---'', nl, nl, ''## Global Market Overview'', nl, nl,
        ''| Metric | Value |'', nl, ''|--------|-------|'', nl, ''| Total Market Cap | '',
        formatCurrency pf (GlobalView.total_market_cap (global overview)), '' |'', nl,
        ''| 24h Volume | '',
        formatCurrency pf (GlobalView.total_volume_24h (global overview)), '' |'', nl,
        ''| BTC Dominance | '', toFixed pf 1 (GlobalView.btc_dominance (global overview)),
        ''% |'', nl, ''| ETH Dominance | '',
        toFixed pf 1 (GlobalView.eth_dominance (global overview)), ''% |'', nl,
        ''| Active Cryptocurrencies | '',
        numberToLocaleString pf (GlobalView.active_cryptocurrencies (global overview)),
        '' |'', nl, ''| Active Exchanges | '',
        numberToLocaleString pf (GlobalView.active_exchanges (global overview)), '' |'',
        nl, nl, ''---'', nl, nl, ''## Top Cryptocurrencies'', nl, nl,
        ''| Rank | Name | Symbol | Price | 24h Change | 7d Change | Market Cap |'', nl,
        ''|------|------|--------|-------|------------|-----------|------------|'', nl,
        join nl (map (crypto_row pf) (top_cryptos overview)), nl, nl, ''---'', nl, nl,
        ''## Top Trading Pairs (Binance)'', nl, nl,
        ''| Pair | Price | 24h Change | Volume |'', nl,
        ''|------|-------|------------|--------|'', nl,
        join nl (map (pair_row pf) (array_slice (pairs trading) 0 10)), nl, nl, ''---'',
        nl, nl, ''## AI Insights'', nl, nl, ''### Key Points'', nl, nl,
        join nl (map bullet (key_points insights)), nl, nl, ''### Opportunities'', nl, nl,
        join nl (map bullet (MarketInsight.opportunities insights)), nl, nl, ''### Risks'',
        nl, nl, join nl (map bullet (risks insights)), nl, nl, ''### Recommendation'', nl,
        nl, recommendation insights, nl, nl, ''---'', nl, nl, ''## Disclaimer'', nl, nl,
        ''This report is generated automatically using AI and real-time market data. It is for informational purposes only and should not be considered as financial advice. Always conduct your own research and consult with a qualified financial advisor before making investment decisions.'',
        nl, nl, ''---'', nl, nl,
        ''*Report generated by FinanceFlow v2.0 - CRSET Personal Stack*  '', nl,
        ''*Powered by CoinMarketCap, Binance, and OpenAI*'', nl])"

definition generateMarkdownReport :: "platform \<Rightarrow> Report \<Rightarrow> string" where
  "generateMarkdownReport pf report = concat (template_pieces pf report)"

section \<open>The structured rendering\<close>

text \<open>
  The JSON rendering is \<^verbatim>\<open>NextResponse.json(reportData)\<close>: the report object itself,
  serialised by the platform. The model is the JSON value the object serialises to (the
  text layer is the platform's and not modelled): an object per record with the source's
  keys in the source's order, an array per list. In a report every field is present and
  every number is finite, as the canonical structure types them;
  \<^verbatim>\<open>JSON.stringify\<close> would print \<^verbatim>\<open>NaN\<close> as \<^verbatim>\<open>null\<close> and leave out a field
  that is \<^verbatim>\<open>undefined\<close>. The repository has no reader of the structured form.
\<close>

datatype json =
  JNull
  | JBool bool
  | JNumber real
  | JString string
  | JArray "json list"
  | JObject "(string \<times> json) list"

definition json_of_global :: "GlobalView \<Rightarrow> json" where
  "json_of_global g =
     JObject
       [(''total_market_cap'', JNumber (GlobalView.total_market_cap g)),
        (''total_volume_24h'', JNumber (GlobalView.total_volume_24h g)),
        (''btc_dominance'', JNumber (GlobalView.btc_dominance g)),
        (''eth_dominance'', JNumber (GlobalView.eth_dominance g)),
        (''active_cryptocurrencies'', JNumber (GlobalView.active_cryptocurrencies g)),
        (''active_exchanges'', JNumber (GlobalView.active_exchanges g))]"

definition json_of_top_crypto :: "real TopCrypto \<Rightarrow> json" where
  "json_of_top_crypto c =
     JObject
       [(''rank'', JNumber (rank c)),
        (''name'', JString (TopCrypto.name c)),
        (''symbol'', JString (TopCrypto.symbol c)),
        (''price'', JNumber (TopCrypto.price c)),
        (''market_cap'', JNumber (TopCrypto.market_cap c)),
        (''volume_24h'', JNumber (TopCrypto.volume_24h c)),
        (''percent_change_24h'', JNumber (TopCrypto.percent_change_24h c)),
        (''percent_change_7d'', JNumber (TopCrypto.percent_change_7d c))]"

definition json_of_overview :: "real MarketOverview \<Rightarrow> json" where
  "json_of_overview ov =
     JObject
       [(''ok'', JBool (MarketOverview.ok ov)),
        (''timestamp'', JString (MarketOverview.timestamp ov)),
        (''currency'', JString (MarketOverview.currency ov)),
        (''global'', json_of_global (global ov)),
        (''top_cryptos'', JArray (map json_of_top_crypto (top_cryptos ov))),
        (''meta'', JObject
           [(''source'', JString (OverviewMeta.source (MarketOverview.meta ov))),
            (''count'', JNumber (real (OverviewMeta.count (MarketOverview.meta ov))))])]"

definition json_of_pair :: "BinanceMarketSummary \<Rightarrow> json" where
  "json_of_pair p =
     JObject
       [(''symbol'', JString (BinanceMarketSummary.symbol p)),
        (''price'', JNumber (BinanceMarketSummary.price p)),
        (''priceChange24h'', JNumber (priceChange24h p)),
        (''priceChangePercent24h'', JNumber (priceChangePercent24h p)),
        (''high24h'', JNumber (high24h p)),
        (''low24h'', JNumber (low24h p)),
        (''volume24h'', JNumber (volume24h p)),
        (''quoteVolume24h'', JNumber (quoteVolume24h p))]"

definition json_of_trading :: "TradingSummary \<Rightarrow> json" where
  "json_of_trading t =
     JObject
       [(''ok'', JBool (TradingSummary.ok t)),
        (''timestamp'', JString (TradingSummary.timestamp t)),
        (''source'', JString (TradingSummary.source t)),
        (''pairs'', JArray (map json_of_pair (pairs t))),
        (''meta'', JObject
           [(''exchange'', JString (exchange (TradingSummary.meta t))),
            (''pairs_count'', JNumber (real (pairs_count (TradingSummary.meta t)))),
            (''base_currency'', JString (base_currency (TradingSummary.meta t)))])]"

definition json_of_insight :: "MarketInsight \<Rightarrow> json" where
  "json_of_insight i =
     JObject
       [(''summary'', JString (summary i)),
        (''sentiment'', JString (sentiment_string (sentiment i))),
        (''key_points'', JArray (map JString (key_points i))),
        (''opportunities'', JArray (map JString (MarketInsight.opportunities i))),
        (''risks'', JArray (map JString (risks i))),
        (''recommendation'', JString (recommendation i)),
        (''confidence'', JNumber (confidence i)),
        (''timestamp'', JString (MarketInsight.timestamp i))]"

definition json_of_report :: "Report \<Rightarrow> json" where
  "json_of_report r =
     JObject
       [(''ok'', JBool (Report.ok r)),
        (''report_id'', JString (report_id r)),
        (''generated_at'', JString (generated_at r)),
        (''format'', JString (format r)),
        (''data'', JObject
           [(''market_overview'', json_of_overview (market_overview (data r))),
            (''trading_summary'', json_of_trading (trading_summary (data r))),
            (''ai_insights'', json_of_insight (ai_insights (data r)))]),
        (''meta'', JObject
           [(''version'', JString (version (Report.meta r))),
            (''data_sources'', JArray (map JString (data_sources (Report.meta r)))),
            (''generation_duration_ms'', JNumber (generation_duration_ms (Report.meta r)))])]"

subsection \<open>What the text rendering is specified to show\<close>

text \<open>
  Written from the specification's formatting policy: a magnitude rounded to hundredths,
  half up, printed as its integer part, a point and exactly two decimals.
\<close>

definition decimal2 :: "real \<Rightarrow> string" where
  "decimal2 x =
     (let n = nat \<lfloor>x * 100 + 1 / 2\<rfloor>
      in digits (n div 100) @ ''.'' @ [digit_char (n div 10 mod 10), digit_char (n mod 10)])"

text \<open>The fields of the canonical report that the text rendering shows, each as it is
  formatted there.\<close>

definition rendered_fields :: "platform \<Rightarrow> Report \<Rightarrow> string list" where
  "rendered_fields pf report =
     (let overview = market_overview (data report);
          trading = trading_summary (data report);
          insights = ai_insights (data report)
      in [report_id report,
          dateToLocaleString pf (generated_at report),
          version (Report.meta report),
          summary insights,
          toUpperCase (sentiment_string (sentiment insights)),
          numberToString pf (confidence insights),
          formatCurrency pf (GlobalView.total_market_cap (global overview)),
          formatCurrency pf (GlobalView.total_volume_24h (global overview)),
          toFixed pf 1 (GlobalView.btc_dominance (global overview)),
          toFixed pf 1 (GlobalView.eth_dominance (global overview)),
          numberToLocaleString pf (GlobalView.active_cryptocurrencies (global overview)),
          numberToLocaleString pf (GlobalView.active_exchanges (global overview)),
          recommendation insights] @
         data_sources (Report.meta report) @
         concat (map (\<lambda>c.
           [numberToString pf (rank c), TopCrypto.name c, TopCrypto.symbol c,
            formatCurrency pf (TopCrypto.price c),
            formatPercent pf (TopCrypto.percent_change_24h c),
            formatPercent pf (TopCrypto.percent_change_7d c),
            formatCurrency pf (TopCrypto.market_cap c)]) (top_cryptos overview)) @
         concat (map (\<lambda>p.
           [BinanceMarketSummary.symbol p,
            formatCurrency pf (BinanceMarketSummary.price p),
            formatPercent pf (priceChangePercent24h p),
            formatCurrency pf (quoteVolume24h p)]) (take 10 (pairs trading))) @
         key_points insights @ MarketInsight.opportunities insights @ risks insights)"

text \<open>
  The part of the canonical report that the text rendering reads: the report id, the
  generation time, the version and the data sources; of the insight everything but its
  timestamp; the six global metrics; of every listed cryptocurrency everything but its
  24-hour volume; and of each of the first ten trading pairs its symbol, price, percentage
  change and quote volume.
\<close>

definition text_view ::
  "Report \<Rightarrow>
   (string \<times> string \<times> string \<times> string list) \<times>
   (string \<times> Sentiment \<times> real \<times> string list \<times> string list \<times> string list \<times> string) \<times>
   GlobalView \<times>
   (real \<times> string \<times> string \<times> real \<times> real \<times> real \<times> real) list \<times>
   (string \<times> real \<times> real \<times> real) list" where
  "text_view report =
     (let overview = market_overview (data report);
          trading = trading_summary (data report);
          insights = ai_insights (data report)
      in ((report_id report, generated_at report, version (Report.meta report),
           data_sources (Report.meta report)),
          (summary insights, sentiment insights, confidence insights, key_points insights,
           MarketInsight.opportunities insights, risks insights, recommendation insights),
          global overview,
          map (\<lambda>c. (rank c, TopCrypto.name c, TopCrypto.symbol c, TopCrypto.price c,
                    TopCrypto.percent_change_24h c, TopCrypto.percent_change_7d c,
                    TopCrypto.market_cap c)) (top_cryptos overview),
          map (\<lambda>p. (BinanceMarketSummary.symbol p, BinanceMarketSummary.price p,
                    priceChangePercent24h p, quoteVolume24h p)) (take 10 (pairs trading))))"

subsection \<open>A sample report\<close>

text \<open>The overview is the one the aggregator returns without credential for a limit of
  10 and USD, every figure a number; the trading summary and the insight stand for what
  the other two providers returned.\<close>

definition defined_figures :: "real TopCrypto \<Rightarrow> real option TopCrypto" where
  "defined_figures c =
     \<lparr>rank = rank c, TopCrypto.name = TopCrypto.name c, TopCrypto.symbol = TopCrypto.symbol c,
      TopCrypto.price = Some (TopCrypto.price c),
      TopCrypto.market_cap = Some (TopCrypto.market_cap c),
      TopCrypto.volume_24h = Some (TopCrypto.volume_24h c),
      TopCrypto.percent_change_24h = Some (TopCrypto.percent_change_24h c),
      TopCrypto.percent_change_7d = Some (TopCrypto.percent_change_7d c)\<rparr>"

definition sample_overview :: "real MarketOverview" where
  "sample_overview =
     \<lparr>MarketOverview.ok = True,
      MarketOverview.timestamp = ''2025-11-02T01:00:00.000Z'',
      MarketOverview.currency = ''USD'',
      global =
        \<lparr>GlobalView.total_market_cap = 3800000000000,
         GlobalView.total_volume_24h = 125000000000,
         GlobalView.btc_dominance = 56.5,
         GlobalView.eth_dominance = 18.2,
         GlobalView.active_cryptocurrencies = 10500,
         GlobalView.active_exchanges = 750\<rparr>,
      top_cryptos =
        [\<lparr>rank = 1, TopCrypto.name = ''Bitcoin'', TopCrypto.symbol = ''BTC'',
          TopCrypto.price = 109554.23, TopCrypto.market_cap = 2136307485000,
          TopCrypto.volume_24h = 35000000000, TopCrypto.percent_change_24h = 1.57,
          TopCrypto.percent_change_7d = 3.45\<rparr>,
         \<lparr>rank = 2, TopCrypto.name = ''Ethereum'', TopCrypto.symbol = ''ETH'',
          TopCrypto.price = 3858.23, TopCrypto.market_cap = 462987600000,
          TopCrypto.volume_24h = 18000000000, TopCrypto.percent_change_24h = 2.34,
          TopCrypto.percent_change_7d = 5.67\<rparr>],
      MarketOverview.meta =
        \<lparr>OverviewMeta.source = ''CoinMarketCap API'', OverviewMeta.count = 2\<rparr>\<rparr>"

definition sample_trading :: TradingSummary where
  "sample_trading =
     \<lparr>TradingSummary.ok = True,
      TradingSummary.timestamp = ''2025-11-02T01:00:00.000Z'',
      TradingSummary.source = ''Binance API'',
      pairs =
        [\<lparr>BinanceMarketSummary.symbol = ''BTCUSDT'', BinanceMarketSummary.price = 109554.23,
          priceChange24h = - 1693.5, priceChangePercent24h = - 1.52, high24h = 111900,
          low24h = 108300, volume24h = 25000, quoteVolume24h = 2738855750\<rparr>],
      TradingSummary.meta =
        \<lparr>exchange = ''Binance'', pairs_count = 1, base_currency = ''USDT''\<rparr>\<rparr>"

definition sample_insight :: MarketInsight where
  "sample_insight =
     \<lparr>summary = ''The market is steady.'', sentiment = neutral,
      key_points = [''BTC dominance is above 50%''],
      MarketInsight.opportunities = [''Accumulate on dips''],
      risks = [''Volatility''], recommendation = ''Hold'', confidence = 70,
      MarketInsight.timestamp = ''2025-11-02T01:00:05.000Z''\<rparr>"

definition sample_report :: Report where
  "sample_report =
     \<lparr>Report.ok = True, report_id = ''rpt_1762045200000_3f2a9c1e'',
      generated_at = ''2025-11-02T01:00:05.000Z'', format = ''markdown'',
      data = \<lparr>market_overview = sample_overview, trading_summary = sample_trading,
              ai_insights = sample_insight\<rparr>,
      Report.meta = \<lparr>version = ''2.0'',
                     data_sources = [''CoinMarketCap'', ''Binance'', ''OpenAI''],
                     generation_duration_ms = 1250\<rparr>\<rparr>"

text \<open>A report that differs from the sample in every field the text rendering does not
  show.\<close>

definition sample_report_other :: Report where
  "sample_report_other =
     sample_report
       \<lparr>Report.ok := False,
        format := ''json'',
        data :=
          \<lparr>market_overview = sample_overview
             \<lparr>MarketOverview.ok := False,
              MarketOverview.timestamp := ''2025-11-02T00:59:00.000Z'',
              MarketOverview.currency := ''EUR'',
              top_cryptos :=
                map (\<lambda>c. c\<lparr>TopCrypto.volume_24h := 0\<rparr>) (top_cryptos sample_overview),
              MarketOverview.meta :=
                \<lparr>OverviewMeta.source = ''mock'', OverviewMeta.count = 0\<rparr>\<rparr>,
           trading_summary = sample_trading
             \<lparr>TradingSummary.ok := False,
              TradingSummary.timestamp := ''2025-11-02T00:59:00.000Z'',
              TradingSummary.source := ''mock'',
              pairs :=
                map (\<lambda>p. p\<lparr>priceChange24h := 0, high24h := 0, low24h := 0, volume24h := 0\<rparr>)
                  (pairs sample_trading),
              TradingSummary.meta :=
                \<lparr>exchange = ''none'', pairs_count = 0, base_currency = ''EUR''\<rparr>\<rparr>,
           ai_insights = sample_insight
             \<lparr>MarketInsight.timestamp := ''2025-11-02T00:59:00.000Z''\<rparr>\<rparr>,
        Report.meta := (Report.meta sample_report)\<lparr>generation_duration_ms := 980\<rparr>\<rparr>"

text \<open>Reports with eleven trading pairs, the first ten those of the sample's pair and
  the eleventh as given.\<close>

definition eleven_pairs :: "BinanceMarketSummary \<Rightarrow> Report" where
  "eleven_pairs last_pair =
     sample_report
       \<lparr>data := (data sample_report)
          \<lparr>trading_summary := sample_trading
             \<lparr>pairs := replicate 10 (hd (pairs sample_trading)) @ [last_pair]\<rparr>\<rparr>\<rparr>"

definition sample_pair_eth :: BinanceMarketSummary where
  "sample_pair_eth =
     \<lparr>BinanceMarketSummary.symbol = ''ETHUSDT'', BinanceMarketSummary.price = 3858.23,
      priceChange24h = 88.1, priceChangePercent24h = 2.34, high24h = 3900,
      low24h = 3750, volume24h = 410000, quoteVolume24h = 1581874300\<rparr>"

subsection \<open>What a batch is specified to account for\<close>

text \<open>Written from the specification: the results of the inputs that succeeded, and the
  (parameter, failure reason) pairs of the inputs that failed, both in input order and
  one per input.\<close>

definition fulfilled :: "(string \<Rightarrow> error + StockQuote) \<Rightarrow> string list \<Rightarrow> StockQuote list" where
  "fulfilled f xs = concat (map (\<lambda>s. case f s of Inr v \<Rightarrow> [v] | Inl e \<Rightarrow> []) xs)"

definition rejected ::
  "(string \<Rightarrow> error + StockQuote) \<Rightarrow> string list \<Rightarrow> (string \<times> error) list" where
  "rejected f xs = concat (map (\<lambda>s. case f s of Inr v \<Rightarrow> [] | Inl e \<Rightarrow> [(s, e)]) xs)"

subsection \<open>The rule table of the specification\<close>

text \<open>
  Written from the specification's table: the kind and priority each rule raises, for an
  item by its 24-hour change and for the snapshot by its dominance metric, the item rules
  first, in item order.
\<close>

definition item_rule :: "real \<Rightarrow> (AlertType \<times> Priority) list" where
  "item_rule change_24h =
     (if \<bar>change_24h\<bar> > 10
      then [(if change_24h > 0 then opportunity else warning,
             if \<bar>change_24h\<bar> > 15 then high else medium)]
      else [])"

definition global_rule :: "real \<Rightarrow> (AlertType \<times> Priority) list" where
  "global_rule dominance = (if dominance < 50 then [(info, medium)] else [])"

definition rule_table :: "real MarketOverview \<Rightarrow> (AlertType \<times> Priority) list" where
  "rule_table snapshot =
     concat (map (\<lambda>item. item_rule (TopCrypto.percent_change_24h item)) (top_cryptos snapshot)) @
     global_rule (GlobalView.btc_dominance (global snapshot))"

subsection \<open>An environment without credential\<close>

text \<open>With an empty key neither live endpoint is reached; what they would answer is
  immaterial.\<close>

definition fallback_env :: cmc_env where
  "fallback_env =
     \<lparr>CMC_API_KEY = [],
      listings_latest = (\<lambda>limit currency'. Inl (Error ''unreachable'')),
      global_metrics_latest = (\<lambda>currency'. Inl (Error ''unreachable''))\<rparr>"

section \<open>Properties of the filter, score and rank engine\<close>

subsection \<open>Sorting and folding\<close>

lemma insort_cmp_key:
  "insort_cmp (\<lambda>a b. f b - f a) x ys = insort_key (\<lambda>a. - f a) x ys"
  by (induction ys) auto

lemma array_sort_key: "array_sort (\<lambda>a b. f b - f a) xs = sort_key (\<lambda>a. - f a) xs"
proof -
  have "insort_cmp (\<lambda>a b. f b - f a) = insort_key (\<lambda>a. - f a)"
    by (intro ext) (rule insort_cmp_key)
  then show ?thesis by (simp add: array_sort_def sort_key_def)
qed

lemma foldl_plus: "foldl (\<lambda>s x. s + f x) a xs = a + sum_list (map f xs)" for a :: real
  by (induction xs arbitrary: a) (auto simp: algebra_simps)





lemma str_includes_sublist: "str_includes s sub = sublist sub s"
  by (induction s) (auto simp: sublist_Cons_right)

lemma js_round_tenth:
  "js_round (m * 10) / 10 = of_int \<lfloor>m * 10 + 1 / 2\<rfloor> / 10 \<and>
   m - 1 / 20 < js_round (m * 10) / 10 \<and> js_round (m * 10) / 10 \<le> m + 1 / 20"
proof -
  have "m * 10 + 1 / 2 - 1 < of_int \<lfloor>m * 10 + 1 / 2\<rfloor>" by linarith
  moreover have "of_int \<lfloor>m * 10 + 1 / 2\<rfloor> \<le> m * 10 + 1 / 2" by linarith
  ultimately show ?thesis by (simp add: js_round_def)
qed

subsection \<open>What the two engines return\<close>

lemma if_filter: "(if b then filter P xs else xs) = filter (\<lambda>x. b \<longrightarrow> P x) xs"
  by simp

lemma business_filters:
  "filter (\<lambda>opp. truthy_number mr \<longrightarrow> js_ge (monthly_revenue opp) mr)
     (filter (\<lambda>opp. truthy_number mp \<longrightarrow> js_le (BusinessOpportunity.price opp) mp)
       (filter (\<lambda>opp. truthy_string c \<longrightarrow> Some (BusinessOpportunity.category opp) = c) cands))
   = filter (business_selected c mp mr) cands"
  by (auto simp: business_selected_def truthy_string_def truthy_number_def js_le_def
      js_ge_def split: option.splits jsnum.splits intro!: filter_cong)

lemma business_opps:
  "BusinessReport.opportunities (getBusinessOpportunities_on cands now c mp mr) =
     sort_key (\<lambda>a. - score a) (filter (business_selected c mp mr) cands)"
  unfolding getBusinessOpportunities_on_def Let_def if_filter business_filters
  by (simp add: array_sort_key)

lemma business_total:
  "BusinessMeta.total_value (BusinessReport.meta (getBusinessOpportunities_on cands now c mp mr)) =
     sum_list (map BusinessOpportunity.price
       (BusinessReport.opportunities (getBusinessOpportunities_on cands now c mp mr)))"
  unfolding getBusinessOpportunities_on_def Let_def if_filter business_filters
  by (simp add: foldl_plus)

lemma business_count:
  "BusinessMeta.count (BusinessReport.meta (getBusinessOpportunities_on cands now c mp mr)) =
     length (BusinessReport.opportunities (getBusinessOpportunities_on cands now c mp mr))"
  unfolding getBusinessOpportunities_on_def Let_def if_filter business_filters
  by simp

lemma business_avg:
  "avg_multiple (BusinessReport.meta (getBusinessOpportunities_on cands now c mp mr)) =
     (let opps = BusinessReport.opportunities (getBusinessOpportunities_on cands now c mp mr)
      in if opps = [] then 0
         else js_round (sum_list (map multiple opps) / real (length opps) * 10) / 10)"
  unfolding getBusinessOpportunities_on_def Let_def if_filter business_filters
  by (simp add: foldl_plus js_round_def)

lemma domain_opps:
  "DomainsReport.opportunities (getDomainOpportunities_on cands now kws mp) =
     sort_key (\<lambda>a. - roi_or_0 a) (filter (domain_selected kws mp) cands)"
proof -
  have "filter (domain_selected kws mp) cands =
      filter (\<lambda>opp. (length kws = 0 \<or>
          list_ex (\<lambda>kw. str_includes (toLowerCase (domain opp)) (toLowerCase kw)) kws) \<and>
          js_le (DomainOpportunity.price opp)
            (case mp of None \<Rightarrow> Some (Num 1000) | Some v \<Rightarrow> Some v)) cands"
    by (rule filter_cong[OF refl])
      (auto simp: domain_selected_def js_le_def list_ex_iff str_includes_sublist
        split: option.splits jsnum.splits)
  then show ?thesis
    by (simp add: getDomainOpportunities_on_def Let_def array_sort_key)
qed

lemma domain_total:
  "DomainsMeta.total_value (DomainsReport.meta (getDomainOpportunities_on cands now kws mp)) =
     sum_list (map DomainOpportunity.price
       (DomainsReport.opportunities (getDomainOpportunities_on cands now kws mp)))"
  by (simp add: getDomainOpportunities_on_def Let_def foldl_plus)

subsection \<open>Claims about the engine\<close>

text \<open>
  C2, as amended. For every candidate list and every filter specification in which each
  parameter that is given is truthy (a non-empty category, a maximum price and a minimum
  revenue that are non-zero numbers), the business engine returns, as a multiset, exactly
  the candidates that satisfy all given predicates: category equality, price at most the
  maximum, monthly revenue at least the minimum. The domain engine returns exactly the
  candidates within the maximum price (1000 when none is given) whose name contains one
  of the keywords, case-insensitively, an empty keyword list matching everything. On the
  two records of the scenario (price 45000, category saas; price 28000, category
  ecommerce), category saas returns exactly the first, with total value 45000.
\<close>

theorem engine_returns_given_subset:
  "(c \<noteq> Some [] \<and> mp \<noteq> Some (Num 0) \<and> mp \<noteq> Some NaN \<and>
    mr \<noteq> Some (Num 0) \<and> mr \<noteq> Some NaN \<longrightarrow>
      mset (BusinessReport.opportunities (getBusinessOpportunities_on cands now c mp mr)) =
        mset (filter (business_given c mp mr) cands)) \<and>
   mset (DomainsReport.opportunities (getDomainOpportunities_on dcands now kws dmp)) =
     mset (filter (domain_selected kws dmp) dcands) \<and>
   BusinessReport.opportunities
     (getBusinessOpportunities_on (take 2 mockOpportunities) now (Some ''saas'') None None) =
     [hd mockOpportunities] \<and>
   BusinessOpportunity.price (hd mockOpportunities) = 45000 \<and>
   BusinessOpportunity.category (hd mockOpportunities) = ''saas'' \<and>
   BusinessMeta.total_value (BusinessReport.meta
     (getBusinessOpportunities_on (take 2 mockOpportunities) now (Some ''saas'') None None)) =
     45000"
proof -
  have given: "mset (BusinessReport.opportunities
        (getBusinessOpportunities_on cands now c mp mr)) =
      mset (filter (business_given c mp mr) cands)"
    if "c \<noteq> Some [] \<and> mp \<noteq> Some (Num 0) \<and> mp \<noteq> Some NaN \<and>
      mr \<noteq> Some (Num 0) \<and> mr \<noteq> Some NaN"
  proof -
    have "business_selected c mp mr = business_given c mp mr"
      using that
      by (intro ext)
        (auto simp: business_selected_def business_given_def js_le_def js_ge_def
          split: option.splits jsnum.splits)
    then show ?thesis by (simp add: business_opps)
  qed
  have sel: "filter (business_selected (Some ''saas'') None None) (take 2 mockOpportunities) =
      [hd mockOpportunities]"
    by (simp add: business_selected_def mockOpportunities_def)
  have opps: "BusinessReport.opportunities
      (getBusinessOpportunities_on (take 2 mockOpportunities) now (Some ''saas'') None None) =
      [hd mockOpportunities]"
    by (simp add: business_opps sel)
  have total: "BusinessMeta.total_value (BusinessReport.meta
      (getBusinessOpportunities_on (take 2 mockOpportunities) now (Some ''saas'') None None)) =
      45000"
    by (simp add: business_total opps) (simp add: mockOpportunities_def)
  have first: "BusinessOpportunity.price (hd mockOpportunities) = 45000 \<and>
      BusinessOpportunity.category (hd mockOpportunities) = ''saas''"
    by (simp add: mockOpportunities_def)
  have dom: "mset (DomainsReport.opportunities (getDomainOpportunities_on dcands now kws dmp)) =
      mset (filter (domain_selected kws dmp) dcands)"
    by (simp add: domain_opps)
  show ?thesis
    using given dom opps first total by blast
qed

theorem engine_returns_given_subset_witness:
  "Some ''saas'' \<noteq> Some [] \<and> Some (Num 50000) \<noteq> Some (Num 0) \<and>
   Some (Num 50000) \<noteq> Some NaN \<and> Some (Num 1000) \<noteq> Some (Num 0) \<and>
   Some (Num 1000) \<noteq> Some NaN \<and>
   mset (BusinessReport.opportunities
      (getBusinessOpportunities_on mockOpportunities ''2025-11-02T01:00:00.000Z''
         (Some ''saas'') (Some (Num 50000)) (Some (Num 1000)))) =
     {#mockOpportunities ! 0, mockOpportunities ! 4#} \<and>
   mset (DomainsReport.opportunities
      (getDomainOpportunities_on mockDomains ''2025-11-02T01:00:00.000Z''
         [''FINANCE'', ''crypto''] None)) =
     {#mockDomains ! 0#}"
proof -
  have b: "filter (business_given (Some ''saas'') (Some (Num 50000)) (Some (Num 1000)))
      mockOpportunities = [mockOpportunities ! 0, mockOpportunities ! 4]"
    by (simp add: business_given_def js_le_def js_ge_def mockOpportunities_def)
  have lower: "toLowerCase ''FINANCE'' = ''finance''" "toLowerCase ''crypto'' = ''crypto''"
      "toLowerCase ''financeflow'' = ''financeflow''"
      "toLowerCase ''cryptotracker'' = ''cryptotracker''"
      "toLowerCase ''saasmetrics'' = ''saasmetrics''"
      "toLowerCase ''portfoliodash'' = ''portfoliodash''"
    by (simp_all add: toLowerCase_def lower_char_def)
  have d: "filter (domain_selected [''FINANCE'', ''crypto''] None) mockDomains =
      [mockDomains ! 0]"
    by (simp add: domain_selected_def mockDomains_def lower
        str_includes_sublist[symmetric])
  show ?thesis
    using engine_returns_given_subset[of "Some ''saas''" "Some (Num 50000)" "Some (Num 1000)"
        mockOpportunities "''2025-11-02T01:00:00.000Z''" mockDomains
        "[''FINANCE'', ''crypto'']" None]
    by (simp add: b d)
qed

theorem zero_max_price_not_applied_counterexample:
  "mset (BusinessReport.opportunities
      (getBusinessOpportunities_on (take 2 mockOpportunities) ''2025-11-02T01:00:00.000Z''
         None (Some (Num 0)) None)) =
     mset (take 2 mockOpportunities) \<and>
   filter (business_given None (Some (Num 0)) None) (take 2 mockOpportunities) = [] \<and>
   mset (BusinessReport.opportunities
      (getBusinessOpportunities_on (take 2 mockOpportunities) ''2025-11-02T01:00:00.000Z''
         None (Some (Num 0)) None)) \<noteq>
     mset (filter (business_given None (Some (Num 0)) None) (take 2 mockOpportunities)) \<and>
   mset (BusinessReport.opportunities
      (getBusinessOpportunities_on (take 2 mockOpportunities) ''2025-11-02T01:00:00.000Z''
         (Some []) (Some NaN) None)) =
     mset (take 2 mockOpportunities) \<and>
   filter (business_given (Some []) None None) (take 2 mockOpportunities) = [] \<and>
   filter (business_given None (Some NaN) None) (take 2 mockOpportunities) = []"
proof -
  have all: "filter (business_selected None (Some (Num 0)) None) (take 2 mockOpportunities) =
      take 2 mockOpportunities"
    "filter (business_selected (Some []) (Some NaN) None) (take 2 mockOpportunities) =
      take 2 mockOpportunities"
    by (simp_all add: business_selected_def)
  have none: "filter (business_given None (Some (Num 0)) None) (take 2 mockOpportunities) = []"
    "filter (business_given (Some []) None None) (take 2 mockOpportunities) = []"
    "filter (business_given None (Some NaN) None) (take 2 mockOpportunities) = []"
    by (simp_all add: business_given_def js_le_def mockOpportunities_def)
  have "mset (BusinessReport.opportunities
      (getBusinessOpportunities_on (take 2 mockOpportunities) ''2025-11-02T01:00:00.000Z''
         None (Some (Num 0)) None)) = mset (take 2 mockOpportunities)"
    by (simp add: business_opps all)
  moreover have "mset (BusinessReport.opportunities
      (getBusinessOpportunities_on (take 2 mockOpportunities) ''2025-11-02T01:00:00.000Z''
         (Some []) (Some NaN) None)) = mset (take 2 mockOpportunities)"
    by (simp add: business_opps all)
  moreover have "mset (take 2 mockOpportunities) \<noteq> {#}"
    by (simp add: mockOpportunities_def)
  ultimately show ?thesis
    using none by simp
qed

text \<open>
  C4. For every filtered set the engine produces, the total value it returns is exactly
  the sum of the prices of the returned set, and the average multiple it returns is the
  mean of the multiples rounded to one decimal place, half up: it is a whole number of
  tenths, more than the mean minus 0.05 and at most the mean plus 0.05. An empty set
  yields total value 0 and average multiple 0. The domain engine returns the total value
  only, again the exact sum. (Numbers are exact here; the source computes in binary
  floating point.)
\<close>

theorem aggregate_statistics:
  "(let r = getBusinessOpportunities_on cands now c mp mr;
        opps = BusinessReport.opportunities r;
        m = BusinessReport.meta r;
        mean = sum_list (map multiple opps) / real (length opps)
    in BusinessMeta.total_value m = sum_list (map BusinessOpportunity.price opps) \<and>
       BusinessMeta.count m = length opps \<and>
       (if opps = [] then BusinessMeta.total_value m = 0 \<and> avg_multiple m = 0
        else avg_multiple m = of_int \<lfloor>mean * 10 + 1 / 2\<rfloor> / 10 \<and>
             mean - 1 / 20 < avg_multiple m \<and> avg_multiple m \<le> mean + 1 / 20)) \<and>
   (let r = getDomainOpportunities_on dcands now kws dmp;
        opps = DomainsReport.opportunities r
    in DomainsMeta.total_value (DomainsReport.meta r) =
         sum_list (map DomainOpportunity.price opps) \<and>
       (if opps = [] then DomainsMeta.total_value (DomainsReport.meta r) = 0 else True))"
proof -
  define r where "r = getBusinessOpportunities_on cands now c mp mr"
  define opps where "opps = BusinessReport.opportunities r"
  define mean where "mean = sum_list (map multiple opps) / real (length opps)"
  have total: "BusinessMeta.total_value (BusinessReport.meta r) =
      sum_list (map BusinessOpportunity.price opps)"
    unfolding r_def opps_def by (rule business_total)
  have cnt: "BusinessMeta.count (BusinessReport.meta r) = length opps"
    unfolding r_def opps_def by (rule business_count)
  have avg: "avg_multiple (BusinessReport.meta r) =
      (if opps = [] then 0 else js_round (mean * 10) / 10)"
    unfolding r_def opps_def mean_def using business_avg[of cands now c mp mr]
    by (simp add: Let_def)
  have business: "BusinessMeta.total_value (BusinessReport.meta r) =
        sum_list (map BusinessOpportunity.price opps) \<and>
      BusinessMeta.count (BusinessReport.meta r) = length opps \<and>
      (if opps = [] then BusinessMeta.total_value (BusinessReport.meta r) = 0 \<and>
          avg_multiple (BusinessReport.meta r) = 0
       else avg_multiple (BusinessReport.meta r) = of_int \<lfloor>mean * 10 + 1 / 2\<rfloor> / 10 \<and>
          mean - 1 / 20 < avg_multiple (BusinessReport.meta r) \<and>
          avg_multiple (BusinessReport.meta r) \<le> mean + 1 / 20)"
    using js_round_tenth[of mean] by (simp add: total cnt avg)
  have total_d: "DomainsMeta.total_value
        (DomainsReport.meta (getDomainOpportunities_on dcands now kws dmp)) =
      sum_list (map DomainOpportunity.price
        (DomainsReport.opportunities (getDomainOpportunities_on dcands now kws dmp)))"
    by (rule domain_total)
  have domains: "DomainsMeta.total_value
        (DomainsReport.meta (getDomainOpportunities_on dcands now kws dmp)) =
      sum_list (map DomainOpportunity.price
        (DomainsReport.opportunities (getDomainOpportunities_on dcands now kws dmp))) \<and>
      (if DomainsReport.opportunities (getDomainOpportunities_on dcands now kws dmp) = []
       then DomainsMeta.total_value
          (DomainsReport.meta (getDomainOpportunities_on dcands now kws dmp)) = 0
       else True)"
    using total_d by simp
  show ?thesis
    unfolding Let_def
    using business[unfolded r_def opps_def mean_def] domains by (rule conjI)
qed

theorem aggregate_statistics_witness:
  "BusinessMeta.total_value (BusinessReport.meta
      (getBusinessOpportunities_on mockOpportunities ''2025-11-02T01:00:00.000Z''
         (Some ''saas'') (Some (Num 50000)) (Some (Num 1000)))) = 77000 \<and>
   avg_multiple (BusinessReport.meta
      (getBusinessOpportunities_on mockOpportunities ''2025-11-02T01:00:00.000Z''
         (Some ''saas'') (Some (Num 50000)) (Some (Num 1000)))) = 25.9 \<and>
   BusinessMeta.total_value (BusinessReport.meta
      (getBusinessOpportunities_on mockOpportunities ''2025-11-02T01:00:00.000Z''
         (Some ''content'') None None)) = 0 \<and>
   avg_multiple (BusinessReport.meta
      (getBusinessOpportunities_on mockOpportunities ''2025-11-02T01:00:00.000Z''
         (Some ''content'') None None)) = 0 \<and>
   DomainsMeta.total_value (DomainsReport.meta
      (getDomainOpportunities_on mockDomains ''2025-11-02T01:00:00.000Z'' [] None)) = 838"
proof -
  have two: "BusinessReport.opportunities
      (getBusinessOpportunities_on mockOpportunities ''2025-11-02T01:00:00.000Z''
         (Some ''saas'') (Some (Num 50000)) (Some (Num 1000))) =
      [mockOpportunities ! 0, mockOpportunities ! 4]"
    by (simp add: business_opps business_selected_def mockOpportunities_def)
  have none: "BusinessReport.opportunities
      (getBusinessOpportunities_on mockOpportunities ''2025-11-02T01:00:00.000Z''
         (Some ''content'') None None) = []"
    by (simp add: business_opps business_selected_def mockOpportunities_def)
  have doms: "DomainsReport.opportunities
      (getDomainOpportunities_on mockDomains ''2025-11-02T01:00:00.000Z'' [] None) =
      [mockDomains ! 3, mockDomains ! 2, mockDomains ! 0]"
    by (simp add: domain_opps domain_selected_def mockDomains_def roi_or_0_def)
  have listed: "map BusinessOpportunity.price [mockOpportunities ! 0, mockOpportunities ! 4] =
        [45000, 32000]"
      "map multiple [mockOpportunities ! 0, mockOpportunities ! 4] = [25, 26.7]"
      "map DomainOpportunity.price [mockDomains ! 3, mockDomains ! 2, mockDomains ! 0] =
        [89, 450, 299]"
    by (simp_all add: mockOpportunities_def mockDomains_def)
  note at_two = aggregate_statistics[of mockOpportunities "''2025-11-02T01:00:00.000Z''"
      "Some ''saas''" "Some (Num 50000)" "Some (Num 1000)" mockDomains "[]" None,
      unfolded Let_def two doms listed]
  note at_none = aggregate_statistics[of mockOpportunities "''2025-11-02T01:00:00.000Z''"
      "Some ''content''" None None mockDomains "[]" None, unfolded Let_def none]
  show ?thesis
    using at_two at_none by simp
qed


text \<open>
  C9. In \<^verbatim>\<open>getBusinessOpportunities\<close> a maximum price of 0, and likewise a minimum
  revenue of 0, switches the corresponding filter off: the report is the one of a call
  without that parameter. With a maximum price of 0 and no other parameter every candidate
  is returned, all five listings of the source, while no listing has a price of at most 0.
\<close>

theorem zero_bound_disables_filter:
  "getBusinessOpportunities_on cands now c (Some (Num 0)) mr =
     getBusinessOpportunities_on cands now c None mr \<and>
   getBusinessOpportunities_on cands now c mp (Some (Num 0)) =
     getBusinessOpportunities_on cands now c mp None \<and>
   mset (BusinessReport.opportunities
     (getBusinessOpportunities_on cands now None (Some (Num 0)) None)) = mset cands \<and>
   BusinessMeta.count (BusinessReport.meta
     (getBusinessOpportunities now None (Some (Num 0)) None)) = 5 \<and>
   filter (\<lambda>opp. BusinessOpportunity.price opp \<le> 0) mockOpportunities = []"
proof -
  have all: "filter (business_selected None (Some (Num 0)) None) xs = xs" for xs
    by (simp add: business_selected_def)
  have "BusinessMeta.count (BusinessReport.meta
      (getBusinessOpportunities now None (Some (Num 0)) None)) = length mockOpportunities"
    by (simp add: getBusinessOpportunities_def business_count business_opps all)
  moreover have "length mockOpportunities = 5"
    by (simp add: mockOpportunities_def)
  moreover have "filter (\<lambda>opp. BusinessOpportunity.price opp \<le> 0) mockOpportunities = []"
    by (simp add: mockOpportunities_def)
  moreover have "mset (BusinessReport.opportunities
      (getBusinessOpportunities_on cands now None (Some (Num 0)) None)) = mset cands"
    by (simp add: business_opps all)
  moreover have "getBusinessOpportunities_on cands now c (Some (Num 0)) mr =
      getBusinessOpportunities_on cands now c None mr"
    by (simp add: getBusinessOpportunities_on_def truthy_number_def)
  moreover have "getBusinessOpportunities_on cands now c mp (Some (Num 0)) =
      getBusinessOpportunities_on cands now c mp None"
    by (simp add: getBusinessOpportunities_on_def truthy_number_def)
  ultimately show ?thesis by simp
qed

section \<open>Properties of the alert engine\<close>

lemma foldl_push_crypto_alert:
  "foldl (push_crypto_alert pf) acc xs = acc @ concat (map (push_crypto_alert pf []) xs)"
  by (induction xs arbitrary: acc) (auto simp: push_crypto_alert_def)

lemma toFixed_2_16: "toFixed pf 2 16 = ''16.00''"
proof -
  have "digits 1600 = ''1600''"
    by (simp add: digits.simps digit_char_def)
  then show ?thesis
    by (simp add: toFixed_def Let_def)
qed

text \<open>
  C3. For every snapshot the alert engine returns exactly the alerts of the rule table, in
  evaluation order: the alerts of the items, in item order, then the alert of the global
  rule; an item raises at most one alert. An item whose 24-hour change exceeds 10 in
  absolute value raises one alert, an opportunity when the change is positive and a
  warning when it is negative, of priority high when the absolute change exceeds 15 and
  medium otherwise. An item with a change of 16.0 raises exactly one alert, an opportunity
  of priority high.
\<close>

theorem alerts_follow_rule_table:
  "map (\<lambda>a. (alert_type a, priority a)) (generateMarketAlerts pf snapshot) =
     rule_table snapshot \<and>
   generateMarketAlerts pf snapshot =
     concat (map (push_crypto_alert pf []) (top_cryptos snapshot)) @
     generateMarketAlerts pf (snapshot\<lparr>top_cryptos := []\<rparr>) \<and>
   length (generateMarketAlerts pf (snapshot\<lparr>top_cryptos := []\<rparr>)) \<le> 1 \<and>
   length (push_crypto_alert pf [] item) \<le> 1 \<and>
   map (\<lambda>a. (alert_type a, priority a)) (push_crypto_alert pf [] item) =
     item_rule (TopCrypto.percent_change_24h item) \<and>
   push_crypto_alert pf [] (item\<lparr>TopCrypto.percent_change_24h := 16\<rparr>) =
     [\<lparr>alert_type = opportunity,
       title = TopCrypto.name item @ '' Surge'',
       message = TopCrypto.symbol item @ '' has gained 16.00% in the last 24 hours.'',
       priority = high\<rparr>]"
proof -
  have item: "map (\<lambda>a. (alert_type a, priority a)) (push_crypto_alert pf [] c) =
      item_rule (TopCrypto.percent_change_24h c)" for c
    by (simp add: push_crypto_alert_def item_rule_def)
  have items: "map (\<lambda>a. (alert_type a, priority a))
        (concat (map (push_crypto_alert pf []) xs)) =
      concat (map (\<lambda>item. item_rule (TopCrypto.percent_change_24h item)) xs)" for xs
    by (induction xs) (simp_all add: item)
  have table: "map (\<lambda>a. (alert_type a, priority a)) (generateMarketAlerts pf snapshot) =
      rule_table snapshot"
    by (simp add: generateMarketAlerts_def rule_table_def global_rule_def Let_def
        foldl_push_crypto_alert items)
  have order: "generateMarketAlerts pf snapshot =
      concat (map (push_crypto_alert pf []) (top_cryptos snapshot)) @
      generateMarketAlerts pf (snapshot\<lparr>top_cryptos := []\<rparr>)"
    by (simp add: generateMarketAlerts_def Let_def foldl_push_crypto_alert)
  have glob: "length (generateMarketAlerts pf (snapshot\<lparr>top_cryptos := []\<rparr>)) \<le> 1"
    by (simp add: generateMarketAlerts_def Let_def)
  have one: "length (push_crypto_alert pf [] item) \<le> 1"
    by (simp add: push_crypto_alert_def)
  have scenario: "push_crypto_alert pf [] (item\<lparr>TopCrypto.percent_change_24h := 16\<rparr>) =
      [\<lparr>alert_type = opportunity,
        title = TopCrypto.name item @ '' Surge'',
        message = TopCrypto.symbol item @ '' has gained 16.00% in the last 24 hours.'',
        priority = high\<rparr>]"
    by (simp add: push_crypto_alert_def toFixed_2_16)
  show ?thesis
    using table order glob one item[of item] scenario by (intro conjI)
qed

section \<open>Properties of the CoinMarketCap aggregator\<close>

lemma array_slice_0_nat: "array_slice xs 0 (int n) = take n xs"
  by (simp add: array_slice_def clamp_index_def Let_def min_def)

lemma length_array_slice: "length (array_slice xs start e) \<le> length xs"
  by (simp add: array_slice_def Let_def)

lemma length_mockData: "length (mockData now) = 2"
  by (simp add: mockData_def)

lemma names_mockData: "map CMCCryptocurrency.name (mockData now) = [''Bitcoin'', ''Ethereum'']"
  by (simp add: mockData_def)

lemma length_those: "those xs = Some ys \<Longrightarrow> length ys = length xs"
  by (induction xs arbitrary: ys) (auto split: option.splits)

lemma overview_count:
  assumes "getCMCMarketOverview env now limit cur = Inr ov"
  shows "\<exists>listings. getCMCTopCryptos env now limit cur = Inr listings \<and>
           length (top_cryptos ov) = length listings \<and>
           OverviewMeta.count (MarketOverview.meta ov) = length listings"
  using assms
  by (auto simp: getCMCMarketOverview_def split: sum.splits option.splits
      dest: length_those)

lemma sample_overview_is_fallback:
  "getCMCMarketOverview fallback_env ''2025-11-02T01:00:00.000Z'' (Num 10) ''USD'' =
     Inr \<lparr>MarketOverview.ok = MarketOverview.ok sample_overview,
          MarketOverview.timestamp = MarketOverview.timestamp sample_overview,
          MarketOverview.currency = MarketOverview.currency sample_overview,
          global = global sample_overview,
          top_cryptos = map defined_figures (top_cryptos sample_overview),
          MarketOverview.meta = MarketOverview.meta sample_overview\<rparr>"
proof -
  have "getCMCTopCryptos fallback_env ''2025-11-02T01:00:00.000Z'' (Num 10) ''USD'' =
      Inr (mockData ''2025-11-02T01:00:00.000Z'')"
    using array_slice_0_nat[of "mockData ''2025-11-02T01:00:00.000Z''" 10]
    by (simp add: getCMCTopCryptos_def fallback_env_def getMockCMCData_def to_integer_def
        length_mockData)
  then show ?thesis
    by (simp add: getCMCMarketOverview_def getCMCGlobalMetrics_def fallback_env_def
        getMockGlobalMetrics_def mockData_def top_crypto_view_def get_property_def
        sample_overview_def defined_figures_def)
qed

text \<open>
  C10, as amended. Without a configured credential the fallback data set has two entries,
  Bitcoin and Ethereum. For a limit that is a natural number \<open>n\<close>,
  \<^verbatim>\<open>getCMCTopCryptos\<close> returns the first \<open>min n 2\<close> of them; for every limit whatever
  it returns at most two; and whenever the aggregated overview is returned, the length of
  its \<^verbatim>\<open>top_cryptos\<close> and its \<^verbatim>\<open>meta.count\<close> are equal and at most 2.
\<close>

theorem fallback_returns_at_most_two:
  "CMC_API_KEY env = [] \<Longrightarrow>
     map CMCCryptocurrency.name (mockData now) = [''Bitcoin'', ''Ethereum''] \<and>
     getCMCTopCryptos env now (Num (real n)) cur = Inr (take (min n 2) (mockData now)) \<and>
     length (take (min n 2) (mockData now)) = min n 2 \<and>
     (\<exists>xs. getCMCTopCryptos env now limit cur = Inr xs \<and> length xs \<le> 2) \<and>
     (\<forall>ov. getCMCMarketOverview env now limit cur = Inr ov \<longrightarrow>
        length (top_cryptos ov) \<le> 2 \<and>
        OverviewMeta.count (MarketOverview.meta ov) \<le> 2 \<and>
        OverviewMeta.count (MarketOverview.meta ov) = length (top_cryptos ov))"
proof -
  assume key: "CMC_API_KEY env = []"
  have "take n (mockData now) = take (min n 2) (mockData now)"
    by (cases "n \<le> 2") (simp_all add: min_def length_mockData)
  then have nat_limit: "getCMCTopCryptos env now (Num (real n)) cur =
      Inr (take (min n 2) (mockData now))"
    using key
    by (simp add: getCMCTopCryptos_def getMockCMCData_def to_integer_def array_slice_0_nat)
  have len: "length (take (min n 2) (mockData now)) = min n 2"
    by (simp add: length_mockData)
  have any_limit: "\<exists>xs. getCMCTopCryptos env now limit cur = Inr xs \<and> length xs \<le> 2"
    using key length_array_slice[of "mockData now" 0 "to_integer limit"]
    by (simp add: getCMCTopCryptos_def getMockCMCData_def length_mockData)
  have overview: "length (top_cryptos ov) \<le> 2 \<and>
      OverviewMeta.count (MarketOverview.meta ov) \<le> 2 \<and>
      OverviewMeta.count (MarketOverview.meta ov) = length (top_cryptos ov)"
    if "getCMCMarketOverview env now limit cur = Inr ov" for ov
    using overview_count[OF that] any_limit by auto
  show ?thesis
    using names_mockData nat_limit len any_limit overview by blast
qed

theorem fallback_returns_at_most_two_witness:
  "CMC_API_KEY fallback_env = [] \<and>
   (\<exists>xs. getCMCTopCryptos fallback_env ''2025-11-02T01:00:00.000Z'' (Num 10) ''USD'' = Inr xs \<and>
      map CMCCryptocurrency.name xs = [''Bitcoin'', ''Ethereum'']) \<and>
   getCMCTopCryptos fallback_env ''2025-11-02T01:00:00.000Z'' (Num 1) ''USD'' =
     Inr [hd (mockData ''2025-11-02T01:00:00.000Z'')] \<and>
   (\<exists>ov. getCMCMarketOverview fallback_env ''2025-11-02T01:00:00.000Z'' (Num 10) ''USD'' = Inr ov \<and>
      length (top_cryptos ov) = 2 \<and> OverviewMeta.count (MarketOverview.meta ov) = 2)"
proof -
  have key: "CMC_API_KEY fallback_env = []"
    by (simp add: fallback_env_def)
  have ten: "getCMCTopCryptos fallback_env ''2025-11-02T01:00:00.000Z'' (Num 10) ''USD'' =
      Inr (mockData ''2025-11-02T01:00:00.000Z'')"
    using fallback_returns_at_most_two[OF key, of "''2025-11-02T01:00:00.000Z''" 10 "''USD''"]
    by (simp add: length_mockData)
  have one: "getCMCTopCryptos fallback_env ''2025-11-02T01:00:00.000Z'' (Num 1) ''USD'' =
      Inr [hd (mockData ''2025-11-02T01:00:00.000Z'')]"
    using fallback_returns_at_most_two[OF key, of "''2025-11-02T01:00:00.000Z''" 1 "''USD''"]
    by (simp add: mockData_def)
  have "\<exists>ov. getCMCMarketOverview fallback_env ''2025-11-02T01:00:00.000Z'' (Num 10) ''USD'' =
      Inr ov \<and> length (top_cryptos ov) = 2 \<and> OverviewMeta.count (MarketOverview.meta ov) = 2"
    by (simp add: getCMCMarketOverview_def ten getCMCGlobalMetrics_def key)
      (simp add: mockData_def top_crypto_view_def get_property_def)
  then show ?thesis
    using key ten one by (simp add: names_mockData)
qed

theorem negative_limit_counterexample:
  "\<exists>xs. getCMCTopCryptos fallback_env ''2025-11-02T01:00:00.000Z'' (Num (- 1)) ''USD'' = Inr xs \<and>
     map CMCCryptocurrency.name xs = [''Bitcoin''] \<and>
     real (length xs) \<noteq> min (- 1) 2"
proof -
  have "to_integer (Num (- 1)) = - 1"
    by (simp add: to_integer_def ceiling_def)
  then show ?thesis
    by (simp add: getCMCTopCryptos_def fallback_env_def getMockCMCData_def
        array_slice_def clamp_index_def mockData_def)
qed

section \<open>Properties of the chunked fetcher\<close>

lemma array_slice_chunk:
  "i < length xs \<Longrightarrow> array_slice xs (int i) (int i + 5) = take 5 (drop i xs)"
proof -
  have "nat (int i + 5) = i + 5" by simp
  then show "i < length xs \<Longrightarrow> ?thesis"
    by (simp add: array_slice_def clamp_index_def Let_def min_def)
qed

lemma concat_chunk_loop:
  "concat (chunk_loop symbols i chunks) = concat chunks @ drop i symbols"
proof (induction symbols i chunks rule: chunk_loop.induct)
  case (1 symbols i chunks)
  show ?case
  proof (cases "i < length symbols")
    case True
    have "take 5 (drop i symbols) @ drop (i + 5) symbols = drop i symbols"
      by (metis add.commute append_take_drop_id drop_drop)
    with True 1 show ?thesis
      by (subst chunk_loop.simps) (simp add: array_slice_chunk)
  next
    case False
    then show ?thesis
      by (subst chunk_loop.simps) simp
  qed
qed

lemma zip_map_index:
  "zip (map f xs) [0..<length xs] = map (\<lambda>i. (f (xs ! i), i)) [0..<length xs]"
  by (rule nth_equalityI) simp_all

lemma map_nth_upt: "map (\<lambda>i. h (xs ! i)) [0..<length xs] = map h xs"
  by (rule nth_equalityI) simp_all

lemma foldl_settle_plain:
  "foldl (\<lambda>acc s. settle_result chunk acc (f s, idx s)) (st, eff) xs =
     (st @ concat (map (\<lambda>s. case f s of Inr v \<Rightarrow> [v] | Inl e \<Rightarrow> []) xs),
      eff\<lparr>console_error := console_error eff @
        concat (map (\<lambda>s. case f s of Inr v \<Rightarrow> [] | Inl e \<Rightarrow> [(chunk ! idx s, e)]) xs)\<rparr>)"
  by (induction xs arbitrary: st eff) (auto simp: settle_result_def split: sum.splits)

lemma foldl_settle:
  "foldl (settle_result chunk) (st, eff) (zip (map f chunk) [0..<length chunk]) =
     (st @ fulfilled f chunk, eff\<lparr>console_error := console_error eff @ rejected f chunk\<rparr>)"
proof -
  have "foldl (settle_result chunk) (st, eff) (zip (map f chunk) [0..<length chunk]) =
      foldl (\<lambda>acc i. settle_result chunk acc (f (chunk ! i), i)) (st, eff) [0..<length chunk]"
    using zip_map_index[of f chunk] by (simp add: foldl_map)
  also have "\<dots> =
      (st @ concat (map (\<lambda>i. case f (chunk ! i) of Inr v \<Rightarrow> [v] | Inl e \<Rightarrow> [])
          [0..<length chunk]),
       eff\<lparr>console_error := console_error eff @
         concat (map (\<lambda>i. case f (chunk ! i) of Inr v \<Rightarrow> [] | Inl e \<Rightarrow> [(chunk ! i, e)])
           [0..<length chunk])\<rparr>)"
    using foldl_settle_plain[of chunk "\<lambda>i. f (chunk ! i)" "\<lambda>i. i" st eff "[0..<length chunk]"]
    by simp
  also have "map (\<lambda>i. case f (chunk ! i) of Inr v \<Rightarrow> [v] | Inl e \<Rightarrow> []) [0..<length chunk] =
      map (\<lambda>s. case f s of Inr v \<Rightarrow> [v] | Inl e \<Rightarrow> []) chunk"
    by (rule map_nth_upt)
  also have "map (\<lambda>i. case f (chunk ! i) of Inr v \<Rightarrow> [] | Inl e \<Rightarrow> [(chunk ! i, e)])
        [0..<length chunk] =
      map (\<lambda>s. case f s of Inr v \<Rightarrow> [] | Inl e \<Rightarrow> [(s, e)]) chunk"
    by (rule map_nth_upt[of "\<lambda>s. case f s of Inr v \<Rightarrow> [] | Inl e \<Rightarrow> [(s, e)]"])
  finally show ?thesis by (simp add: fulfilled_def rejected_def)
qed

lemma fulfilled_append: "fulfilled f (xs @ ys) = fulfilled f xs @ fulfilled f ys"
  by (simp add: fulfilled_def)

lemma rejected_append: "rejected f (xs @ ys) = rejected f xs @ rejected f ys"
  by (simp add: rejected_def)

lemma length_fulfilled_rejected:
  "length (fulfilled f xs) + length (rejected f xs) = length xs"
  by (induction xs) (auto simp: fulfilled_def rejected_def split: sum.splits)

lemma foldl_fetch_chunk:
  "\<exists>eff'. foldl (fetch_chunk g key chunks) (st, eff) cks =
       (st @ fulfilled (\<lambda>s. g s key) (concat (map fst cks)), eff') \<and>
     console_error eff' =
       console_error eff @ rejected (\<lambda>s. g s key) (concat (map fst cks)) \<and>
     delays eff' = delays eff @
       map (\<lambda>k. 1000) (filter (\<lambda>k. int k < int (length chunks) - 1) (map snd cks))"
proof (induction cks arbitrary: st eff)
  case Nil
  show ?case by (simp add: fulfilled_def rejected_def)
next
  case (Cons ck cks)
  obtain chunk k where ck: "ck = (chunk, k)" by (cases ck)
  define eff1 where
    "eff1 = eff\<lparr>console_error := console_error eff @ rejected (\<lambda>s. g s key) chunk\<rparr>"
  define eff2 where
    "eff2 = (if int k < int (length chunks) - 1
             then eff1\<lparr>delays := delays eff1 @ [1000]\<rparr> else eff1)"
  have step: "fetch_chunk g key chunks (st, eff) (chunk, k) =
      (st @ fulfilled (\<lambda>s. g s key) chunk, eff2)"
    unfolding fetch_chunk_def Let_def eff2_def eff1_def
    by (simp add: foldl_settle)
  from Cons.IH[of "st @ fulfilled (\<lambda>s. g s key) chunk" eff2]
  show ?case
    by (auto simp: step ck fulfilled_append rejected_append eff2_def eff1_def)
qed

lemma getFinancePortfolio_eq:
  "\<exists>eff. getFinancePortfolio g now symbols key cur =
     (eff, \<lparr>FinancePortfolio.ok = True, FinancePortfolio.timestamp = now,
            FinancePortfolio.currency = cur,
            FinancePortfolio.total_value = sum_list (map StockQuote.price (fulfilled (\<lambda>s. g s key) symbols)),
            FinancePortfolio.stocks = fulfilled (\<lambda>s. g s key) symbols,
            FinancePortfolio.meta = \<lparr>FinanceMeta.source = ''AlphaVantage API'',
                    FinanceMeta.count = length (fulfilled (\<lambda>s. g s key) symbols)\<rparr>\<rparr>) \<and>
     console_error eff = rejected (\<lambda>s. g s key) symbols \<and>
     delays eff = replicate (length (chunk_loop symbols 0 []) - 1) 1000"
proof -
  define chunks where "chunks = chunk_loop symbols 0 []"
  have cc: "concat chunks = symbols"
    unfolding chunks_def by (simp add: concat_chunk_loop)
  obtain eff' where
    run: "foldl (fetch_chunk g key chunks) ([], \<lparr>console_error = [], delays = []\<rparr>)
        (zip chunks [0..<length chunks]) = (fulfilled (\<lambda>s. g s key) symbols, eff')"
    and ce: "console_error eff' = rejected (\<lambda>s. g s key) symbols"
    and de: "delays eff' =
        map (\<lambda>k. 1000) (filter (\<lambda>k. int k < int (length chunks) - 1) [0..<length chunks])"
    using foldl_fetch_chunk[of g key chunks "[]" "\<lparr>console_error = [], delays = []\<rparr>"
        "zip chunks [0..<length chunks]"]
    by (auto simp: cc)
  have "filter (\<lambda>k. int k < int n - 1) [0..<n] = [0..<n - 1]" for n
    by (induction n) auto
  then have de': "delays eff' = replicate (length chunks - 1) 1000"
    using de by (simp add: map_replicate_const)
  show ?thesis
    unfolding getFinancePortfolio_def Let_def chunks_def[symmetric] run
    using ce de' by (simp add: foldl_plus chunks_def)
qed

lemma portfolio_returned:
  "snd (getFinancePortfolio g now symbols key cur) =
     \<lparr>FinancePortfolio.ok = True, FinancePortfolio.timestamp = now,
            FinancePortfolio.currency = cur,
      FinancePortfolio.total_value = sum_list (map StockQuote.price (fulfilled (\<lambda>s. g s key) symbols)),
      FinancePortfolio.stocks = fulfilled (\<lambda>s. g s key) symbols,
      FinancePortfolio.meta = \<lparr>FinanceMeta.source = ''AlphaVantage API'',
              FinanceMeta.count = length (fulfilled (\<lambda>s. g s key) symbols)\<rparr>\<rparr>"
  using getFinancePortfolio_eq[of g now symbols key cur] by auto

lemma portfolio_logged:
  "console_error (fst (getFinancePortfolio g now symbols key cur)) =
     rejected (\<lambda>s. g s key) symbols"
  using getFinancePortfolio_eq[of g now symbols key cur] by auto

lemma portfolio_delays:
  "delays (fst (getFinancePortfolio g now symbols key cur)) =
     replicate (length (chunk_loop symbols 0 []) - 1) 1000"
  using getFinancePortfolio_eq[of g now symbols key cur] by auto

text \<open>
  C1, as amended. For every input list of symbols \<^verbatim>\<open>getFinancePortfolio\<close> returns the
  list of successful results, one for each input that succeeded, in input order, none
  duplicated and none lost, and their number as \<^verbatim>\<open>meta.count\<close>. The inputs that
  failed are not part of what it returns: each is written to the error console, with its
  symbol and failure reason, once and in input order. The number of results returned
  plus the number of failures logged equals the number of inputs.
\<close>

theorem portfolio_accounts_for_every_input:
  "FinancePortfolio.stocks (snd (getFinancePortfolio g now symbols key cur)) =
     fulfilled (\<lambda>s. g s key) symbols \<and>
   FinanceMeta.count (FinancePortfolio.meta (snd (getFinancePortfolio g now symbols key cur))) =
     length (FinancePortfolio.stocks (snd (getFinancePortfolio g now symbols key cur))) \<and>
   FinancePortfolio.ok (snd (getFinancePortfolio g now symbols key cur)) \<and>
   console_error (fst (getFinancePortfolio g now symbols key cur)) =
     rejected (\<lambda>s. g s key) symbols \<and>
   length (FinancePortfolio.stocks (snd (getFinancePortfolio g now symbols key cur))) +
     length (console_error (fst (getFinancePortfolio g now symbols key cur))) =
     length symbols"
  by (simp add: portfolio_returned portfolio_logged length_fulfilled_rejected)

theorem portfolio_accounts_for_every_input_witness:
  "length (FinancePortfolio.stocks (snd (getFinancePortfolio sample_adapter
      ''2025-11-02T01:00:00.000Z''
      [''AAPL'', ''MSFT'', ''XXXX'', ''AAPL'', ''MSFT'', ''AAPL'', ''MSFT''] ''demo'' ''usd''))) = 6 \<and>
   console_error (fst (getFinancePortfolio sample_adapter ''2025-11-02T01:00:00.000Z''
      [''AAPL'', ''MSFT'', ''XXXX'', ''AAPL'', ''MSFT'', ''AAPL'', ''MSFT''] ''demo'' ''usd'')) =
     [(''XXXX'', Error ''No data found for symbol: XXXX'')] \<and>
   delays (fst (getFinancePortfolio sample_adapter ''2025-11-02T01:00:00.000Z''
      [''AAPL'', ''MSFT'', ''XXXX'', ''AAPL'', ''MSFT'', ''AAPL'', ''MSFT''] ''demo'' ''usd'')) =
     [1000]"
proof -
  have f: "length (fulfilled (\<lambda>s. sample_adapter s ''demo'')
      [''AAPL'', ''MSFT'', ''XXXX'', ''AAPL'', ''MSFT'', ''AAPL'', ''MSFT'']) = 6"
    by (simp add: fulfilled_def sample_adapter_def)
  have r: "rejected (\<lambda>s. sample_adapter s ''demo'')
      [''AAPL'', ''MSFT'', ''XXXX'', ''AAPL'', ''MSFT'', ''AAPL'', ''MSFT''] =
      [(''XXXX'', Error ''No data found for symbol: XXXX'')]"
    by (simp add: rejected_def sample_adapter_def)
  have c: "length (chunk_loop
      [''AAPL'', ''MSFT'', ''XXXX'', ''AAPL'', ''MSFT'', ''AAPL'', ''MSFT''] 0 []) = 2"
    by (simp add: chunk_loop.simps)
  show ?thesis
    using portfolio_accounts_for_every_input[of sample_adapter "''2025-11-02T01:00:00.000Z''"
        "[''AAPL'', ''MSFT'', ''XXXX'', ''AAPL'', ''MSFT'', ''AAPL'', ''MSFT'']"
        "''demo''" "''usd''"]
    by (simp add: f r c portfolio_delays)
qed

theorem failures_not_returned_counterexample:
  "snd (getFinancePortfolio sample_adapter ''2025-11-02T01:00:00.000Z''
      [''AAPL'', ''XXXX''] ''demo'' ''usd'') =
   snd (getFinancePortfolio sample_adapter ''2025-11-02T01:00:00.000Z''
      [''AAPL''] ''demo'' ''usd'') \<and>
   FinanceMeta.count (FinancePortfolio.meta (snd (getFinancePortfolio sample_adapter
      ''2025-11-02T01:00:00.000Z'' [''AAPL'', ''XXXX''] ''demo'' ''usd''))) = 1 \<and>
   length [''AAPL'', ''XXXX''] = 2"
proof -
  have "fulfilled (\<lambda>s. sample_adapter s ''demo'') [''AAPL'', ''XXXX''] =
      fulfilled (\<lambda>s. sample_adapter s ''demo'') [''AAPL'']"
    by (simp add: fulfilled_def sample_adapter_def)
  moreover have "length (fulfilled (\<lambda>s. sample_adapter s ''demo'') [''AAPL'']) = 1"
    by (simp add: fulfilled_def sample_adapter_def)
  ultimately show ?thesis
    by (simp add: portfolio_returned)
qed

section \<open>Currency of an assembled snapshot\<close>

lemma those_map_Some:
  "those (map f xs) = Some ys \<longleftrightarrow> list_all2 (\<lambda>x y. f x = Some y) xs ys"
  by (induction xs arbitrary: ys) (auto split: option.splits simp: list_all2_Cons1)

lemma those_map_None:
  "those (map f xs) = None \<longleftrightarrow> \<not> list_all (\<lambda>x. f x \<noteq> None) xs"
  by (induction xs) (auto split: option.splits)

lemma top_crypto_view_Some:
  "top_crypto_view cur c = Some v \<Longrightarrow>
     TopCrypto.price v = map_option CMCQuote.price (quote c cur) \<and>
     TopCrypto.market_cap v = map_option CMCQuote.market_cap (quote c cur) \<and>
     TopCrypto.volume_24h v = map_option CMCQuote.volume_24h (quote c cur) \<and>
     TopCrypto.percent_change_24h v = map_option CMCQuote.percent_change_24h (quote c cur) \<and>
     TopCrypto.percent_change_7d v = map_option CMCQuote.percent_change_7d (quote c cur)"
  by (auto simp: top_crypto_view_def get_property_def split: option.splits if_splits)

lemma top_crypto_view_None:
  "top_crypto_view cur c = None \<longleftrightarrow>
     quote c cur = None \<and> cur \<notin> set object_prototype_keys"
  by (simp add: top_crypto_view_def get_property_def split: option.splits)

lemma named_currency_figures:
  assumes "getCMCMarketOverview env now limit cur = Inr ov"
    and "cur \<notin> set object_prototype_keys"
  shows "list_all (\<lambda>v. TopCrypto.price v \<noteq> None \<and> TopCrypto.market_cap v \<noteq> None \<and>
      TopCrypto.volume_24h v \<noteq> None \<and> TopCrypto.percent_change_24h v \<noteq> None \<and>
      TopCrypto.percent_change_7d v \<noteq> None) (top_cryptos ov)"
proof -
  from assms(1) obtain listings where
    vs: "those (map (top_crypto_view cur) listings) = Some (top_cryptos ov)"
    by (auto simp: getCMCMarketOverview_def split: sum.splits option.splits)
  then have rel: "list_all2 (\<lambda>c v. top_crypto_view cur c = Some v) listings (top_cryptos ov)"
    by (simp add: those_map_Some)
  have step: "TopCrypto.price v \<noteq> None \<and> TopCrypto.market_cap v \<noteq> None \<and>
      TopCrypto.volume_24h v \<noteq> None \<and> TopCrypto.percent_change_24h v \<noteq> None \<and>
      TopCrypto.percent_change_7d v \<noteq> None"
    if "top_crypto_view cur c = Some v" for c v
    using that assms(2)
    by (auto simp: top_crypto_view_def get_property_def split: option.splits if_splits)
  have "TopCrypto.price v \<noteq> None \<and> TopCrypto.market_cap v \<noteq> None \<and>
      TopCrypto.volume_24h v \<noteq> None \<and> TopCrypto.percent_change_24h v \<noteq> None \<and>
      TopCrypto.percent_change_7d v \<noteq> None"
    if "v \<in> set (top_cryptos ov)" for v
  proof -
    from that obtain i where i: "i < length (top_cryptos ov)" "top_cryptos ov ! i = v"
      by (auto simp: in_set_conv_nth)
    with rel have "top_crypto_view cur (listings ! i) = Some v"
      by (auto simp: list_all2_conv_all_nth)
    then show ?thesis by (rule step)
  qed
  then show ?thesis by (simp add: list_all_iff)
qed

text \<open>
  C6, as amended. \<^verbatim>\<open>getCMCMarketOverview\<close> declares the requested currency on the
  snapshot and asserts nothing about it. When both sub-calls succeed, each figure of an
  item is the one of the listing's quote under the requested currency name, and
  \<^verbatim>\<open>undefined\<close> where the listing has no such quote but the name is a member of
  \<^verbatim>\<open>Object.prototype\<close> (\<^verbatim>\<open>constructor\<close>, \<^verbatim>\<open>toString\<close> and the like). The whole
  call is rejected (with the \<^verbatim>\<open>TypeError\<close> of the failed property read) exactly when
  some listing has no quote under that name and the name is no such member either. The
  global figures, which carry no currency in the code, are passed through as they are.
  \<^verbatim>\<open>getFinancePortfolio\<close> never rejects: its quotes carry no currency, and the
  requested currency only labels the result.
\<close>

theorem snapshot_currency_is_a_label:
  "(getCMCTopCryptos env now limit cur = Inr listings \<and>
    getCMCGlobalMetrics env now cur = Inr gm \<longrightarrow>
      (if list_all (\<lambda>c. quote c cur \<noteq> None \<or> cur \<in> set object_prototype_keys) listings
       then \<exists>ov. getCMCMarketOverview env now limit cur = Inr ov \<and>
              MarketOverview.currency ov = cur \<and>
              list_all2 (\<lambda>c v.
                  TopCrypto.price v = map_option CMCQuote.price (quote c cur) \<and>
                  TopCrypto.market_cap v = map_option CMCQuote.market_cap (quote c cur) \<and>
                  TopCrypto.volume_24h v = map_option CMCQuote.volume_24h (quote c cur) \<and>
                  TopCrypto.percent_change_24h v =
                    map_option CMCQuote.percent_change_24h (quote c cur) \<and>
                  TopCrypto.percent_change_7d v =
                    map_option CMCQuote.percent_change_7d (quote c cur))
                listings (top_cryptos ov) \<and>
              GlobalView.total_market_cap (global ov) = CMCGlobalMetrics.total_market_cap gm \<and>
              GlobalView.total_volume_24h (global ov) = CMCGlobalMetrics.total_volume_24h gm \<and>
              GlobalView.btc_dominance (global ov) = CMCGlobalMetrics.btc_dominance gm \<and>
              GlobalView.eth_dominance (global ov) = CMCGlobalMetrics.eth_dominance gm \<and>
              GlobalView.active_cryptocurrencies (global ov) =
                CMCGlobalMetrics.active_cryptocurrencies gm \<and>
              GlobalView.active_exchanges (global ov) = CMCGlobalMetrics.active_exchanges gm
       else getCMCMarketOverview env now limit cur = Inl TypeError)) \<and>
   snd (getFinancePortfolio g now symbols key cur) =
     (snd (getFinancePortfolio g now symbols key cur'))\<lparr>FinancePortfolio.currency := cur\<rparr>"
proof -
  have finance: "snd (getFinancePortfolio g now symbols key cur) =
      (snd (getFinancePortfolio g now symbols key cur'))\<lparr>FinancePortfolio.currency := cur\<rparr>"
    by (simp add: portfolio_returned)
  have overview: "(if list_all (\<lambda>c. quote c cur \<noteq> None \<or> cur \<in> set object_prototype_keys) listings
       then \<exists>ov. getCMCMarketOverview env now limit cur = Inr ov \<and>
              MarketOverview.currency ov = cur \<and>
              list_all2 (\<lambda>c v.
                  TopCrypto.price v = map_option CMCQuote.price (quote c cur) \<and>
                  TopCrypto.market_cap v = map_option CMCQuote.market_cap (quote c cur) \<and>
                  TopCrypto.volume_24h v = map_option CMCQuote.volume_24h (quote c cur) \<and>
                  TopCrypto.percent_change_24h v =
                    map_option CMCQuote.percent_change_24h (quote c cur) \<and>
                  TopCrypto.percent_change_7d v =
                    map_option CMCQuote.percent_change_7d (quote c cur))
                listings (top_cryptos ov) \<and>
              GlobalView.total_market_cap (global ov) = CMCGlobalMetrics.total_market_cap gm \<and>
              GlobalView.total_volume_24h (global ov) = CMCGlobalMetrics.total_volume_24h gm \<and>
              GlobalView.btc_dominance (global ov) = CMCGlobalMetrics.btc_dominance gm \<and>
              GlobalView.eth_dominance (global ov) = CMCGlobalMetrics.eth_dominance gm \<and>
              GlobalView.active_cryptocurrencies (global ov) =
                CMCGlobalMetrics.active_cryptocurrencies gm \<and>
              GlobalView.active_exchanges (global ov) = CMCGlobalMetrics.active_exchanges gm
       else getCMCMarketOverview env now limit cur = Inl TypeError)"
    if top: "getCMCTopCryptos env now limit cur = Inr listings"
      and glob: "getCMCGlobalMetrics env now cur = Inr gm"
  proof (cases "list_all (\<lambda>c. quote c cur \<noteq> None \<or> cur \<in> set object_prototype_keys) listings")
    case False
    then have "those (map (top_crypto_view cur) listings) = None"
      by (simp add: those_map_None top_crypto_view_None)
    with False show ?thesis
      by (simp add: getCMCMarketOverview_def top glob)
  next
    case True
    then have "those (map (top_crypto_view cur) listings) \<noteq> None"
      by (simp add: those_map_None top_crypto_view_None)
    then obtain vs where vs: "those (map (top_crypto_view cur) listings) = Some vs"
      by auto
    then have "list_all2 (\<lambda>c v. top_crypto_view cur c = Some v) listings vs"
      by (simp add: those_map_Some)
    then have "list_all2 (\<lambda>c v.
          TopCrypto.price v = map_option CMCQuote.price (quote c cur) \<and>
          TopCrypto.market_cap v = map_option CMCQuote.market_cap (quote c cur) \<and>
          TopCrypto.volume_24h v = map_option CMCQuote.volume_24h (quote c cur) \<and>
          TopCrypto.percent_change_24h v =
            map_option CMCQuote.percent_change_24h (quote c cur) \<and>
          TopCrypto.percent_change_7d v =
            map_option CMCQuote.percent_change_7d (quote c cur)) listings vs"
      by (rule list_all2_mono) (rule top_crypto_view_Some)
    with True show ?thesis
      by (simp add: getCMCMarketOverview_def top glob vs)
  qed
  show ?thesis
    using finance overview by blast
qed

theorem snapshot_currency_is_a_label_witness:
  "getCMCTopCryptos fallback_env ''2025-11-02T01:00:00.000Z'' (Num 1) ''USD'' =
     Inr [hd (mockData ''2025-11-02T01:00:00.000Z'')] \<and>
   getCMCGlobalMetrics fallback_env ''2025-11-02T01:00:00.000Z'' ''USD'' =
     Inr (getMockGlobalMetrics ''2025-11-02T01:00:00.000Z'') \<and>
   (\<exists>ov. getCMCMarketOverview fallback_env ''2025-11-02T01:00:00.000Z'' (Num 1) ''USD'' = Inr ov \<and>
      MarketOverview.currency ov = ''USD'' \<and>
      map TopCrypto.price (top_cryptos ov) = [Some 109554.23] \<and>
      GlobalView.total_market_cap (global ov) = 3800000000000) \<and>
   getCMCTopCryptos fallback_env ''2025-11-02T01:00:00.000Z'' (Num 1) ''EUR'' =
     Inr [hd (mockData ''2025-11-02T01:00:00.000Z'')] \<and>
   getCMCGlobalMetrics fallback_env ''2025-11-02T01:00:00.000Z'' ''EUR'' =
     Inr (getMockGlobalMetrics ''2025-11-02T01:00:00.000Z'') \<and>
   getCMCMarketOverview fallback_env ''2025-11-02T01:00:00.000Z'' (Num 1) ''EUR'' = Inl TypeError \<and>
   (\<exists>ov. getCMCMarketOverview fallback_env ''2025-11-02T01:00:00.000Z'' (Num 1) ''constructor'' =
        Inr ov \<and>
      MarketOverview.currency ov = ''constructor'' \<and>
      map TopCrypto.price (top_cryptos ov) = [None] \<and>
      map TopCrypto.market_cap (top_cryptos ov) = [None])"
proof -
  let ?now = "''2025-11-02T01:00:00.000Z''"
  let ?btc = "hd (mockData ?now)"
  have top: "getCMCTopCryptos fallback_env ?now (Num 1) cur = Inr [?btc]" for cur
    using array_slice_0_nat[of "mockData ?now" 1]
    by (simp add: getCMCTopCryptos_def fallback_env_def getMockCMCData_def to_integer_def
        mockData_def)
  have glob: "getCMCGlobalMetrics fallback_env ?now cur = Inr (getMockGlobalMetrics ?now)"
    for cur
    by (simp add: getCMCGlobalMetrics_def fallback_env_def)
  have usd: "list_all (\<lambda>c. quote c ''USD'' \<noteq> None \<or> ''USD'' \<in> set object_prototype_keys) [?btc]"
    by (simp add: mockData_def)
  have eur: "\<not> list_all (\<lambda>c. quote c ''EUR'' \<noteq> None \<or> ''EUR'' \<in> set object_prototype_keys) [?btc]"
    by (simp add: mockData_def object_prototype_keys_def)
  have ctor: "list_all (\<lambda>c. quote c ''constructor'' \<noteq> None \<or>
      ''constructor'' \<in> set object_prototype_keys) [?btc]"
    by (simp add: object_prototype_keys_def)
  have q_usd: "map_option CMCQuote.price (quote ?btc ''USD'') = Some 109554.23"
    by (simp add: mockData_def)
  have q_ctor: "quote ?btc ''constructor'' = None"
    by (simp add: mockData_def)
  note at_usd = snapshot_currency_is_a_label[of fallback_env ?now "Num 1" "''USD''" "[?btc]"
      "getMockGlobalMetrics ?now" sample_adapter "[]" "''demo''" "''usd''",
      THEN conjunct1, THEN mp, OF conjI[OF top glob]]
  from at_usd usd obtain ov where
    ov: "getCMCMarketOverview fallback_env ?now (Num 1) ''USD'' = Inr ov"
      "MarketOverview.currency ov = ''USD''"
    and items: "list_all2 (\<lambda>c v.
        TopCrypto.price v = map_option CMCQuote.price (quote c ''USD'') \<and>
        TopCrypto.market_cap v = map_option CMCQuote.market_cap (quote c ''USD'') \<and>
        TopCrypto.volume_24h v = map_option CMCQuote.volume_24h (quote c ''USD'') \<and>
        TopCrypto.percent_change_24h v =
          map_option CMCQuote.percent_change_24h (quote c ''USD'') \<and>
        TopCrypto.percent_change_7d v =
          map_option CMCQuote.percent_change_7d (quote c ''USD''))
        [?btc] (top_cryptos ov)"
    and cap: "GlobalView.total_market_cap (global ov) =
        CMCGlobalMetrics.total_market_cap (getMockGlobalMetrics ?now)"
    by auto
  from items obtain v where v: "top_cryptos ov = [v]"
    "TopCrypto.price v = map_option CMCQuote.price (quote ?btc ''USD'')"
    by (auto simp: list_all2_Cons1)
  have prices: "map TopCrypto.price (top_cryptos ov) = [Some 109554.23]"
    using v q_usd by simp
  have cap': "GlobalView.total_market_cap (global ov) = 3800000000000"
    using cap by (simp add: getMockGlobalMetrics_def)
  have "getCMCMarketOverview fallback_env ?now (Num 1) ''USD'' = Inr ov \<and>
      MarketOverview.currency ov = ''USD'' \<and>
      map TopCrypto.price (top_cryptos ov) = [Some 109554.23] \<and>
      GlobalView.total_market_cap (global ov) = 3800000000000"
    using ov prices cap' by (intro conjI)
  then have first: "\<exists>ov. getCMCMarketOverview fallback_env ?now (Num 1) ''USD'' = Inr ov \<and>
      MarketOverview.currency ov = ''USD'' \<and>
      map TopCrypto.price (top_cryptos ov) = [Some 109554.23] \<and>
      GlobalView.total_market_cap (global ov) = 3800000000000"
    by (rule exI)
  have second: "getCMCMarketOverview fallback_env ?now (Num 1) ''EUR'' = Inl TypeError"
    using snapshot_currency_is_a_label[of fallback_env ?now "Num 1" "''EUR''" "[?btc]"
        "getMockGlobalMetrics ?now" sample_adapter "[]" "''demo''" "''usd''",
        THEN conjunct1, THEN mp, OF conjI[OF top glob]] eur
    by simp
  note at_ctor = snapshot_currency_is_a_label[of fallback_env ?now "Num 1" "''constructor''"
      "[?btc]" "getMockGlobalMetrics ?now" sample_adapter "[]" "''demo''" "''usd''",
      THEN conjunct1, THEN mp, OF conjI[OF top glob]]
  from at_ctor ctor obtain ov' where
    ov': "getCMCMarketOverview fallback_env ?now (Num 1) ''constructor'' = Inr ov'"
      "MarketOverview.currency ov' = ''constructor''"
    and items': "list_all2 (\<lambda>c v.
        TopCrypto.price v = map_option CMCQuote.price (quote c ''constructor'') \<and>
        TopCrypto.market_cap v = map_option CMCQuote.market_cap (quote c ''constructor'') \<and>
        TopCrypto.volume_24h v = map_option CMCQuote.volume_24h (quote c ''constructor'') \<and>
        TopCrypto.percent_change_24h v =
          map_option CMCQuote.percent_change_24h (quote c ''constructor'') \<and>
        TopCrypto.percent_change_7d v =
          map_option CMCQuote.percent_change_7d (quote c ''constructor''))
        [?btc] (top_cryptos ov')"
    by auto
  from items' obtain v' where v': "top_cryptos ov' = [v']"
    "TopCrypto.price v' = map_option CMCQuote.price (quote ?btc ''constructor'')"
    "TopCrypto.market_cap v' = map_option CMCQuote.market_cap (quote ?btc ''constructor'')"
    by (auto simp: list_all2_Cons1)
  have "getCMCMarketOverview fallback_env ?now (Num 1) ''constructor'' = Inr ov' \<and>
      MarketOverview.currency ov' = ''constructor'' \<and>
      map TopCrypto.price (top_cryptos ov') = [None] \<and>
      map TopCrypto.market_cap (top_cryptos ov') = [None]"
    using ov' v' by (simp add: q_ctor)
  then have third: "\<exists>ov. getCMCMarketOverview fallback_env ?now (Num 1) ''constructor'' = Inr ov \<and>
      MarketOverview.currency ov = ''constructor'' \<and>
      map TopCrypto.price (top_cryptos ov) = [None] \<and>
      map TopCrypto.market_cap (top_cryptos ov) = [None]"
    by (rule exI)
  show ?thesis
    using top[of "''USD''"] glob[of "''USD''"] first top[of "''EUR''"] glob[of "''EUR''"]
      second third
    by (intro conjI)
qed

theorem currency_not_asserted_counterexample:
  "(\<exists>ov ov'.
      getCMCMarketOverview fallback_env ''2025-11-02T01:00:00.000Z'' (Num 0) ''EUR'' = Inr ov \<and>
      getCMCMarketOverview fallback_env ''2025-11-02T01:00:00.000Z'' (Num 0) ''USD'' = Inr ov' \<and>
      MarketOverview.currency ov = ''EUR'' \<and> MarketOverview.currency ov' = ''USD'' \<and>
      global ov = global ov' \<and>
      GlobalView.total_market_cap (global ov) = 3800000000000) \<and>
   FinancePortfolio.currency (snd (getFinancePortfolio sample_adapter
      ''2025-11-02T01:00:00.000Z'' [''AAPL'', ''MSFT''] ''demo'' ''eur'')) = ''eur'' \<and>
   FinancePortfolio.currency (snd (getFinancePortfolio sample_adapter
      ''2025-11-02T01:00:00.000Z'' [''AAPL'', ''MSFT''] ''demo'' ''usd'')) = ''usd'' \<and>
   FinancePortfolio.total_value (snd (getFinancePortfolio sample_adapter
      ''2025-11-02T01:00:00.000Z'' [''AAPL'', ''MSFT''] ''demo'' ''eur'')) = 600.5 \<and>
   FinancePortfolio.total_value (snd (getFinancePortfolio sample_adapter
      ''2025-11-02T01:00:00.000Z'' [''AAPL'', ''MSFT''] ''demo'' ''usd'')) = 600.5"
proof -
  have top: "getCMCTopCryptos fallback_env ''2025-11-02T01:00:00.000Z'' (Num 0) cur = Inr []"
    for cur
    using array_slice_0_nat[of "mockData ''2025-11-02T01:00:00.000Z''" 0]
    by (simp add: getCMCTopCryptos_def fallback_env_def getMockCMCData_def to_integer_def)
  have glob: "getCMCGlobalMetrics fallback_env ''2025-11-02T01:00:00.000Z'' cur =
      Inr (getMockGlobalMetrics ''2025-11-02T01:00:00.000Z'')" for cur
    by (simp add: getCMCGlobalMetrics_def fallback_env_def)
  have cmc: "\<exists>ov ov'.
      getCMCMarketOverview fallback_env ''2025-11-02T01:00:00.000Z'' (Num 0) ''EUR'' = Inr ov \<and>
      getCMCMarketOverview fallback_env ''2025-11-02T01:00:00.000Z'' (Num 0) ''USD'' = Inr ov' \<and>
      MarketOverview.currency ov = ''EUR'' \<and> MarketOverview.currency ov' = ''USD'' \<and>
      global ov = global ov' \<and>
      GlobalView.total_market_cap (global ov) = 3800000000000"
    by (simp add: getCMCMarketOverview_def top glob getMockGlobalMetrics_def)
  have "sum_list (map StockQuote.price
      (fulfilled (\<lambda>s. sample_adapter s ''demo'') [''AAPL'', ''MSFT''])) = 600.5"
    by (simp add: fulfilled_def sample_adapter_def)
  then show ?thesis
    using cmc by (simp add: portfolio_returned)
qed

section \<open>Properties of the report renderer\<close>

subsection \<open>The structured form determines the report\<close>

lemma sentiment_string_eq: "sentiment_string a = sentiment_string b \<longleftrightarrow> a = b"
  by (cases a; cases b) (simp_all add: sentiment_string_def)

lemma json_of_global_eq: "json_of_global a = json_of_global b \<longleftrightarrow> a = b"
  by (cases a, cases b) (auto simp: json_of_global_def)

lemma json_of_top_crypto_eq: "json_of_top_crypto a = json_of_top_crypto b \<longleftrightarrow> a = b"
  by (cases a, cases b) (auto simp: json_of_top_crypto_def)

lemma json_of_pair_eq: "json_of_pair a = json_of_pair b \<longleftrightarrow> a = b"
  by (cases a, cases b) (auto simp: json_of_pair_def)

lemma map_eq_of_eq: "(\<And>a b. f a = f b \<longleftrightarrow> a = b) \<Longrightarrow> map f xs = map f ys \<longleftrightarrow> xs = ys"
  by (rule inj_map_eq_map) (simp add: inj_def)

lemma json_of_overview_eq: "json_of_overview a = json_of_overview b \<longleftrightarrow> a = b"
proof -
  obtain m where m: "MarketOverview.meta a = m" by simp
  obtain m' where m': "MarketOverview.meta b = m'" by simp
  show ?thesis
    by (cases a, cases b, cases m, cases m')
      (auto simp: json_of_overview_def json_of_global_eq
        map_eq_of_eq[of json_of_top_crypto, OF json_of_top_crypto_eq])
qed

lemma json_of_trading_eq: "json_of_trading a = json_of_trading b \<longleftrightarrow> a = b"
  by (cases a, cases b, cases "TradingSummary.meta a", cases "TradingSummary.meta b")
    (auto simp: json_of_trading_def map_eq_of_eq[of json_of_pair, OF json_of_pair_eq])

lemma JString_map_eq: "map JString xs = map JString ys \<longleftrightarrow> xs = ys"
  by (rule map_eq_of_eq) simp

lemma json_of_insight_eq: "json_of_insight a = json_of_insight b \<longleftrightarrow> a = b"
  by (cases a, cases b) (auto simp: json_of_insight_def sentiment_string_eq JString_map_eq)

lemma json_of_report_eq: "json_of_report a = json_of_report b \<longleftrightarrow> a = b"
  by (cases a, cases b, cases "data a", cases "data b", cases "Report.meta a",
      cases "Report.meta b")
    (auto simp: json_of_report_def json_of_overview_eq json_of_trading_eq json_of_insight_eq
      JString_map_eq)

lemma report_reader: "\<exists>reader. \<forall>report. reader (json_of_report report) = report"
proof -
  have "inj json_of_report" by (simp add: inj_def json_of_report_eq)
  then have "\<forall>report. inv json_of_report (json_of_report report) = report" by simp
  then show ?thesis by (rule exI[of _ "inv json_of_report"])
qed

subsection \<open>What the text rendering contains\<close>

lemma sublist_concat_mem: "x \<in> set xs \<Longrightarrow> sublist x (concat xs)"
proof -
  assume "x \<in> set xs"
  then obtain ys zs where "xs = ys @ x # zs" by (auto simp: in_set_conv_decomp)
  then have "concat xs = concat ys @ x @ concat zs" by simp
  then show ?thesis unfolding sublist_def by blast
qed

lemma sublist_concat_slice: "sublist (concat (take k (drop i xs))) (concat xs)"
proof -
  have "xs = take i xs @ take k (drop i xs) @ drop k (drop i xs)"
    by (simp only: append_take_drop_id)
  then have "concat xs = concat (take i xs) @ concat (take k (drop i xs)) @ concat (drop k (drop i xs))"
    by (metis concat_append)
  then show ?thesis unfolding sublist_def by blast
qed

lemma sublist_join_mem: "x \<in> set xs \<Longrightarrow> sublist x (join sep xs)"
proof (induction sep xs rule: join.induct)
  case (1 sep)
  then show ?case by simp
next
  case (2 sep y)
  then show ?case by simp
next
  case (3 sep a b bs)
  show ?case
  proof (cases "x = a")
    case True
    then show ?thesis by (simp add: sublist_append_rightI)
  next
    case False
    with 3 have "sublist x (join sep (b # bs))" by simp
    moreover have "sublist (join sep (b # bs)) ((a @ sep) @ join sep (b # bs))"
      by (rule sublist_append_leftI)
    ultimately have "sublist x ((a @ sep) @ join sep (b # bs))"
      by (rule sublist_order.order_trans)
    then show ?thesis by simp
  qed
qed

lemma piece_sublist:
  "x \<in> set (template_pieces pf r) \<Longrightarrow> sublist x (generateMarkdownReport pf r)"
  unfolding generateMarkdownReport_def by (rule sublist_concat_mem)

lemma sublist_trans: "sublist xs ys \<Longrightarrow> sublist ys zs \<Longrightarrow> sublist xs zs"
  by (rule sublist_order.order_trans)

lemma joined_piece_sublist:
  "x \<in> set xs \<Longrightarrow> join sep xs \<in> set (template_pieces pf r) \<Longrightarrow>
     sublist x (generateMarkdownReport pf r)"
  by (rule sublist_trans[OF sublist_join_mem piece_sublist])

lemma header_fields:
  "list_all (\<lambda>x. sublist x (generateMarkdownReport pf r))
     [report_id r,
      dateToLocaleString pf (generated_at r),
      version (Report.meta r),
      summary (ai_insights (data r)),
      toUpperCase (sentiment_string (sentiment (ai_insights (data r)))),
      numberToString pf (confidence (ai_insights (data r))),
      formatCurrency pf (GlobalView.total_market_cap (global (market_overview (data r)))),
      formatCurrency pf (GlobalView.total_volume_24h (global (market_overview (data r)))),
      toFixed pf 1 (GlobalView.btc_dominance (global (market_overview (data r)))),
      toFixed pf 1 (GlobalView.eth_dominance (global (market_overview (data r)))),
      numberToLocaleString pf (GlobalView.active_cryptocurrencies (global (market_overview (data r)))),
      numberToLocaleString pf (GlobalView.active_exchanges (global (market_overview (data r)))),
      recommendation (ai_insights (data r))]"
  by (simp add: piece_sublist template_pieces_def Let_def)


lemma array_slice_0_10: "array_slice xs 0 10 = take 10 xs"
  using array_slice_0_nat[of xs 10] by simp

lemma crypto_fields:
  assumes "c \<in> set (top_cryptos (market_overview (data r)))"
  shows "list_all (\<lambda>x. sublist x (generateMarkdownReport pf r))
     [numberToString pf (rank c), TopCrypto.name c, TopCrypto.symbol c,
      formatCurrency pf (TopCrypto.price c),
      formatPercent pf (TopCrypto.percent_change_24h c),
      formatPercent pf (TopCrypto.percent_change_7d c),
      formatCurrency pf (TopCrypto.market_cap c)]"
proof -
  have row: "sublist (crypto_row pf c) (generateMarkdownReport pf r)"
    using assms
    by (intro joined_piece_sublist[of _ "map (crypto_row pf) (top_cryptos (market_overview (data r)))" nl])
      (simp_all add: template_pieces_def Let_def)
  have "sublist x (crypto_row pf c)"
    if "x \<in> set [''| '', numberToString pf (rank c), '' | '', TopCrypto.name c, '' | '',
        TopCrypto.symbol c, '' | '', formatCurrency pf (TopCrypto.price c), '' | '',
        formatPercent pf (TopCrypto.percent_change_24h c), '' | '',
        formatPercent pf (TopCrypto.percent_change_7d c), '' | '',
        formatCurrency pf (TopCrypto.market_cap c), '' |'']" for x
    unfolding crypto_row_def using that by (rule sublist_concat_mem)
  then have "sublist x (generateMarkdownReport pf r)"
    if "x \<in> set [''| '', numberToString pf (rank c), '' | '', TopCrypto.name c, '' | '',
        TopCrypto.symbol c, '' | '', formatCurrency pf (TopCrypto.price c), '' | '',
        formatPercent pf (TopCrypto.percent_change_24h c), '' | '',
        formatPercent pf (TopCrypto.percent_change_7d c), '' | '',
        formatCurrency pf (TopCrypto.market_cap c), '' |'']" for x
    using that row sublist_trans by blast
  then show ?thesis by simp
qed

lemma pair_fields:
  assumes "p \<in> set (take 10 (pairs (trading_summary (data r))))"
  shows "list_all (\<lambda>x. sublist x (generateMarkdownReport pf r))
     [BinanceMarketSummary.symbol p,
      formatCurrency pf (BinanceMarketSummary.price p),
      formatPercent pf (priceChangePercent24h p),
      formatCurrency pf (quoteVolume24h p)]"
proof -
  have row: "sublist (pair_row pf p) (generateMarkdownReport pf r)"
    using assms
    by (intro joined_piece_sublist[of _ "map (pair_row pf) (take 10 (pairs (trading_summary (data r))))" nl])
      (simp_all add: template_pieces_def Let_def array_slice_0_10)
  have "sublist x (pair_row pf p)"
    if "x \<in> set [''| '', BinanceMarketSummary.symbol p, '' | '',
        formatCurrency pf (BinanceMarketSummary.price p), '' | '',
        formatPercent pf (priceChangePercent24h p), '' | '',
        formatCurrency pf (quoteVolume24h p), '' |'']" for x
    unfolding pair_row_def using that by (rule sublist_concat_mem)
  then have "sublist x (generateMarkdownReport pf r)"
    if "x \<in> set [''| '', BinanceMarketSummary.symbol p, '' | '',
        formatCurrency pf (BinanceMarketSummary.price p), '' | '',
        formatPercent pf (priceChangePercent24h p), '' | '',
        formatCurrency pf (quoteVolume24h p), '' |'']" for x
    using that row sublist_trans by blast
  then show ?thesis by simp
qed

lemma bullet_fields:
  assumes "join nl (map bullet pts) \<in> set (template_pieces pf r)"
  shows "list_all (\<lambda>x. sublist x (generateMarkdownReport pf r)) pts"
proof -
  have "sublist x (generateMarkdownReport pf r)" if "x \<in> set pts" for x
  proof -
    have "sublist x (bullet x)" unfolding bullet_def by (rule sublist_append_leftI)
    moreover have "sublist (bullet x) (generateMarkdownReport pf r)"
      using that assms by (intro joined_piece_sublist[of _ "map bullet pts" nl]) simp_all
    ultimately show ?thesis by (rule sublist_trans)
  qed
  then show ?thesis by (simp add: list_all_iff)
qed

lemma source_fields:
  "list_all (\<lambda>x. sublist x (generateMarkdownReport pf r)) (data_sources (Report.meta r))"
proof -
  have "sublist x (generateMarkdownReport pf r)" if "x \<in> set (data_sources (Report.meta r))" for x
    using that
    by (intro joined_piece_sublist[of _ "data_sources (Report.meta r)" "'', ''"])
      (simp_all add: template_pieces_def Let_def)
  then show ?thesis by (simp add: list_all_iff)
qed

lemma all_rendered:
  "list_all (\<lambda>x. sublist x (generateMarkdownReport pf r)) (rendered_fields pf r)"
proof -
  have c: "list_all (\<lambda>x. sublist x (generateMarkdownReport pf r))
     (concat (map (\<lambda>c.
           [numberToString pf (rank c), TopCrypto.name c, TopCrypto.symbol c,
            formatCurrency pf (TopCrypto.price c),
            formatPercent pf (TopCrypto.percent_change_24h c),
            formatPercent pf (TopCrypto.percent_change_7d c),
            formatCurrency pf (TopCrypto.market_cap c)]) (top_cryptos (market_overview (data r)))))"
    using crypto_fields[of _ r pf] by (auto simp: list_all_iff)
  have p: "list_all (\<lambda>x. sublist x (generateMarkdownReport pf r))
     (concat (map (\<lambda>p.
           [BinanceMarketSummary.symbol p,
            formatCurrency pf (BinanceMarketSummary.price p),
            formatPercent pf (priceChangePercent24h p),
            formatCurrency pf (quoteVolume24h p)]) (take 10 (pairs (trading_summary (data r))))))"
    using pair_fields[of _ r pf] by (auto simp: list_all_iff)
  have k: "list_all (\<lambda>x. sublist x (generateMarkdownReport pf r)) (key_points (ai_insights (data r)))"
    by (rule bullet_fields) (simp add: template_pieces_def Let_def)
  have o: "list_all (\<lambda>x. sublist x (generateMarkdownReport pf r))
      (MarketInsight.opportunities (ai_insights (data r)))"
    by (rule bullet_fields) (simp add: template_pieces_def Let_def)
  have ri: "list_all (\<lambda>x. sublist x (generateMarkdownReport pf r)) (risks (ai_insights (data r)))"
    by (rule bullet_fields) (simp add: template_pieces_def Let_def)
  show ?thesis
    unfolding rendered_fields_def Let_def list_all_append
    using header_fields[of pf r] source_fields[of pf r] c p k o ri by (intro conjI)
qed

subsection \<open>Number formatting\<close>

lemma digits_lt10: "n < 10 \<Longrightarrow> digits n = [digit_char n]"
  by (subst digits.simps) simp

lemma digits_ge10: "n \<ge> 10 \<Longrightarrow> digits n = digits (n div 10) @ [digit_char (n mod 10)]"
  by (subst digits.simps) simp

lemma digits_nonempty: "digits n \<noteq> []"
  by (subst digits.simps) simp

lemma digit_char_0: "digit_char 0 = CHR ''0''"
  by (simp add: digit_char_def)

lemma digit_char_digit: "d < 10 \<Longrightarrow> digit_char d \<in> set ''0123456789''"
  unfolding digit_char_def by (rule nth_mem) simp

lemma digits_are_digits: "set (digits n) \<subseteq> set ''0123456789''"
proof (induction n rule: digits.induct)
  case (1 n)
  show ?case
  proof (cases "n < 10")
    case True
    then show ?thesis using digit_char_digit[of n] by (simp add: digits_lt10)
  next
    case False
    then have "set (digits (n div 10)) \<subseteq> set ''0123456789''" by (rule 1)
    moreover have "digit_char (n mod 10) \<in> set ''0123456789''"
      by (rule digit_char_digit) simp
    ultimately show ?thesis using False by (simp add: digits_ge10)
  qed
qed

lemma fixed_digits:
  "(let m = (if n = 0 then ''0'' else digits n);
        k = length m;
        m' = (if k \<le> 2 then replicate (2 + 1 - k) (CHR ''0'') @ m else m);
        k' = (if k \<le> 2 then 2 + 1 else k)
    in take (k' - 2) m' @ ''.'' @ drop (k' - 2) m') =
   digits (n div 100) @ ''.'' @ [digit_char (n div 10 mod 10), digit_char (n mod 10)]"
proof -
  consider "n < 10" | "10 \<le> n" "n < 100" | "100 \<le> n" by linarith
  then show ?thesis
  proof cases
    case 1
    then show ?thesis
      by (simp add: digits_lt10 digit_char_0 Let_def numeral_3_eq_3)
  next
    case 2
    then have "n div 10 < 10" by simp
    with 2 show ?thesis
      by (simp add: digits_ge10 digits_lt10 digit_char_0 Let_def)
  next
    case 3
    then have "10 \<le> n div 10" by simp
    then have d: "digits n =
        digits (n div 100) @ [digit_char (n div 10 mod 10), digit_char (n mod 10)]"
      using 3 by (simp add: digits_ge10[of n] digits_ge10[of "n div 10"] flip: div_mult2_eq)
    have "length (digits (n div 100)) \<ge> 1"
      using digits_nonempty[of "n div 100"] by (cases "digits (n div 100)") simp_all
    with 3 show ?thesis
      by (simp add: d Let_def digits_nonempty)
  qed
qed

lemma toFixed_two:
  assumes "\<bar>x\<bar> < 10 ^ 21"
  shows "toFixed pf 2 x = (if x < 0 then ''-'' else []) @ decimal2 \<bar>x\<bar>"
proof -
  define n where "n = nat \<lfloor>\<bar>x\<bar> * 10 ^ 2 + 1 / 2\<rfloor>"
  have nb: "\<not> (10 ^ 21 \<le> \<bar>x\<bar>)" using assms by simp
  have two: "((2::nat) \<noteq> 0) = True" by simp
  have "toFixed pf 2 x = (if x < 0 then ''-'' else []) @
      (digits (n div 100) @ ''.'' @ [digit_char (n div 10 mod 10), digit_char (n mod 10)])"
    unfolding toFixed_def Let_def n_def[symmetric]
    by (simp only: nb if_False two if_True fixed_digits[of n, unfolded Let_def])
  moreover have "n = nat \<lfloor>\<bar>x\<bar> * 100 + 1 / 2\<rfloor>" by (simp add: n_def)
  ultimately show ?thesis by (simp add: decimal2_def Let_def)
qed

lemma decimal2_shape:
  "\<exists>ip d1 d2. decimal2 x = ip @ [CHR ''.'', d1, d2] \<and> ip \<noteq> [] \<and>
     set (ip @ [d1, d2]) \<subseteq> set ''0123456789''"
proof -
  define n where "n = nat \<lfloor>x * 100 + 1 / 2\<rfloor>"
  have "decimal2 x = digits (n div 100) @ [CHR ''.'', digit_char (n div 10 mod 10), digit_char (n mod 10)]"
    by (simp add: decimal2_def n_def Let_def)
  moreover have "digits (n div 100) \<noteq> []" by (rule digits_nonempty)
  moreover have "set (digits (n div 100) @ [digit_char (n div 10 mod 10), digit_char (n mod 10)])
      \<subseteq> set ''0123456789''"
    using digits_are_digits[of "n div 100"] digit_char_digit[of "n div 10 mod 10"]
      digit_char_digit[of "n mod 10"]
    by simp
  ultimately show ?thesis by blast
qed

lemma decimal2_nearest:
  "0 \<le> x \<Longrightarrow> \<bar>real (nat \<lfloor>x * 100 + 1 / 2\<rfloor>) / 100 - x\<bar> \<le> 1 / 200"
proof -
  assume "0 \<le> x"
  then have "0 \<le> \<lfloor>x * 100 + 1 / 2\<rfloor>" by simp
  then have "real (nat \<lfloor>x * 100 + 1 / 2\<rfloor>) = of_int \<lfloor>x * 100 + 1 / 2\<rfloor>" by simp
  moreover have "x * 100 + 1 / 2 - 1 < of_int \<lfloor>x * 100 + 1 / 2\<rfloor>" by linarith
  moreover have "of_int \<lfloor>x * 100 + 1 / 2\<rfloor> \<le> x * 100 + 1 / 2" by linarith
  ultimately show ?thesis by linarith
qed

lemma ilog2_bounds: "0 < n \<Longrightarrow> 2 ^ ilog2 n \<le> n \<and> n < 2 ^ Suc (ilog2 n)"
proof (induction n rule: ilog2.induct)
  case (1 n)
  show ?case
  proof (cases "n < 2")
    case True
    with 1(2) have "n = 1" by simp
    then show ?thesis by (simp add: ilog2.simps)
  next
    case False
    then have "0 < n div 2" by simp
    with 1(1) False have ih: "2 ^ ilog2 (n div 2) \<le> n div 2 \<and> n div 2 < 2 ^ Suc (ilog2 (n div 2))"
      by simp
    have eq: "ilog2 n = Suc (ilog2 (n div 2))"
      using False by (subst ilog2.simps) simp
    from ih have "2 * 2 ^ ilog2 (n div 2) \<le> n" by linarith
    moreover from ih have "n < 2 * 2 ^ Suc (ilog2 (n div 2))" by linarith
    ultimately show ?thesis by (simp add: eq)
  qed
qed

lemma binary_exponent_bounds:
  fixes x :: real
  assumes "1 \<le> x"
  shows "2 ^ ilog2 (nat \<lfloor>x\<rfloor>) \<le> x" and "x < 2 * 2 ^ ilog2 (nat \<lfloor>x\<rfloor>)"
proof -
  define n where "n = nat \<lfloor>x\<rfloor>"
  have n: "0 < n" "real n \<le> x" "x < real n + 1"
    using assms by (simp_all add: n_def)
  from ilog2_bounds[OF n(1)] have b: "2 ^ ilog2 n \<le> n" "n + 1 \<le> 2 ^ Suc (ilog2 n)"
    by simp_all
  from b(1) have "(2::real) ^ ilog2 n \<le> real n"
    by (metis of_nat_le_iff of_nat_numeral of_nat_power)
  with n(2) have "2 ^ ilog2 n \<le> x" by linarith
  then show "2 ^ ilog2 (nat \<lfloor>x\<rfloor>) \<le> x" unfolding n_def .
  from b(2) have "real (n + 1) \<le> (2::real) ^ Suc (ilog2 n)"
    by (metis of_nat_le_iff of_nat_numeral of_nat_power)
  then have "real n + 1 \<le> 2 * 2 ^ ilog2 n" by simp
  with n(3) have "x < 2 * 2 ^ ilog2 n" by linarith
  then show "x < 2 * 2 ^ ilog2 (nat \<lfloor>x\<rfloor>)" unfolding n_def .
qed

lemma round_half_even_near: "\<bar>of_int (round_half_even r) - r\<bar> \<le> 1 / 2"
  unfolding round_half_even_def Let_def by (simp; linarith)

lemma round_half_even_nonneg: "0 \<le> r \<Longrightarrow> 0 \<le> round_half_even r"
  unfolding round_half_even_def Let_def by simp

lemma round_double_ge1:
  assumes "1 \<le> x"
  shows "round_double x =
     of_int (round_half_even (x / pow2 (int (ilog2 (nat \<lfloor>x\<rfloor>)) - 52))) *
       pow2 (int (ilog2 (nat \<lfloor>x\<rfloor>)) - 52)"
  using assms by (simp add: round_double_def binary_exponent_def Let_def max_def)

lemma pow2_pos: "0 < pow2 k"
  by (simp add: pow2_def)

lemma pow2_shift: "pow2 (int e - 52) * 2 ^ 53 = 2 * 2 ^ e"
proof (cases "52 \<le> e")
  case True
  then have "pow2 (int e - 52) = 2 ^ (e - 52)" by (simp add: pow2_def nat_diff_distrib')
  then have "pow2 (int e - 52) * 2 ^ 53 = 2 ^ (e - 52 + 53)" by (simp add: power_add)
  also have "e - 52 + 53 = Suc e" using True by simp
  finally show ?thesis by simp
next
  case False
  then have p: "pow2 (int e - 52) = 1 / 2 ^ (52 - e)"
    by (simp add: pow2_def)
  have "52 - e + Suc e = 53" using False by simp
  then have "(2::real) ^ 53 = 2 ^ (52 - e + Suc e)" by (simp only:)
  also have "\<dots> = 2 ^ (52 - e) * 2 ^ Suc e" by (rule power_add)
  finally have k: "(2::real) ^ 53 = 2 ^ (52 - e) * 2 ^ Suc e" .
  have "pow2 (int e - 52) * 2 ^ 53 = 1 / 2 ^ (52 - e) * (2 ^ (52 - e) * 2 ^ Suc e)"
    by (simp only: p k)
  also have "\<dots> = 2 * 2 ^ e" by simp
  finally show ?thesis .
qed

lemma round_double_near:
  assumes "1 \<le> x"
  shows "\<bar>round_double x - x\<bar> \<le> x / 2 ^ 53"
proof -
  define e where "e = ilog2 (nat \<lfloor>x\<rfloor>)"
  define u where "u = pow2 (int e - 52)"
  have u: "0 < u" by (simp add: u_def pow2_pos)
  have "\<bar>of_int (round_half_even (x / u)) - x / u\<bar> \<le> 1 / 2"
    by (rule round_half_even_near)
  then have "\<bar>of_int (round_half_even (x / u)) - x / u\<bar> * u \<le> 1 / 2 * u"
    using u by (simp only: mult_le_cancel_right_pos)
  moreover have "\<bar>of_int (round_half_even (x / u)) - x / u\<bar> * u =
      \<bar>(of_int (round_half_even (x / u)) - x / u) * u\<bar>"
    using u by (simp add: abs_mult)
  moreover have "(of_int (round_half_even (x / u)) - x / u) * u =
      of_int (round_half_even (x / u)) * u - x"
    using u by (simp add: field_simps)
  ultimately have near: "\<bar>round_double x - x\<bar> \<le> u / 2"
    using assms by (simp add: round_double_ge1 e_def u_def)
  have "u * 2 ^ 53 = 2 * 2 ^ e" unfolding u_def by (rule pow2_shift)
  moreover have "2 ^ e \<le> x" unfolding e_def using assms by (rule binary_exponent_bounds)
  ultimately have "u * 2 ^ 53 \<le> 2 * x" by simp
  then have "u / 2 \<le> x / 2 ^ 53" by (simp add: field_simps)
  with near show ?thesis by linarith
qed

lemma round_double_nonneg: "0 \<le> x \<Longrightarrow> 0 \<le> round_double x"
  by (simp add: round_double_def Let_def pow2_pos less_imp_le round_half_even_nonneg sgn_if)

lemma js_div_near:
  assumes "0 < d" "d \<le> num"
  shows "\<bar>js_div num d - num / d\<bar> \<le> num / d / 2 ^ 53"
  unfolding js_div_def using assms by (intro round_double_near) simp

lemma js_div_nonneg: "0 \<le> num \<Longrightarrow> 0 < d \<Longrightarrow> 0 \<le> js_div num d"
  unfolding js_div_def by (rule round_double_nonneg) simp

lemma js_div_upper:
  assumes "0 < d" "d \<le> num" "num < 1000 * d"
  shows "js_div num d < 10 ^ 21"
proof -
  have "num / d < 1000" using assms by (simp add: field_simps)
  moreover have "js_div num d \<le> num / d + num / d / 2 ^ 53"
    using js_div_near[OF assms(1,2)] by linarith
  ultimately show ?thesis by simp
qed

lemma js_div_evals:
  "js_div 3800000000000 (10 ^ 12) = 4278419646001971 / 2 ^ 50"
  "js_div 1005000000000 (10 ^ 12) = 1131529406376837 / 2 ^ 50"
  "js_div 125000000000 (10 ^ 9) = 125"
  "js_div 2500000000 (10 ^ 9) = 5 / 2"
  "js_div 2500000 (10 ^ 6) = 5 / 2"
  "js_div 999999999999999945575230987042816 (10 ^ 12) = 10 ^ 21"
  by (simp_all add: js_div_def round_double_def binary_exponent_def ilog2.simps pow2_def
      round_half_even_def Let_def)

lemma double_literals:
  "round_double 109554.23 = 7528509359815393 / 2 ^ 36"
  "round_double 1.57 = 7070651414971679 / 2 ^ 52"
  "round_double (- 1.52) = - (3422735716801577 / 2 ^ 51)"
  "round_double 1.005 = 1131529406376837 / 2 ^ 50"
  by (simp_all add: round_double_def binary_exponent_def ilog2.simps pow2_def
      round_half_even_def Let_def)

lemma sample_doubles:
  "is_double 3800000000000"
  "is_double 1005000000000"
  "is_double 125000000000"
  "is_double 2500000000"
  "is_double 2500000"
  "is_double (- 5)"
  "is_double 56.5"
  "is_double (7528509359815393 / 2 ^ 36)"
  "is_double (7070651414971679 / 2 ^ 52)"
  "is_double (- (3422735716801577 / 2 ^ 51))"
  "is_double (1131529406376837 / 2 ^ 50)"
  "is_double 999999999999999945575230987042816"
  by (simp_all add: is_double_def round_double_def binary_exponent_def ilog2.simps pow2_def
      round_half_even_def Let_def)

lemma formatCurrency_cases:
  "(10 ^ 12 \<le> num \<and> js_div num (10 ^ 12) < 10 ^ 21 \<longrightarrow>
      formatCurrency pf num = ''$'' @ decimal2 (js_div num (10 ^ 12)) @ ''T'') \<and>
   (10 ^ 9 \<le> num \<and> num < 10 ^ 12 \<longrightarrow>
      formatCurrency pf num = ''$'' @ decimal2 (js_div num (10 ^ 9)) @ ''B'') \<and>
   (10 ^ 6 \<le> num \<and> num < 10 ^ 9 \<longrightarrow>
      formatCurrency pf num = ''$'' @ decimal2 (js_div num (10 ^ 6)) @ ''M'') \<and>
   (0 \<le> num \<and> num < 10 ^ 6 \<longrightarrow> formatCurrency pf num = ''$'' @ decimal2 num) \<and>
   (- (10 ^ 21) < num \<and> num < 0 \<longrightarrow> formatCurrency pf num = ''$-'' @ decimal2 (- num))"
proof (intro conjI impI)
  assume a: "10 ^ 12 \<le> num \<and> js_div num (10 ^ 12) < 10 ^ 21"
  then have "0 \<le> js_div num (10 ^ 12)" by (intro js_div_nonneg) simp_all
  with a have "\<bar>js_div num (10 ^ 12)\<bar> < 10 ^ 21" "\<not> js_div num (10 ^ 12) < 0" by simp_all
  with a show "formatCurrency pf num = ''$'' @ decimal2 (js_div num (10 ^ 12)) @ ''T''"
    by (simp add: formatCurrency_def toFixed_two)
next
  assume a: "10 ^ 9 \<le> num \<and> num < 10 ^ 12"
  then have "0 \<le> js_div num (10 ^ 9)" by (intro js_div_nonneg) simp_all
  moreover from a have "js_div num (10 ^ 9) < 10 ^ 21" by (intro js_div_upper) simp_all
  ultimately have "\<bar>js_div num (10 ^ 9)\<bar> < 10 ^ 21" "\<not> js_div num (10 ^ 9) < 0" by simp_all
  with a show "formatCurrency pf num = ''$'' @ decimal2 (js_div num (10 ^ 9)) @ ''B''"
    by (simp add: formatCurrency_def toFixed_two)
next
  assume a: "10 ^ 6 \<le> num \<and> num < 10 ^ 9"
  then have "0 \<le> js_div num (10 ^ 6)" by (intro js_div_nonneg) simp_all
  moreover from a have "js_div num (10 ^ 6) < 10 ^ 21" by (intro js_div_upper) simp_all
  ultimately have "\<bar>js_div num (10 ^ 6)\<bar> < 10 ^ 21" "\<not> js_div num (10 ^ 6) < 0" by simp_all
  with a show "formatCurrency pf num = ''$'' @ decimal2 (js_div num (10 ^ 6)) @ ''M''"
    by (simp add: formatCurrency_def toFixed_two)
next
  assume a: "0 \<le> num \<and> num < 10 ^ 6"
  then have "\<bar>num\<bar> < 10 ^ 21" by simp
  with a show "formatCurrency pf num = ''$'' @ decimal2 num"
    by (simp add: formatCurrency_def toFixed_two)
next
  assume a: "- (10 ^ 21) < num \<and> num < 0"
  then have "\<bar>num\<bar> < 10 ^ 21" by simp
  with a show "formatCurrency pf num = ''$-'' @ decimal2 (- num)"
    by (simp add: formatCurrency_def toFixed_two)
qed

lemma formatPercent_cases:
  "(0 \<le> pct \<and> pct < 10 ^ 21 \<longrightarrow> formatPercent pf pct = ''+'' @ decimal2 pct @ ''%'') \<and>
   (- (10 ^ 21) < pct \<and> pct < 0 \<longrightarrow> formatPercent pf pct = ''-'' @ decimal2 (- pct) @ ''%'')"
proof (intro conjI impI)
  assume a: "0 \<le> pct \<and> pct < 10 ^ 21"
  then have "\<bar>pct\<bar> < 10 ^ 21" by simp
  with a show "formatPercent pf pct = ''+'' @ decimal2 pct @ ''%''"
    by (simp add: formatPercent_def toFixed_two)
next
  assume a: "- (10 ^ 21) < pct \<and> pct < 0"
  then have "\<bar>pct\<bar> < 10 ^ 21" by simp
  with a show "formatPercent pf pct = ''-'' @ decimal2 (- pct) @ ''%''"
    by (simp add: formatPercent_def toFixed_two)
qed

lemma decimal2_example: "decimal2 (5 / 2) = ''2.50''"
  by (simp add: decimal2_def digits.simps digit_char_def)

lemma formatCurrency_example: "formatCurrency pf 2500000000 = ''$2.50B''"
proof -
  have "formatCurrency pf 2500000000 = ''$'' @ decimal2 (js_div 2500000000 (10 ^ 9)) @ ''B''"
    using formatCurrency_cases[of 2500000000 pf] by simp
  then show ?thesis unfolding js_div_evals by (simp add: decimal2_example)
qed

lemma formatCurrency_sample_cap: "formatCurrency pf 3800000000000 = ''$3.80T''"
proof -
  have "js_div 3800000000000 (10 ^ 12) < 10 ^ 21" unfolding js_div_evals by simp
  then have "formatCurrency pf 3800000000000 =
      ''$'' @ decimal2 (js_div 3800000000000 (10 ^ 12)) @ ''T''"
    using formatCurrency_cases[of 3800000000000 pf] by simp
  moreover have "decimal2 (4278419646001971 / 2 ^ 50) = ''3.80''"
    by (simp add: decimal2_def digits.simps digit_char_def)
  ultimately show ?thesis unfolding js_div_evals by simp
qed

lemma dominance_rows:
  "sublist (''| BTC Dominance | '' @
       toFixed pf 1 (GlobalView.btc_dominance (global (market_overview (data r)))) @ ''% |'')
     (generateMarkdownReport pf r) \<and>
   sublist (''| ETH Dominance | '' @
       toFixed pf 1 (GlobalView.eth_dominance (global (market_overview (data r)))) @ ''% |'')
     (generateMarkdownReport pf r) \<and>
   sublist (''**Confidence Level:** '' @
       numberToString pf (confidence (ai_insights (data r))) @ ''%'')
     (generateMarkdownReport pf r)"
proof -
  have b: "concat (take 3 (drop 55 (template_pieces pf r))) =
      ''| BTC Dominance | '' @
       toFixed pf 1 (GlobalView.btc_dominance (global (market_overview (data r)))) @ ''% |''"
    by (simp add: template_pieces_def Let_def)
  have e: "concat (take 3 (drop 59 (template_pieces pf r))) =
      ''| ETH Dominance | '' @
       toFixed pf 1 (GlobalView.eth_dominance (global (market_overview (data r)))) @ ''% |''"
    by (simp add: template_pieces_def Let_def)
  have c: "concat (take 3 (drop 32 (template_pieces pf r))) =
      ''**Confidence Level:** '' @
       numberToString pf (confidence (ai_insights (data r))) @ ''%''"
    by (simp add: template_pieces_def Let_def)
  show ?thesis
    using sublist_concat_slice[of 3 55 "template_pieces pf r"]
      sublist_concat_slice[of 3 59 "template_pieces pf r"]
      sublist_concat_slice[of 3 32 "template_pieces pf r"]
    unfolding b e c generateMarkdownReport_def by (intro conjI)
qed

lemma toFixed_1_sample: "toFixed pf 1 56.5 = ''56.5''"
proof -
  have "digits 565 = ''565''" by (simp add: digits.simps digit_char_def)
  then show ?thesis by (simp add: toFixed_def Let_def)
qed

lemma dominance_sample:
  "sublist ''| BTC Dominance | 56.5% |'' (generateMarkdownReport pf sample_report)"
proof -
  have d: "GlobalView.btc_dominance (global (market_overview (data sample_report))) = 56.5"
    by (simp add: sample_report_def sample_overview_def)
  have "sublist (''| BTC Dominance | '' @ toFixed pf 1 56.5 @ ''% |'')
      (generateMarkdownReport pf sample_report)"
    using dominance_rows[of pf sample_report, THEN conjunct1] unfolding d .
  then show ?thesis unfolding toFixed_1_sample by simp
qed

lemma crypto_row_volume: "crypto_row pf (c\<lparr>TopCrypto.volume_24h := v\<rparr>) = crypto_row pf c"
  by (simp add: crypto_row_def)

lemma pair_row_unshown:
  "pair_row pf (p\<lparr>priceChange24h := a, high24h := b, low24h := c, volume24h := d\<rparr>) =
     pair_row pf p"
  by (simp add: pair_row_def)

lemma markdown_other:
  "generateMarkdownReport pf sample_report_other = generateMarkdownReport pf sample_report"
  by (simp add: generateMarkdownReport_def template_pieces_def Let_def sample_report_other_def
      sample_report_def crypto_row_volume pair_row_unshown o_def array_slice_0_10 take_map)

lemma other_differs: "sample_report_other \<noteq> sample_report"
proof
  assume "sample_report_other = sample_report"
  then have "generation_duration_ms (Report.meta sample_report_other) =
      generation_duration_ms (Report.meta sample_report)" by simp
  then show False by (simp add: sample_report_other_def sample_report_def)
qed

subsection \<open>What the text rendering depends on\<close>

lemma map_cong_via:
  assumes eq: "map f xs = map f ys" and via: "\<And>a b. f a = f b \<Longrightarrow> g a = g b"
  shows "map g xs = map g ys"
proof -
  from eq have "length xs = length ys" by (rule map_eq_imp_length_eq)
  then show ?thesis using eq
  proof (induction xs ys rule: list_induct2)
    case Nil
    show ?case by simp
  next
    case (Cons x xs y ys)
    from Cons.prems have "f x = f y" and rest: "map f xs = map f ys" by simp_all
    from \<open>f x = f y\<close> have "g x = g y" by (rule via)
    moreover from rest have "map g xs = map g ys" by (rule Cons.IH)
    ultimately show ?case by simp
  qed
qed

lemma markdown_of_view:
  assumes "text_view r = text_view r'"
  shows "generateMarkdownReport pf r = generateMarkdownReport pf r'"
proof -
  from assms have head: "report_id r = report_id r'" "generated_at r = generated_at r'"
      "version (Report.meta r) = version (Report.meta r')"
      "data_sources (Report.meta r) = data_sources (Report.meta r')"
    and ins: "summary (ai_insights (data r)) = summary (ai_insights (data r'))"
      "sentiment (ai_insights (data r)) = sentiment (ai_insights (data r'))"
      "confidence (ai_insights (data r)) = confidence (ai_insights (data r'))"
      "key_points (ai_insights (data r)) = key_points (ai_insights (data r'))"
      "MarketInsight.opportunities (ai_insights (data r)) =
         MarketInsight.opportunities (ai_insights (data r'))"
      "risks (ai_insights (data r)) = risks (ai_insights (data r'))"
      "recommendation (ai_insights (data r)) = recommendation (ai_insights (data r'))"
    and glob: "global (market_overview (data r)) = global (market_overview (data r'))"
    and items: "map (\<lambda>c. (rank c, TopCrypto.name c, TopCrypto.symbol c, TopCrypto.price c,
          TopCrypto.percent_change_24h c, TopCrypto.percent_change_7d c,
          TopCrypto.market_cap c)) (top_cryptos (market_overview (data r))) =
        map (\<lambda>c. (rank c, TopCrypto.name c, TopCrypto.symbol c, TopCrypto.price c,
          TopCrypto.percent_change_24h c, TopCrypto.percent_change_7d c,
          TopCrypto.market_cap c)) (top_cryptos (market_overview (data r')))"
    and prs: "map (\<lambda>p. (BinanceMarketSummary.symbol p, BinanceMarketSummary.price p,
          priceChangePercent24h p, quoteVolume24h p))
          (take 10 (pairs (trading_summary (data r)))) =
        map (\<lambda>p. (BinanceMarketSummary.symbol p, BinanceMarketSummary.price p,
          priceChangePercent24h p, quoteVolume24h p))
          (take 10 (pairs (trading_summary (data r'))))"
    by (simp_all add: text_view_def Let_def)
  have rows: "map (crypto_row pf) (top_cryptos (market_overview (data r))) =
      map (crypto_row pf) (top_cryptos (market_overview (data r')))"
    using items by (rule map_cong_via) (simp add: crypto_row_def)
  have prows: "map (pair_row pf) (take 10 (pairs (trading_summary (data r)))) =
      map (pair_row pf) (take 10 (pairs (trading_summary (data r'))))"
    using prs by (rule map_cong_via) (simp add: pair_row_def)
  have "template_pieces pf r = template_pieces pf r'"
    unfolding template_pieces_def Let_def array_slice_0_10
    by (simp only: head ins glob rows prows)
  then show ?thesis by (simp only: generateMarkdownReport_def)
qed

lemma text_view_other: "text_view sample_report_other = text_view sample_report"
  by (simp add: text_view_def Let_def sample_report_other_def sample_report_def
      sample_overview_def sample_trading_def sample_insight_def)

lemma text_view_eleven:
  "text_view (eleven_pairs sample_pair_eth) = text_view (eleven_pairs (hd (pairs sample_trading)))"
  by (simp add: text_view_def Let_def eleven_pairs_def)

lemma eleven_differ:
  "eleven_pairs sample_pair_eth \<noteq> eleven_pairs (hd (pairs sample_trading))"
proof
  assume "eleven_pairs sample_pair_eth = eleven_pairs (hd (pairs sample_trading))"
  then have "pairs (trading_summary (data (eleven_pairs sample_pair_eth))) =
      pairs (trading_summary (data (eleven_pairs (hd (pairs sample_trading)))))" by simp
  then have "sample_pair_eth = hd (pairs sample_trading)"
    by (simp add: eleven_pairs_def)
  then have "BinanceMarketSummary.symbol sample_pair_eth =
      BinanceMarketSummary.symbol (hd (pairs sample_trading))" by simp
  then show False by (simp add: sample_pair_eth_def sample_trading_def)
qed

subsection \<open>Claims about the renderer\<close>

text \<open>
  C5, as amended. For every report (every field present and every number finite, as the
  canonical structure types them) the structured rendering is lossless: reports that
  differ in any field have different structured renderings, so that the canonical report
  can be read back from its rendering. The text rendering contains, each as formatted,
  the report id, the generation time, the version and the data sources, the insight's
  summary, sentiment, confidence, key points, opportunities, risks and recommendation, the
  six global metrics, for every listed cryptocurrency its rank, name, symbol, price, two
  changes and market capitalisation, and for each of the first ten trading pairs its
  symbol, price, change and quote volume. It renders nothing else: two reports that agree
  on these fields have the same text rendering, whatever their other fields and their
  trading pairs past the tenth.
\<close>

theorem renderings_of_a_report:
  "(json_of_report r = json_of_report r' \<longrightarrow> r = r') \<and>
   (\<exists>reader. \<forall>report. reader (json_of_report report) = report) \<and>
   list_all (\<lambda>x. sublist x (generateMarkdownReport pf r)) (rendered_fields pf r) \<and>
   (text_view r = text_view r' \<longrightarrow>
      generateMarkdownReport pf r = generateMarkdownReport pf r')"
proof -
  have "json_of_report r = json_of_report r' \<longrightarrow> r = r'"
    by (simp add: json_of_report_eq)
  moreover have "text_view r = text_view r' \<longrightarrow>
      generateMarkdownReport pf r = generateMarkdownReport pf r'"
    using markdown_of_view by (rule impI)
  ultimately show ?thesis
    using report_reader all_rendered by (intro conjI)
qed

theorem renderings_of_a_report_witness:
  "\<forall>pf. text_view sample_report_other = text_view sample_report \<and>
     generateMarkdownReport pf sample_report_other = generateMarkdownReport pf sample_report \<and>
     json_of_report sample_report_other \<noteq> json_of_report sample_report \<and>
     eleven_pairs sample_pair_eth \<noteq> eleven_pairs (hd (pairs sample_trading)) \<and>
     generateMarkdownReport pf (eleven_pairs sample_pair_eth) =
       generateMarkdownReport pf (eleven_pairs (hd (pairs sample_trading))) \<and>
     json_of_report (eleven_pairs sample_pair_eth) \<noteq>
       json_of_report (eleven_pairs (hd (pairs sample_trading))) \<and>
     sublist ''rpt_1762045200000_3f2a9c1e'' (generateMarkdownReport pf sample_report) \<and>
     sublist ''$3.80T'' (generateMarkdownReport pf sample_report)"
proof (rule allI)
  fix pf
  have cap: "formatCurrency pf 3800000000000 = ''$3.80T''"
    by (rule formatCurrency_sample_cap)
  have id_field: "''rpt_1762045200000_3f2a9c1e'' \<in> set (rendered_fields pf sample_report)"
    by (simp add: rendered_fields_def Let_def sample_report_def)
  have cap_field: "formatCurrency pf 3800000000000 \<in> set (rendered_fields pf sample_report)"
    by (simp add: rendered_fields_def Let_def sample_report_def sample_overview_def)
  note at_sample = renderings_of_a_report[of sample_report_other sample_report pf]
  note at_eleven = renderings_of_a_report[of "eleven_pairs sample_pair_eth"
      "eleven_pairs (hd (pairs sample_trading))" pf]
  note at_self = renderings_of_a_report[of sample_report sample_report pf]
  from at_sample have same: "generateMarkdownReport pf sample_report_other =
      generateMarkdownReport pf sample_report"
    using text_view_other by simp
  from at_sample have differ: "json_of_report sample_report_other \<noteq> json_of_report sample_report"
    using other_differs by blast
  from at_eleven have same11: "generateMarkdownReport pf (eleven_pairs sample_pair_eth) =
      generateMarkdownReport pf (eleven_pairs (hd (pairs sample_trading)))"
    using text_view_eleven by simp
  from at_eleven have differ11: "json_of_report (eleven_pairs sample_pair_eth) \<noteq>
      json_of_report (eleven_pairs (hd (pairs sample_trading)))"
    using eleven_differ by blast
  from at_self have all: "list_all (\<lambda>x. sublist x (generateMarkdownReport pf sample_report))
      (rendered_fields pf sample_report)"
    by simp
  from all id_field have id_shown: "sublist ''rpt_1762045200000_3f2a9c1e''
      (generateMarkdownReport pf sample_report)"
    by (simp add: list_all_iff)
  from all cap_field have "sublist (formatCurrency pf 3800000000000)
      (generateMarkdownReport pf sample_report)"
    by (simp add: list_all_iff)
  then have cap_shown: "sublist ''$3.80T'' (generateMarkdownReport pf sample_report)"
    unfolding cap .
  show "text_view sample_report_other = text_view sample_report \<and>
     generateMarkdownReport pf sample_report_other = generateMarkdownReport pf sample_report \<and>
     json_of_report sample_report_other \<noteq> json_of_report sample_report \<and>
     eleven_pairs sample_pair_eth \<noteq> eleven_pairs (hd (pairs sample_trading)) \<and>
     generateMarkdownReport pf (eleven_pairs sample_pair_eth) =
       generateMarkdownReport pf (eleven_pairs (hd (pairs sample_trading))) \<and>
     json_of_report (eleven_pairs sample_pair_eth) \<noteq>
       json_of_report (eleven_pairs (hd (pairs sample_trading))) \<and>
     sublist ''rpt_1762045200000_3f2a9c1e'' (generateMarkdownReport pf sample_report) \<and>
     sublist ''$3.80T'' (generateMarkdownReport pf sample_report)"
    using text_view_other same differ eleven_differ same11 differ11 id_shown cap_shown
    by (intro conjI)
qed

theorem markdown_omits_fields_counterexample:
  "sample_report_other \<noteq> sample_report \<and>
   (\<forall>pf. generateMarkdownReport pf sample_report_other =
      generateMarkdownReport pf sample_report) \<and>
   generation_duration_ms (Report.meta sample_report) = 1250 \<and>
   generation_duration_ms (Report.meta sample_report_other) = 980 \<and>
   map TopCrypto.volume_24h (top_cryptos (market_overview (data sample_report))) =
     [35000000000, 18000000000] \<and>
   map TopCrypto.volume_24h (top_cryptos (market_overview (data sample_report_other))) =
     [0, 0]"
proof -
  have "generation_duration_ms (Report.meta sample_report) = 1250"
    by (simp add: sample_report_def)
  moreover have "generation_duration_ms (Report.meta sample_report_other) = 980"
    by (simp add: sample_report_other_def sample_report_def)
  moreover have "map TopCrypto.volume_24h (top_cryptos (market_overview (data sample_report))) =
      [35000000000, 18000000000]"
    by (simp add: sample_report_def sample_overview_def)
  moreover have
    "map TopCrypto.volume_24h (top_cryptos (market_overview (data sample_report_other))) = [0, 0]"
    by (simp add: sample_report_other_def sample_report_def sample_overview_def)
  ultimately show ?thesis
    using other_differs markdown_other by simp
qed

text \<open>
  C8, as amended. For every number, that is for every double, \<^verbatim>\<open>formatCurrency\<close>
  follows the fixed policy: a value from \<open>10\<^sup>1\<^sup>2\<close> renders with suffix T, from \<open>10\<^sup>9\<close> with
  B, from \<open>10\<^sup>6\<close> with M, each as its quotient by that power of ten with 2 decimals, and any
  other value as plain currency with 2 decimals; 2,500,000,000 renders as \<^verbatim>\<open>$2.50B\<close>.
  The quotient is the one the code computes, in double precision: the double nearest to
  the exact quotient, within \<open>2\<^sup>-\<^sup>5\<^sup>3\<close> of it relatively. The two decimals are those of the
  hundredth nearest to the number printed (the larger of two), so that 1,005,000,000,000
  renders as \<^verbatim>\<open>$1.00T\<close>. All this holds while the number printed, quotient or plain
  value, is below \<open>10\<^sup>2\<^sup>1\<close> in magnitude. Every percentage change, rendered by
  \<^verbatim>\<open>formatPercent\<close>, carries an explicit sign and 2 decimals. The dominance
  percentages of the text report are rendered by \<^verbatim>\<open>toFixed(1)\<close>, with one decimal and
  no plus sign, and the confidence as the plain number.
\<close>

theorem numeric_formatting_policy:
  "(is_double num \<and> 10 ^ 12 \<le> num \<and> js_div num (10 ^ 12) < 10 ^ 21 \<longrightarrow>
      formatCurrency pf num = ''$'' @ decimal2 (js_div num (10 ^ 12)) @ ''T'') \<and>
   (is_double num \<and> 10 ^ 9 \<le> num \<and> num < 10 ^ 12 \<longrightarrow>
      formatCurrency pf num = ''$'' @ decimal2 (js_div num (10 ^ 9)) @ ''B'') \<and>
   (is_double num \<and> 10 ^ 6 \<le> num \<and> num < 10 ^ 9 \<longrightarrow>
      formatCurrency pf num = ''$'' @ decimal2 (js_div num (10 ^ 6)) @ ''M'') \<and>
   (is_double num \<and> 0 \<le> num \<and> num < 10 ^ 6 \<longrightarrow>
      formatCurrency pf num = ''$'' @ decimal2 num) \<and>
   (is_double num \<and> - (10 ^ 21) < num \<and> num < 0 \<longrightarrow>
      formatCurrency pf num = ''$-'' @ decimal2 (- num)) \<and>
   (0 < d \<and> d \<le> num \<longrightarrow> \<bar>js_div num d - num / d\<bar> \<le> num / d / 2 ^ 53) \<and>
   formatCurrency pf 2500000000 = ''$2.50B'' \<and>
   (is_double pct \<and> 0 \<le> pct \<and> pct < 10 ^ 21 \<longrightarrow>
      formatPercent pf pct = ''+'' @ decimal2 pct @ ''%'') \<and>
   (is_double pct \<and> - (10 ^ 21) < pct \<and> pct < 0 \<longrightarrow>
      formatPercent pf pct = ''-'' @ decimal2 (- pct) @ ''%'') \<and>
   (\<exists>ip d1 d2. decimal2 x = ip @ [CHR ''.'', d1, d2] \<and> ip \<noteq> [] \<and>
      set (ip @ [d1, d2]) \<subseteq> set ''0123456789'') \<and>
   (0 \<le> x \<longrightarrow> \<bar>real (nat \<lfloor>x * 100 + 1 / 2\<rfloor>) / 100 - x\<bar> \<le> 1 / 200) \<and>
   sublist (''| BTC Dominance | '' @
       toFixed pf 1 (GlobalView.btc_dominance (global (market_overview (data r)))) @ ''% |'')
     (generateMarkdownReport pf r) \<and>
   sublist (''| ETH Dominance | '' @
       toFixed pf 1 (GlobalView.eth_dominance (global (market_overview (data r)))) @ ''% |'')
     (generateMarkdownReport pf r) \<and>
   sublist (''**Confidence Level:** '' @
       numberToString pf (confidence (ai_insights (data r))) @ ''%'')
     (generateMarkdownReport pf r)"
proof -
  note c = formatCurrency_cases[of num pf]
  note p = formatPercent_cases[of pct pf]
  note d = dominance_rows[of pf r]
  have c1: "is_double num \<and> 10 ^ 12 \<le> num \<and> js_div num (10 ^ 12) < 10 ^ 21 \<longrightarrow>
      formatCurrency pf num = ''$'' @ decimal2 (js_div num (10 ^ 12)) @ ''T''"
    using c[THEN conjunct1] by blast
  have c2: "is_double num \<and> 10 ^ 9 \<le> num \<and> num < 10 ^ 12 \<longrightarrow>
      formatCurrency pf num = ''$'' @ decimal2 (js_div num (10 ^ 9)) @ ''B''"
    using c[THEN conjunct2, THEN conjunct1] by blast
  have c3: "is_double num \<and> 10 ^ 6 \<le> num \<and> num < 10 ^ 9 \<longrightarrow>
      formatCurrency pf num = ''$'' @ decimal2 (js_div num (10 ^ 6)) @ ''M''"
    using c[THEN conjunct2, THEN conjunct2, THEN conjunct1] by blast
  have c4: "is_double num \<and> 0 \<le> num \<and> num < 10 ^ 6 \<longrightarrow>
      formatCurrency pf num = ''$'' @ decimal2 num"
    using c[THEN conjunct2, THEN conjunct2, THEN conjunct2, THEN conjunct1] by blast
  have c5: "is_double num \<and> - (10 ^ 21) < num \<and> num < 0 \<longrightarrow>
      formatCurrency pf num = ''$-'' @ decimal2 (- num)"
    using c[THEN conjunct2, THEN conjunct2, THEN conjunct2, THEN conjunct2] by blast
  have quot: "0 < d \<and> d \<le> num \<longrightarrow> \<bar>js_div num d - num / d\<bar> \<le> num / d / 2 ^ 53"
    using js_div_near[of d num] by simp
  have p1: "is_double pct \<and> 0 \<le> pct \<and> pct < 10 ^ 21 \<longrightarrow>
      formatPercent pf pct = ''+'' @ decimal2 pct @ ''%''"
    using p[THEN conjunct1] by blast
  have p2: "is_double pct \<and> - (10 ^ 21) < pct \<and> pct < 0 \<longrightarrow>
      formatPercent pf pct = ''-'' @ decimal2 (- pct) @ ''%''"
    using p[THEN conjunct2] by blast
  have near: "0 \<le> x \<longrightarrow> \<bar>real (nat \<lfloor>x * 100 + 1 / 2\<rfloor>) / 100 - x\<bar> \<le> 1 / 200"
    using decimal2_nearest by (rule impI)
  show ?thesis
    using c1 c2 c3 c4 c5 quot formatCurrency_example[of pf] p1 p2
      decimal2_shape[of x] near d[THEN conjunct1] d[THEN conjunct2, THEN conjunct1]
      d[THEN conjunct2, THEN conjunct2]
    by (intro conjI)
qed

theorem numeric_formatting_policy_witness:
  "\<forall>pf. formatCurrency pf 3800000000000 = ''$3.80T'' \<and>
     formatCurrency pf 1005000000000 = ''$1.00T'' \<and>
     formatCurrency pf 125000000000 = ''$125.00B'' \<and>
     formatCurrency pf 2500000 = ''$2.50M'' \<and>
     formatCurrency pf (round_double 109554.23) = ''$109554.23'' \<and>
     formatCurrency pf (- 5) = ''$-5.00'' \<and>
     formatPercent pf (round_double 1.57) = ''+1.57%'' \<and>
     formatPercent pf (round_double (- 1.52)) = ''-1.52%'' \<and>
     formatPercent pf (round_double 1.005) = ''+1.00%'' \<and>
     js_div 1005000000000 (10 ^ 12) = 1131529406376837 / 2 ^ 50 \<and>
     \<bar>1131529406376837 / 2 ^ 50 - (1005000000000::real) / 10 ^ 12\<bar>
       \<le> 1005000000000 / 10 ^ 12 / 2 ^ 53 \<and>
     \<bar>real (nat \<lfloor>(109554.234::real) * 100 + 1 / 2\<rfloor>) / 100 - 109554.234\<bar> \<le> 1 / 200"
proof (rule allI)
  fix pf
  have d: "decimal2 (4278419646001971 / 2 ^ 50) = ''3.80''"
    "decimal2 (1131529406376837 / 2 ^ 50) = ''1.00''"
    "decimal2 125 = ''125.00''"
    "decimal2 (5 / 2) = ''2.50''"
    "decimal2 (7528509359815393 / 2 ^ 36) = ''109554.23''"
    "decimal2 (- (- 5)) = ''5.00''"
    "decimal2 (7070651414971679 / 2 ^ 52) = ''1.57''"
    "decimal2 (- (- (3422735716801577 / 2 ^ 51))) = ''1.52''"
    by (simp_all add: decimal2_def digits.simps digit_char_def)
  have below: "js_div 3800000000000 (10 ^ 12) < 10 ^ 21"
    "js_div 1005000000000 (10 ^ 12) < 10 ^ 21"
    unfolding js_div_evals by simp_all
  note t = numeric_formatting_policy[where pf = pf and num = "3800000000000", THEN conjunct1]
  note t' = numeric_formatting_policy[where pf = pf and num = "1005000000000", THEN conjunct1]
  note b = numeric_formatting_policy[where pf = pf and num = "125000000000",
      THEN conjunct2, THEN conjunct1]
  note m = numeric_formatting_policy[where pf = pf and num = "2500000",
      THEN conjunct2, THEN conjunct2, THEN conjunct1]
  note plain = numeric_formatting_policy[where pf = pf
      and num = "7528509359815393 / 2 ^ 36",
      THEN conjunct2, THEN conjunct2, THEN conjunct2, THEN conjunct1]
  note neg = numeric_formatting_policy[where pf = pf and num = "- 5",
      THEN conjunct2, THEN conjunct2, THEN conjunct2, THEN conjunct2, THEN conjunct1]
  note quot = numeric_formatting_policy[where pf = pf and num = "1005000000000"
      and d = "10 ^ 12",
      THEN conjunct2, THEN conjunct2, THEN conjunct2, THEN conjunct2, THEN conjunct2,
      THEN conjunct1]
  note up = numeric_formatting_policy[where pf = pf and pct = "7070651414971679 / 2 ^ 52",
      THEN conjunct2, THEN conjunct2, THEN conjunct2, THEN conjunct2, THEN conjunct2,
      THEN conjunct2, THEN conjunct2, THEN conjunct1]
  note tie = numeric_formatting_policy[where pf = pf and pct = "1131529406376837 / 2 ^ 50",
      THEN conjunct2, THEN conjunct2, THEN conjunct2, THEN conjunct2, THEN conjunct2,
      THEN conjunct2, THEN conjunct2, THEN conjunct1]
  note down = numeric_formatting_policy[where pf = pf
      and pct = "- (3422735716801577 / 2 ^ 51)",
      THEN conjunct2, THEN conjunct2, THEN conjunct2, THEN conjunct2, THEN conjunct2,
      THEN conjunct2, THEN conjunct2, THEN conjunct2, THEN conjunct1]
  note near = numeric_formatting_policy[where pf = pf and x = "109554.234::real",
      THEN conjunct2, THEN conjunct2, THEN conjunct2, THEN conjunct2, THEN conjunct2,
      THEN conjunct2, THEN conjunct2, THEN conjunct2, THEN conjunct2, THEN conjunct2,
      THEN conjunct1]
  have "formatCurrency pf 3800000000000 =
      ''$'' @ decimal2 (js_div 3800000000000 (10 ^ 12)) @ ''T''"
    using t below(1) sample_doubles(1) by simp
  then have c1: "formatCurrency pf 3800000000000 = ''$3.80T''"
    unfolding js_div_evals d by simp
  have "formatCurrency pf 1005000000000 =
      ''$'' @ decimal2 (js_div 1005000000000 (10 ^ 12)) @ ''T''"
    using t' below(2) sample_doubles(2) by simp
  then have c2: "formatCurrency pf 1005000000000 = ''$1.00T''"
    unfolding js_div_evals d by simp
  have "formatCurrency pf 125000000000 =
      ''$'' @ decimal2 (js_div 125000000000 (10 ^ 9)) @ ''B''"
    using b sample_doubles(3) by simp
  then have c3: "formatCurrency pf 125000000000 = ''$125.00B''"
    unfolding js_div_evals d by simp
  have "formatCurrency pf 2500000 = ''$'' @ decimal2 (js_div 2500000 (10 ^ 6)) @ ''M''"
    using m sample_doubles(5) by simp
  then have c4: "formatCurrency pf 2500000 = ''$2.50M''"
    unfolding js_div_evals d by simp
  have "formatCurrency pf (7528509359815393 / 2 ^ 36) =
      ''$'' @ decimal2 (7528509359815393 / 2 ^ 36)"
    using plain sample_doubles(8) by simp
  then have c5: "formatCurrency pf (round_double 109554.23) = ''$109554.23''"
    unfolding double_literals d by simp
  have c6: "formatCurrency pf (- 5) = ''$-5.00''"
    using neg d(6) sample_doubles(6) by simp
  have "formatPercent pf (7070651414971679 / 2 ^ 52) =
      ''+'' @ decimal2 (7070651414971679 / 2 ^ 52) @ ''%''"
    using up sample_doubles(9) by simp
  then have c7: "formatPercent pf (round_double 1.57) = ''+1.57%''"
    unfolding double_literals d by simp
  have "formatPercent pf (- (3422735716801577 / 2 ^ 51)) =
      ''-'' @ decimal2 (- (- (3422735716801577 / 2 ^ 51))) @ ''%''"
    using down sample_doubles(10) by simp
  then have c8: "formatPercent pf (round_double (- 1.52)) = ''-1.52%''"
    unfolding double_literals d by simp
  have "formatPercent pf (1131529406376837 / 2 ^ 50) =
      ''+'' @ decimal2 (1131529406376837 / 2 ^ 50) @ ''%''"
    using tie sample_doubles(11) by simp
  then have c9: "formatPercent pf (round_double 1.005) = ''+1.00%''"
    unfolding double_literals d by simp
  have c10: "js_div 1005000000000 (10 ^ 12) = 1131529406376837 / 2 ^ 50"
    by (rule js_div_evals)
  have "\<bar>js_div 1005000000000 (10 ^ 12) - (1005000000000::real) / 10 ^ 12\<bar>
      \<le> 1005000000000 / 10 ^ 12 / 2 ^ 53"
    using quot by simp
  then have c11: "\<bar>1131529406376837 / 2 ^ 50 - (1005000000000::real) / 10 ^ 12\<bar>
      \<le> 1005000000000 / 10 ^ 12 / 2 ^ 53"
    unfolding js_div_evals .
  have c12: "\<bar>real (nat \<lfloor>(109554.234::real) * 100 + 1 / 2\<rfloor>) / 100 - 109554.234\<bar> \<le> 1 / 200"
    using near by simp
  show "formatCurrency pf 3800000000000 = ''$3.80T'' \<and>
     formatCurrency pf 1005000000000 = ''$1.00T'' \<and>
     formatCurrency pf 125000000000 = ''$125.00B'' \<and>
     formatCurrency pf 2500000 = ''$2.50M'' \<and>
     formatCurrency pf (round_double 109554.23) = ''$109554.23'' \<and>
     formatCurrency pf (- 5) = ''$-5.00'' \<and>
     formatPercent pf (round_double 1.57) = ''+1.57%'' \<and>
     formatPercent pf (round_double (- 1.52)) = ''-1.52%'' \<and>
     formatPercent pf (round_double 1.005) = ''+1.00%'' \<and>
     js_div 1005000000000 (10 ^ 12) = 1131529406376837 / 2 ^ 50 \<and>
     \<bar>1131529406376837 / 2 ^ 50 - (1005000000000::real) / 10 ^ 12\<bar>
       \<le> 1005000000000 / 10 ^ 12 / 2 ^ 53 \<and>
     \<bar>real (nat \<lfloor>(109554.234::real) * 100 + 1 / 2\<rfloor>) / 100 - 109554.234\<bar> \<le> 1 / 200"
    using c1 c2 c3 c4 c5 c6 c7 c8 c9 c10 c11 c12 by (intro conjI)
qed

theorem dominance_percentage_counterexample:
  "GlobalView.btc_dominance (global (market_overview (data sample_report))) = 56.5 \<and>
   is_double 56.5 \<and>
   (\<forall>pf. sublist ''| BTC Dominance | 56.5% |'' (generateMarkdownReport pf sample_report)) \<and>
   (\<forall>pf. formatPercent pf 56.5 = ''+56.50%'') \<and>
   is_double 999999999999999945575230987042816 \<and>
   (999999999999999945575230987042816::real) / 10 ^ 12 < 10 ^ 21 \<and>
   (\<forall>pf. formatCurrency pf 999999999999999945575230987042816 =
      ''$'' @ numberToString pf (10 ^ 21) @ ''T'')"
proof -
  have "GlobalView.btc_dominance (global (market_overview (data sample_report))) = 56.5"
    by (simp add: sample_report_def sample_overview_def)
  moreover have "formatPercent pf 56.5 = ''+56.50%''" for pf
  proof -
    have "decimal2 56.5 = ''56.50''"
      by (simp add: decimal2_def digits.simps digit_char_def)
    then show ?thesis
      by (simp add: formatPercent_def toFixed_two)
  qed
  moreover have "formatCurrency pf 999999999999999945575230987042816 =
      ''$'' @ numberToString pf (10 ^ 21) @ ''T''" for pf
  proof -
    have "formatCurrency pf 999999999999999945575230987042816 =
        ''$'' @ toFixed pf 2 (js_div 999999999999999945575230987042816 (10 ^ 12)) @ ''T''"
      by (simp add: formatCurrency_def)
    then show ?thesis
      unfolding js_div_evals by (simp add: toFixed_def)
  qed
  moreover have "(999999999999999945575230987042816::real) / 10 ^ 12 < 10 ^ 21"
    by simp
  ultimately show ?thesis
    using dominance_sample sample_doubles(7) sample_doubles(12) by simp
qed

end
